theory Spec2Isabelle
  imports Complex_Main "HOL-Library.Signed_Division"
begin

section \<open>Vectors\<close>

text \<open>
  A \<^verbatim>\<open>vec3_t\<close> is an array of three scalars. Its components are modelled as
  real numbers: every statement below is about exact arithmetic.
\<close>

type_synonym vec3 = "real \<times> real \<times> real"

text \<open>
  Modelled from the spec: the vector helpers \<^verbatim>\<open>DotProduct\<close>, \<^verbatim>\<open>CrossProduct\<close>,
  \<^verbatim>\<open>VectorMA\<close> and \<^verbatim>\<open>VectorNormalize\<close> come from the engine's \<^verbatim>\<open>mathlib.h\<close>, which
  is not among the sources. The spec names them as the dot product (\<open>x = right \<cdot> ray\<close>),
  the cross product (\<open>right = up \<times> forward\<close>), the multiply-add
  (\<open>dist\<cdot>forward + (u-0.5)\<cdot>right + ...\<close>) and normalisation to unit length, which
  leaves the zero vector as it is.
\<close>

fun DotProduct :: "vec3 \<Rightarrow> vec3 \<Rightarrow> real" where
  "DotProduct (a0, a1, a2) (b0, b1, b2) = a0 * b0 + a1 * b1 + a2 * b2"

fun CrossProduct :: "vec3 \<Rightarrow> vec3 \<Rightarrow> vec3" where
  "CrossProduct (a0, a1, a2) (b0, b1, b2) =
     (a1 * b2 - a2 * b1, a2 * b0 - a0 * b2, a0 * b1 - a1 * b0)"

fun VectorMA :: "vec3 \<Rightarrow> real \<Rightarrow> vec3 \<Rightarrow> vec3" where
  "VectorMA (a0, a1, a2) s (b0, b1, b2) = (a0 + s * b0, a1 + s * b1, a2 + s * b2)"

definition VectorLength :: "vec3 \<Rightarrow> real" where
  "VectorLength v = sqrt (DotProduct v v)"

definition VectorNormalize :: "vec3 \<Rightarrow> vec3" where
  "VectorNormalize v =
     (let l = VectorLength v
      in if l = 0 then v
         else (case v of (a0, a1, a2) \<Rightarrow> (a0 * (1 / l), a1 * (1 / l), a2 * (1 / l))))"

section \<open>The Lua runtime\<close>

text \<open>
  The values a script can hand back. A table is the list of its key/value pairs in the
  order \<^verbatim>\<open>lua_next\<close> walks them.
\<close>

datatype lua_value =
    LNil
  | LBoolean bool
  | LNumber real
  | LString string
  | LFunction nat
  | LTable "(lua_value \<times> lua_value) list"

text \<open>
  The Lua library itself is not part of the repository. What \<^verbatim>\<open>lens.c\<close> relies on and
  cannot be read off the value alone is kept as a parameter, passed where the C code
  passes the \<^verbatim>\<open>lua_State\<close>: how a string is read as a number, how a number is printed,
  how a number is cut to an integer, and what the function behind a function value
  returns for the numbers it is called with.
\<close>

record lua_State =
  str2number :: "string \<Rightarrow> real option"
  number2str :: "real \<Rightarrow> string"
  number2integer :: "real \<Rightarrow> int"
  closure :: "nat \<Rightarrow> real list \<Rightarrow> lua_value list"

definition lua_isnumber :: "lua_State \<Rightarrow> lua_value \<Rightarrow> bool" where
  "lua_isnumber L v =
     (case v of LNumber _ \<Rightarrow> True
              | LString s \<Rightarrow> str2number L s \<noteq> None
              | _ \<Rightarrow> False)"

definition lua_tonumber :: "lua_State \<Rightarrow> lua_value \<Rightarrow> real" where
  "lua_tonumber L v =
     (case v of LNumber r \<Rightarrow> r
              | LString s \<Rightarrow> (case str2number L s of Some r \<Rightarrow> r | None \<Rightarrow> 0)
              | _ \<Rightarrow> 0)"

definition lua_tointeger :: "lua_State \<Rightarrow> lua_value \<Rightarrow> int" where
  "lua_tointeger L v =
     (case v of LNumber r \<Rightarrow> number2integer L r
              | LString s \<Rightarrow> (case str2number L s of Some r \<Rightarrow> number2integer L r | None \<Rightarrow> 0)
              | _ \<Rightarrow> 0)"

definition lua_isnil :: "lua_value \<Rightarrow> bool" where
  "lua_isnil v = (v = LNil)"

definition lua_isfunction :: "lua_value \<Rightarrow> bool" where
  "lua_isfunction v = (case v of LFunction _ \<Rightarrow> True | _ \<Rightarrow> False)"

definition lua_isstring :: "lua_value \<Rightarrow> bool" where
  "lua_isstring v = (case v of LString _ \<Rightarrow> True | LNumber _ \<Rightarrow> True | _ \<Rightarrow> False)"

definition lua_tostring :: "lua_State \<Rightarrow> lua_value \<Rightarrow> string" where
  "lua_tostring L v =
     (case v of LString s \<Rightarrow> s | LNumber r \<Rightarrow> number2str L r | _ \<Rightarrow> [])"

text \<open>
  \<^verbatim>\<open>lua_tostring\<close> hands out a pointer to the characters of a Lua string, which may
  hold NUL characters; the C string that \<^verbatim>\<open>strcmp\<close> reads there ends before the first
  one. \<^verbatim>\<open>strcmp\<close> is \<open>0\<close> for equal C strings; of its other results only that
  they are not \<open>0\<close> is kept.
\<close>

definition c_str :: "string \<Rightarrow> string" where
  "c_str s = takeWhile (\<lambda>c. c \<noteq> CHR 0x00) s"

definition strcmp :: "string \<Rightarrow> string \<Rightarrow> int" where
  "strcmp a b = (if c_str a = c_str b then 0 else 1)"

definition lua_istable :: "lua_value \<Rightarrow> bool" where
  "lua_istable v = (case v of LTable _ \<Rightarrow> True | _ \<Rightarrow> False)"

text \<open>
  The value on top of the stack after a call with \<^verbatim>\<open>LUA_MULTRET\<close>: the last result.
  A call that returns nothing leaves no result there; it reads as nil.
\<close>

definition stack_top :: "lua_value list \<Rightarrow> lua_value" where
  "stack_top rets = (if rets = [] then LNil else last rets)"

section \<open>The globe\<close>

text \<open>
  One plate of the globe. The palette remap table plays no part in what follows and is
  left out. The array \<^verbatim>\<open>globe.plates\<close> is indexed by a C \<^verbatim>\<open>int\<close> without a bounds
  check, so it is a store from indices to plates.
\<close>

record plate =
  forward :: vec3
  right :: vec3
  up :: vec3
  fov :: real
  dist :: real
  display :: int

record globe =
  plates :: "int \<Rightarrow> plate"
  numplates :: int
  platesize :: int

definition MAX_PLATES :: int where
  "MAX_PLATES = 6"

text \<open>
  The references to the script's functions. \<^verbatim>\<open>-1\<close> (no function) is \<open>None\<close>; a
  reference stands for the function it calls, from its arguments to the list of values
  it returns.
\<close>

record lua_refs =
  lens_forward :: "(vec3 \<Rightarrow> lua_value list) option"
  lens_inverse :: "(real \<Rightarrow> real \<Rightarrow> lua_value list) option"
  globe_plate :: "(vec3 \<Rightarrow> lua_value list) option"

text \<open>\<^verbatim>\<open>lua_globe_plate\<close>: the return code and the plate written through the pointer.\<close>

definition lua_globe_plate ::
  "lua_State \<Rightarrow> (vec3 \<Rightarrow> lua_value list) \<Rightarrow> vec3 \<Rightarrow> int \<Rightarrow> int \<times> int" where
  "lua_globe_plate L f ray plate0 =
     (let v = stack_top (f ray)
      in if \<not> lua_isnumber L v then (0, plate0)
         else (1, lua_tointeger L v))"

text \<open>The loop of \<^verbatim>\<open>ray_to_plate_index\<close>, from index \<open>i\<close> on.\<close>

function plate_scan :: "globe \<Rightarrow> vec3 \<Rightarrow> int \<Rightarrow> real \<Rightarrow> int \<Rightarrow> int" where
  "plate_scan g ray i max_dp plate_index =
     (if i < numplates g then
        (let dp = DotProduct ray (forward (plates g i))
         in if dp > max_dp then plate_scan g ray (i + 1) dp i
            else plate_scan g ray (i + 1) max_dp plate_index)
      else plate_index)"
  by pat_completeness auto
termination
  by (relation "measure (\<lambda>(g, ray, i, max_dp, plate_index). nat (numplates g - i))") auto

declare plate_scan.simps [simp del]

definition ray_to_plate_index :: "lua_State \<Rightarrow> lua_refs \<Rightarrow> globe \<Rightarrow> vec3 \<Rightarrow> int" where
  "ray_to_plate_index L refs g ray =
     (case globe_plate refs of
        Some f \<Rightarrow>
          (case lua_globe_plate L f ray 0 of
             (ok, plate_index) \<Rightarrow> if ok \<noteq> 0 then plate_index else -1)
      | None \<Rightarrow> plate_scan g ray 0 (-2) 0)"

section \<open>C arithmetic\<close>

text \<open>
  The conversion of a \<^verbatim>\<open>double\<close> to an \<^verbatim>\<open>int\<close> drops the fraction (it rounds towards
  zero). Values beyond the range of \<^verbatim>\<open>int\<close> are not modelled.
\<close>

definition c_trunc :: "real \<Rightarrow> int" where
  "c_trunc x = (if 0 \<le> x then \<lfloor>x\<rfloor> else \<lceil>x\<rceil>)"

text \<open>
  \<^verbatim>\<open>fmod\<close> of the C library: the remainder with the sign of the dividend. For a zero
  divisor the C result is NaN, here \<open>None\<close>; a comparison with NaN is false.
\<close>

definition fmod :: "real \<Rightarrow> real \<Rightarrow> real option" where
  "fmod x y = (if y = 0 then None else Some (x - of_int (c_trunc (x / y)) * y))"

definition nan_less :: "real option \<Rightarrow> real \<Rightarrow> bool" where
  "nan_less r b = (case r of None \<Rightarrow> False | Some a \<Rightarrow> a < b)"

section \<open>The lens and the lens-map\<close>

datatype map_type_t = MAP_NONE | MAP_INVERSE | MAP_FORWARD

text \<open>
  \<^verbatim>\<open>lens.pixels\<close> holds for every screen pixel a pointer into \<^verbatim>\<open>globe.pixels\<close> or
  \<^verbatim>\<open>NULL\<close>: here the offset of the texel in \<^verbatim>\<open>globe.pixels\<close>, or \<open>None\<close>.
  \<^verbatim>\<open>lens.pixel_tints\<close> holds a byte per screen pixel. Both arrays are written through
  pointer arithmetic, so they are stores from offsets to cells.
\<close>

record lens =
  map_type :: map_type_t
  width :: real
  height :: real
  scale :: real
  width_px :: int
  height_px :: int
  pixels :: "int \<Rightarrow> int option"
  pixel_tints :: "int \<Rightarrow> int"

record rubix =
  numcells :: int
  cell_size :: real
  pad_size :: real

text \<open>
  Where \<^verbatim>\<open>framesize\<close> points: nowhere, to \<^verbatim>\<open>lens.width_px\<close> or to \<^verbatim>\<open>lens.height_px\<close>.
\<close>

datatype framesize_ptr = FS_NULL | FS_WIDTH_PX | FS_HEIGHT_PX

text \<open>
  The progress of the lens-map builder, kept between frames. The two scanline buffers
  of the forward build are allocated arrays; \<open>rows\<close> holds what is stored in each,
  and \<open>forward_top\<close> and \<open>forward_bot\<close> are the pointers to them. The start time
  and the time allowed per frame are replaced by the answers of the clock, a parameter
  of the two builders.
\<close>

datatype row_ptr = ROW_A | ROW_B

record lens_builder =
  working :: bool
  inverse_ly :: int
  forward_top :: row_ptr
  forward_bot :: row_ptr
  forward_plate_index :: int
  forward_py :: int
  rows :: "row_ptr \<Rightarrow> int \<Rightarrow> int"

text \<open>
  The file-scope variables of \<^verbatim>\<open>lens.c\<close> that the functions below read or write.
  \<open>globals\<close> is the table of the script's global variables (absent is nil). The
  desired field of view, \<^verbatim>\<open>fov\<close> in the C file, is \<open>desired_fov\<close> here, since a plate
  has a field \<open>fov\<close> of its own.
\<close>

record fisheye =
  globals :: "string \<Rightarrow> lua_value"
  lua_refs :: lua_refs
  globe :: globe
  lens :: lens
  rubix :: rubix
  lens_builder :: lens_builder
  desired_fov :: real
  fit :: int
  hfit :: int
  vfit :: int
  framesize :: framesize_ptr
  max_hfov :: real
  max_vfov :: real

definition GLOBEPIXEL :: "globe \<Rightarrow> int \<Rightarrow> int \<Rightarrow> int \<Rightarrow> int" where
  "GLOBEPIXEL g plate_index x y =
     plate_index * platesize g * platesize g + x + y * platesize g"

definition LENSPIXEL :: "lens \<Rightarrow> int \<Rightarrow> int \<Rightarrow> int" where
  "LENSPIXEL l x y = x + y * width_px l"

definition LENSPIXELTINT :: "lens \<Rightarrow> int \<Rightarrow> int \<Rightarrow> int" where
  "LENSPIXELTINT l x y = x + y * width_px l"

text \<open>
  \<^verbatim>\<open>set_lensmap_grid\<close>. The tint is stored into an \<^verbatim>\<open>unsigned char\<close>, which keeps the
  plate index modulo 256.
\<close>

definition set_lensmap_grid :: "fisheye \<Rightarrow> int \<Rightarrow> int \<Rightarrow> int \<Rightarrow> int \<Rightarrow> int \<Rightarrow> fisheye" where
  "set_lensmap_grid st lx ly px py plate_index =
     (let block_size = pad_size (rubix st) + cell_size (rubix st);
          num_units = of_int (numcells (rubix st)) * block_size + pad_size (rubix st);
          unit_size_px = of_int (platesize (globe st)) / num_units;
          ux = of_int px / unit_size_px;
          uy = of_int py / unit_size_px;
          ongrid = (nan_less (fmod ux block_size) (pad_size (rubix st)) \<or>
                    nan_less (fmod uy block_size) (pad_size (rubix st)))
      in if \<not> ongrid
         then st\<lparr>lens := (lens st)\<lparr>pixel_tints :=
                (pixel_tints (lens st))(LENSPIXELTINT (lens st) lx ly := plate_index mod 256)\<rparr>\<rparr>
         else st)"

definition set_lensmap_from_plate ::
  "fisheye \<Rightarrow> int \<Rightarrow> int \<Rightarrow> int \<Rightarrow> int \<Rightarrow> int \<Rightarrow> fisheye" where
  "set_lensmap_from_plate st lx ly px py plate_index =
     (if lx < 0 \<or> lx \<ge> width_px (lens st) \<or> ly < 0 \<or> ly \<ge> height_px (lens st) then st
      else if px < 0 \<or> px \<ge> platesize (globe st) \<or> py < 0 \<or> py \<ge> platesize (globe st) then st
      else
        (let st1 = st\<lparr>globe := (globe st)\<lparr>plates :=
                     (plates (globe st))(plate_index :=
                        (plates (globe st) plate_index)\<lparr>display := 1\<rparr>)\<rparr>\<rparr>;
             st2 = st1\<lparr>lens := (lens st1)\<lparr>pixels :=
                     (pixels (lens st1))(LENSPIXEL (lens st1) lx ly :=
                        Some (GLOBEPIXEL (globe st1) plate_index px py))\<rparr>\<rparr>
         in set_lensmap_grid st2 lx ly px py plate_index))"

definition set_lensmap_from_plate_uv ::
  "fisheye \<Rightarrow> int \<Rightarrow> int \<Rightarrow> real \<Rightarrow> real \<Rightarrow> int \<Rightarrow> fisheye" where
  "set_lensmap_from_plate_uv st lx ly u v plate_index =
     (let px = c_trunc (u * of_int (platesize (globe st)));
          py = c_trunc (v * of_int (platesize (globe st)))
      in set_lensmap_from_plate st lx ly px py plate_index)"

definition plate_uv_to_ray :: "globe \<Rightarrow> int \<Rightarrow> real \<Rightarrow> real \<Rightarrow> vec3" where
  "plate_uv_to_ray g plate_index u0 v0 =
     (let u = u0 - 0.5;
          v = v0 - 0.5;
          v = - v;
          ray = (0, 0, 0);
          ray = VectorMA ray (dist (plates g plate_index)) (forward (plates g plate_index));
          ray = VectorMA ray u (right (plates g plate_index));
          ray = VectorMA ray v (up (plates g plate_index))
      in VectorNormalize ray)"

text \<open>
  \<^verbatim>\<open>ray_to_plate_uv\<close> returns \<open>(u, v, inside)\<close>. Where the C code divides by a zero
  \<open>z\<close> or by a zero tangent, \<open>u\<close> and \<open>v\<close> are infinite or NaN and each of the
  four comparisons is false: the point is outside.
\<close>

definition ray_to_plate_uv :: "globe \<Rightarrow> int \<Rightarrow> vec3 \<Rightarrow> real \<times> real \<times> bool" where
  "ray_to_plate_uv g plate_index ray =
     (let x = DotProduct (right (plates g plate_index)) ray;
          y = DotProduct (up (plates g plate_index)) ray;
          z = DotProduct (forward (plates g plate_index)) ray;
          dist = 0.5 / tan (fov (plates g plate_index) / 2);
          u = x / z * dist + 0.5;
          v = - y / z * dist + 0.5
      in (u, v,
          z \<noteq> 0 \<and> sin (fov (plates g plate_index) / 2) \<noteq> 0 \<and>
          u \<ge> 0 \<and> u \<le> 1 \<and> v \<ge> 0 \<and> v \<le> 1))"

definition set_lensmap_from_ray ::
  "lua_State \<Rightarrow> fisheye \<Rightarrow> int \<Rightarrow> int \<Rightarrow> real \<Rightarrow> real \<Rightarrow> real \<Rightarrow> fisheye" where
  "set_lensmap_from_ray L st lx ly sx sy sz =
     (let ray = (sx, sy, sz);
          plate_index = ray_to_plate_index L (lua_refs st) (globe st) ray
      in if plate_index < 0 then st
         else (case ray_to_plate_uv (globe st) plate_index ray of
                 (u, v, inside) \<Rightarrow>
                   if \<not> inside then st
                   else set_lensmap_from_plate_uv st lx ly u v plate_index))"

section \<open>Latitude and longitude\<close>

text \<open>
  \<^verbatim>\<open>atan2\<close> of the C library on the reals: the angle of the point \<open>(x, y)\<close>, in
  \<open>(-\<pi>, \<pi>]\<close>, and \<open>0\<close> at the origin.
\<close>

definition atan2 :: "real \<Rightarrow> real \<Rightarrow> real" where
  "atan2 y x =
     (if x > 0 then arctan (y / x)
      else if x < 0 then (if y \<ge> 0 then arctan (y / x) + pi else arctan (y / x) - pi)
      else if y > 0 then pi / 2
      else if y < 0 then - pi / 2
      else 0)"

text \<open>\<^verbatim>\<open>latlon_to_ray\<close> and \<^verbatim>\<open>ray_to_latlon\<close>; the latter returns \<open>(lat, lon)\<close>.\<close>

definition latlon_to_ray :: "real \<Rightarrow> real \<Rightarrow> vec3" where
  "latlon_to_ray lat lon =
     (let clat = cos lat
      in (sin lon * clat, sin lat, cos lon * clat))"

fun ray_to_latlon :: "vec3 \<Rightarrow> real \<times> real" where
  "ray_to_latlon (r0, r1, r2) =
     (let lon = atan2 r0 r2;
          lat = atan2 r1 (sqrt (r0 * r0 + r2 * r2))
      in (lat, lon))"

section \<open>Calling the scripted maps\<close>

text \<open>
  \<^verbatim>\<open>lua_lens_inverse\<close> and \<^verbatim>\<open>lua_lens_forward\<close> call the script's function \<open>f\<close> and
  return a status (\<open>1\<close> values returned, \<open>0\<close> a single nil, \<open>-1\<close> anything else)
  with what they wrote through their pointer arguments, if anything.
\<close>

definition lua_lens_inverse ::
  "lua_State \<Rightarrow> (real \<Rightarrow> real \<Rightarrow> lua_value list) \<Rightarrow> real \<Rightarrow> real \<Rightarrow> int \<times> vec3 option" where
  "lua_lens_inverse L f x y =
     (let rets = f x y;
          numret = length rets
      in if numret = 3 then
           (if lua_isnumber L (rets ! 0) \<and> lua_isnumber L (rets ! 1) \<and> lua_isnumber L (rets ! 2)
            then (1, Some (VectorNormalize
                   (lua_tonumber L (rets ! 0), lua_tonumber L (rets ! 1), lua_tonumber L (rets ! 2))))
            else (- 1, None))
         else if numret = 1 then
           (if lua_isnil (rets ! 0) then (0, None) else (- 1, None))
         else (- 1, None))"

definition lua_lens_forward ::
  "lua_State \<Rightarrow> (vec3 \<Rightarrow> lua_value list) \<Rightarrow> vec3 \<Rightarrow> int \<times> (real \<times> real) option" where
  "lua_lens_forward L f ray =
     (let rets = f ray;
          numret = length rets
      in if numret = 2 then
           (if lua_isnumber L (rets ! 0) \<and> lua_isnumber L (rets ! 1)
            then (1, Some (lua_tonumber L (rets ! 0), lua_tonumber L (rets ! 1)))
            else (- 1, None))
         else if numret = 1 then
           (if lua_isnil (rets ! 0) then (0, None) else (- 1, None))
         else (- 1, None))"

section \<open>The inverse build\<close>

text \<open>
  The inner loop of \<^verbatim>\<open>resume_lensmap_inverse\<close>: the pixels of row \<open>ly\<close> from column
  \<open>lx\<close> on. It returns \<open>-1\<close> when the script's answer made the build stop, and
  \<open>1\<close> when the row is done.
\<close>

function inverse_row ::
  "lua_State \<Rightarrow> (real \<Rightarrow> real \<Rightarrow> lua_value list) \<Rightarrow> real \<Rightarrow> int \<Rightarrow> fisheye \<Rightarrow> int \<times> fisheye" where
  "inverse_row L f y lx st =
     (if lx < width_px (lens st) then
        (let x = of_int (lx - width_px (lens st) sdiv 2) * scale (lens st)
         in case lua_lens_inverse L f x y of
              (status, ray) \<Rightarrow>
                if status = 0 then inverse_row L f y (lx + 1) st
                else if status = - 1 then (- 1, st)
                else (case ray of
                        None \<Rightarrow> inverse_row L f y (lx + 1) st
                      | Some (r0, r1, r2) \<Rightarrow>
                          inverse_row L f y (lx + 1)
                            (set_lensmap_from_ray L st lx (inverse_ly (lens_builder st)) r0 r1 r2)))
      else (1, st))"
  by pat_completeness auto
termination
  by (relation "measure (\<lambda>(L, f, y, lx, st). nat (width_px (lens st) - lx))")
    (auto simp: set_lensmap_from_ray_def set_lensmap_from_plate_uv_def
      set_lensmap_from_plate_def set_lensmap_grid_def Let_def split: prod.splits)

declare inverse_row.simps [simp del]

lemma inverse_row_lens_builder:
  "lens_builder (snd (inverse_row L f y lx st)) = lens_builder st"
proof (induction L f y lx st rule: inverse_row.induct)
  case (1 L f y lx st)
  have keep: "\<And>a b c. lens_builder (set_lensmap_from_ray L st lx (inverse_ly (lens_builder st)) a b c)
      = lens_builder st"
    by (simp add: set_lensmap_from_ray_def set_lensmap_from_plate_uv_def
        set_lensmap_from_plate_def set_lensmap_grid_def Let_def split: prod.splits)
  show ?case
    using "1.IH" keep
    by (subst inverse_row.simps) (auto simp: Let_def split: prod.splits option.splits)
qed

text \<open>
  The outer loop of \<^verbatim>\<open>resume_lensmap_inverse\<close>. \<open>clock k\<close> is the answer of
  \<^verbatim>\<open>is_lens_builder_time_up\<close> at its \<open>k\<close>-th call since the function was entered.
  The result is the value returned (true: the build goes on in the next frame) and the
  state left behind.
\<close>

function inverse_rows ::
  "lua_State \<Rightarrow> (real \<Rightarrow> real \<Rightarrow> lua_value list) \<Rightarrow> (nat \<Rightarrow> bool) \<Rightarrow> nat \<Rightarrow> fisheye
     \<Rightarrow> bool \<times> fisheye" where
  "inverse_rows L f clock k st =
     (if inverse_ly (lens_builder st) \<ge> 0 then
        (if clock k then (True, st)
         else
           (let y = of_int (- (inverse_ly (lens_builder st) - height_px (lens st) sdiv 2))
                      * scale (lens st)
            in case inverse_row L f y 0 st of
                 (status, st') \<Rightarrow>
                   if status = - 1 then (False, st')
                   else inverse_rows L f clock (Suc k)
                          (st'\<lparr>lens_builder := (lens_builder st')
                               \<lparr>inverse_ly := inverse_ly (lens_builder st') - 1\<rparr>\<rparr>)))
      else (False, st))"
  by pat_completeness auto
termination
proof -
  have keep: "lens_builder st' = lens_builder st"
    if "(status, st') = inverse_row L f y lx st" for status st' L f y lx st
    using inverse_row_lens_builder [of L f y lx st] that [symmetric] by simp
  show ?thesis
    by (relation "measure (\<lambda>(L, f, clock, k, st). nat (inverse_ly (lens_builder st) + 1))")
      (auto dest: keep)
qed

declare inverse_rows.simps [simp del]

definition resume_lensmap_inverse ::
  "lua_State \<Rightarrow> (real \<Rightarrow> real \<Rightarrow> lua_value list) \<Rightarrow> (nat \<Rightarrow> bool) \<Rightarrow> fisheye \<Rightarrow> bool \<times> fisheye" where
  "resume_lensmap_inverse L f clock st = inverse_rows L f clock 0 st"

section \<open>The forward build\<close>

text \<open>
  \<^verbatim>\<open>uv_to_screen\<close>: the status of the scripted forward map and, when it returned
  coordinates, the screen pixel written through the two pointers.
\<close>

definition uv_to_screen ::
  "lua_State \<Rightarrow> (vec3 \<Rightarrow> lua_value list) \<Rightarrow> fisheye \<Rightarrow> int \<Rightarrow> real \<Rightarrow> real
     \<Rightarrow> int \<times> (int \<times> int) option" where
  "uv_to_screen L f st plate_index u v =
     (let ray = plate_uv_to_ray (globe st) plate_index u v
      in case lua_lens_forward L f ray of
           (status, xy) \<Rightarrow>
             if status = 0 \<or> status = - 1 then (status, None)
             else (case xy of
                     None \<Rightarrow> (status, None)
                   | Some (x, y) \<Rightarrow>
                       (status,
                        Some (c_trunc (x / scale (lens st) + of_int (width_px (lens st) sdiv 2)),
                              c_trunc (- y / scale (lens st) + of_int (height_px (lens st) sdiv 2))))))"

text \<open>Reading a point of a scanline buffer, and storing one.\<close>

definition row_point :: "fisheye \<Rightarrow> row_ptr \<Rightarrow> int \<Rightarrow> int \<times> int" where
  "row_point st row index =
     (rows (lens_builder st) row index, rows (lens_builder st) row (index + 1))"

definition store_point :: "fisheye \<Rightarrow> row_ptr \<Rightarrow> int \<Rightarrow> (int \<times> int) option \<Rightarrow> fisheye" where
  "store_point st row index pt =
     (case pt of
        None \<Rightarrow> st
      | Some (lx, ly) \<Rightarrow>
          st\<lparr>lens_builder := (lens_builder st)\<lparr>rows :=
               (rows (lens_builder st))(row :=
                 (rows (lens_builder st) row)(index := lx, index + 1 := ly))\<rparr>\<rparr>)"

subsection \<open>Filling a quad\<close>

fun bound_step :: "int \<times> int \<Rightarrow> int \<Rightarrow> int \<times> int" where
  "bound_step (lo, hi) t = (if t < lo then (t, hi) else if t > hi then (lo, t) else (lo, hi))"

text \<open>
  The crossing of the edge from corner \<open>i\<close> to corner \<open>j\<close> with the scanline \<open>y\<close>, if
  the edge crosses it.
\<close>

fun edge_hit :: "int \<Rightarrow> (int \<times> int) \<times> (int \<times> int) \<Rightarrow> int option" where
  "edge_hit y ((ix, iy), (jx, jy)) =
     (if (iy < y \<and> y \<le> jy) \<or> (jy < y \<and> y \<le> iy) then
        (let dy = real_of_int (jy - iy);
             dx = real_of_int (jx - ix)
         in Some (c_trunc (of_int ix + of_int (y - iy) / dy * dx)))
      else None)"

text \<open>
  The two ends of the span on scanline \<open>y\<close>: they start as \<open>(minx, maxx)\<close>, the
  first two crossings found among the edges \<open>(0,3)\<close>, \<open>(1,0)\<close>, \<open>(2,1)\<close>, \<open>(3,2)\<close>
  replace them in turn, and they are put in order.
\<close>

definition span_ends :: "(int \<times> int) list \<Rightarrow> int \<Rightarrow> int \<Rightarrow> int \<Rightarrow> int \<times> int" where
  "span_ends p minx maxx y =
     (let hits = List.map_filter (edge_hit y)
                   [(p ! 0, p ! 3), (p ! 1, p ! 0), (p ! 2, p ! 1), (p ! 3, p ! 2)];
          tx0 = (if length hits \<ge> 1 then hits ! 0 else minx);
          tx1 = (if length hits \<ge> 2 then hits ! 1 else maxx)
      in if tx0 > tx1 then (tx1, tx0) else (tx0, tx1))"

definition draw_span :: "fisheye \<Rightarrow> int \<Rightarrow> int \<Rightarrow> int \<Rightarrow> int \<Rightarrow> int \<Rightarrow> int \<Rightarrow> fisheye" where
  "draw_span st x0 x1 y px py plate_index =
     foldl (\<lambda>s x. set_lensmap_from_plate s x y px py plate_index) st [x0..x1]"

lemma draw_span_keeps:
  "lens_builder (draw_span st x0 x1 y px py plate_index) = lens_builder st \<and>
   numplates (globe (draw_span st x0 x1 y px py plate_index)) = numplates (globe st)"
proof -
  have "lens_builder (foldl (\<lambda>s x. set_lensmap_from_plate s x y px py plate_index) st xs)
        = lens_builder st \<and>
      numplates (globe (foldl (\<lambda>s x. set_lensmap_from_plate s x y px py plate_index) st xs))
        = numplates (globe st)" for xs
    by (induction xs arbitrary: st)
      (simp_all add: set_lensmap_from_plate_def set_lensmap_grid_def Let_def)
  then show ?thesis by (simp add: draw_span_def)
qed

text \<open>The scanlines of a proper quad, from \<open>y\<close> up to \<open>maxy\<close>.\<close>

function quad_scan ::
  "fisheye \<Rightarrow> (int \<times> int) list \<Rightarrow> int \<Rightarrow> int \<Rightarrow> int \<Rightarrow> int \<Rightarrow> int \<Rightarrow> int \<Rightarrow> int \<Rightarrow> fisheye" where
  "quad_scan st p minx maxx maxy plate_index px py y =
     (if y \<le> maxy then
        (case span_ends p minx maxx y of
           (tx0, tx1) \<Rightarrow>
             if tx1 - tx0 > 20 then st
             else quad_scan (draw_span st tx0 tx1 y px py plate_index)
                    p minx maxx maxy plate_index px py (y + 1))
      else st)"
  by pat_completeness auto
termination
  by (relation "measure (\<lambda>(st, p, minx, maxx, maxy, plate_index, px, py, y). nat (maxy + 1 - y))")
    auto

declare quad_scan.simps [simp del]

definition drawQuad ::
  "fisheye \<Rightarrow> int \<times> int \<Rightarrow> int \<times> int \<Rightarrow> int \<times> int \<Rightarrow> int \<times> int \<Rightarrow> int \<Rightarrow> int \<Rightarrow> int
     \<Rightarrow> fisheye" where
  "drawQuad st tl_c tr_c bl_c br_c plate_index px py =
     (let p = [tl_c, tr_c, br_c, bl_c];
          x = fst tl_c;
          y = snd tl_c;
          (minx, maxx) = foldl bound_step (x, x) (map fst [tr_c, br_c, bl_c]);
          (miny, maxy) = foldl bound_step (y, y) (map snd [tr_c, br_c, bl_c]);
          maxdiff = 20
      in if \<bar>minx - maxx\<bar> > maxdiff \<or> \<bar>miny - maxy\<bar> > maxdiff then st
         else if miny = maxy \<and> minx = maxx then set_lensmap_from_plate st x y px py plate_index
         else if miny = maxy then draw_span st minx maxx miny px py plate_index
         else if minx = maxx then
           foldl (\<lambda>s ty. set_lensmap_from_plate s x ty px py plate_index) st [miny..maxy]
         else quad_scan st p minx maxx maxy plate_index px py miny)"

subsection \<open>One row of a plate\<close>

text \<open>
  \<open>platesize0\<close> is the local copy of \<^verbatim>\<open>globe.platesize\<close> that
  \<^verbatim>\<open>resume_lensmap_forward\<close> takes when it is entered.

  The loop that fills a scanline buffer with the screen positions of the texel borders
  at height \<open>v\<close>. It returns \<open>-1\<close> when the script's answer stops the build and
  \<open>1\<close> when the row is done; a nil skips the rest of the iteration. The left border
  is computed for the first texel only; \<^verbatim>\<open>uv_to_screen\<close> stores a point only when it
  returns one.
\<close>

function compute_points ::
  "lua_State \<Rightarrow> (vec3 \<Rightarrow> lua_value list) \<Rightarrow> int \<Rightarrow> int \<Rightarrow> real \<Rightarrow> row_ptr \<Rightarrow> int \<Rightarrow> fisheye
     \<Rightarrow> int \<times> fisheye" where
  "compute_points L f platesize0 plate_index v row px st =
     (if px < platesize0 then
        (let (lstatus, lpt) =
               (if px = 0
                then uv_to_screen L f st plate_index ((of_int px - 0.5) / of_int platesize0) v
                else (1, None));
             st1 = store_point st row 0 lpt
         in if lstatus = 0 then compute_points L f platesize0 plate_index v row (px + 1) st1
            else if lstatus = - 1 then (- 1, st1)
            else
              (let u = (of_int px + 0.5) / of_int platesize0;
                   index = 2 * (px + 1);
                   (status, pt) = uv_to_screen L f st1 plate_index u v
               in if status = 0 then compute_points L f platesize0 plate_index v row (px + 1) st1
                  else if status = - 1 then (- 1, st1)
                  else compute_points L f platesize0 plate_index v row (px + 1)
                         (store_point st1 row index pt)))
      else (1, st))"
  by pat_completeness auto
termination
  by (relation "measure (\<lambda>(L, f, platesize0, plate_index, v, row, px, st). nat (platesize0 - px))")
    auto

declare compute_points.simps [simp del]

text \<open>The loop that draws the quad of every texel of row \<open>py\<close> that the plate owns.\<close>

definition draw_texel ::
  "lua_State \<Rightarrow> int \<Rightarrow> int \<Rightarrow> int \<Rightarrow> row_ptr \<Rightarrow> row_ptr \<Rightarrow> fisheye \<Rightarrow> int \<Rightarrow> fisheye" where
  "draw_texel L platesize0 plate_index py top_r bot_r st px =
     (let v = of_int py / of_int platesize0;
          u = of_int px / of_int platesize0;
          ray = plate_uv_to_ray (globe st) plate_index u v
      in if plate_index \<noteq> ray_to_plate_index L (lua_refs st) (globe st) ray then st
         else (let index = 2 * px
               in drawQuad st (row_point st top_r index) (row_point st top_r (index + 2))
                    (row_point st bot_r index) (row_point st bot_r (index + 2)) plate_index px py))"

definition draw_row ::
  "lua_State \<Rightarrow> int \<Rightarrow> int \<Rightarrow> int \<Rightarrow> row_ptr \<Rightarrow> row_ptr \<Rightarrow> fisheye \<Rightarrow> fisheye" where
  "draw_row L platesize0 plate_index py top_r bot_r st =
     foldl (draw_texel L platesize0 plate_index py top_r bot_r) st [0..platesize0 - 1]"

text \<open>
  The first step of the body of the loop over the rows of a plate, after the clock was
  read: the lower points. For the first row of a plate they are computed; otherwise
  the local pointers \<^verbatim>\<open>top\<close> and \<^verbatim>\<open>bot\<close> (here \<open>top_r\<close> and \<open>bot_r\<close>) are
  swapped, so that the upper points of the row before become the lower points. The
  result is the status, the two local pointers as they are afterwards, and the state.
\<close>

definition lower_points ::
  "lua_State \<Rightarrow> (vec3 \<Rightarrow> lua_value list) \<Rightarrow> int \<Rightarrow> row_ptr \<Rightarrow> row_ptr \<Rightarrow> fisheye
     \<Rightarrow> int \<times> row_ptr \<times> row_ptr \<times> fisheye" where
  "lower_points L f platesize0 top_r bot_r st =
     (let py = forward_py (lens_builder st);
          plate_index = forward_plate_index (lens_builder st)
      in if py = platesize0 - 1 then
           (let v = (of_int py + 0.5) / of_int platesize0
            in case compute_points L f platesize0 plate_index v bot_r 0 st of
                 (status, st1) \<Rightarrow> (status, top_r, bot_r, st1))
         else (1, bot_r, top_r, st))"

text \<open>The whole body: the lower points, the upper points, and the quads of the row.\<close>

definition forward_row ::
  "lua_State \<Rightarrow> (vec3 \<Rightarrow> lua_value list) \<Rightarrow> int \<Rightarrow> row_ptr \<Rightarrow> row_ptr \<Rightarrow> fisheye
     \<Rightarrow> int \<times> row_ptr \<times> row_ptr \<times> fisheye" where
  "forward_row L f platesize0 top_r bot_r st =
     (let py = forward_py (lens_builder st);
          plate_index = forward_plate_index (lens_builder st)
      in case lower_points L f platesize0 top_r bot_r st of
           (status, top1, bot1, st1) \<Rightarrow>
             if status = - 1 then (- 1, top1, bot1, st1)
             else
               (let v = (of_int py - 0.5) / of_int platesize0
                in case compute_points L f platesize0 plate_index v top1 0 st1 of
                     (status, st2) \<Rightarrow>
                       if status = - 1 then (- 1, top1, bot1, st2)
                       else (1, top1, bot1,
                             draw_row L platesize0 plate_index py top1 bot1 st2)))"

subsection \<open>The loops over the plates and their rows\<close>

text \<open>
  None of the steps of a row moves the cursor of the build or changes the number of
  plates; the loops below terminate for that reason.
\<close>

definition same_cursor :: "fisheye \<Rightarrow> fisheye \<Rightarrow> bool" where
  "same_cursor st st' \<longleftrightarrow>
     forward_py (lens_builder st') = forward_py (lens_builder st) \<and>
     forward_plate_index (lens_builder st') = forward_plate_index (lens_builder st) \<and>
     numplates (globe st') = numplates (globe st)"

lemma same_cursor_refl: "same_cursor st st"
  by (simp add: same_cursor_def)

lemma same_cursor_trans: "same_cursor a b \<Longrightarrow> same_cursor b c \<Longrightarrow> same_cursor a c"
  by (simp add: same_cursor_def)

lemma set_lensmap_from_plate_cursor:
  "same_cursor st (set_lensmap_from_plate st lx ly px py plate_index)"
  by (simp add: same_cursor_def set_lensmap_from_plate_def set_lensmap_grid_def Let_def)

lemma fold_plate_cursor:
  "same_cursor st (foldl (\<lambda>s t. set_lensmap_from_plate s (a t) (b t) px py plate_index) st xs)"
proof (induction xs arbitrary: st)
  case Nil
  show ?case by (simp add: same_cursor_refl)
next
  case (Cons t xs)
  show ?case
    using Cons [of "set_lensmap_from_plate st (a t) (b t) px py plate_index"]
      set_lensmap_from_plate_cursor [of st "a t" "b t" px py plate_index]
    by (auto intro: same_cursor_trans)
qed

lemma draw_span_cursor: "same_cursor st (draw_span st x0 x1 y px py plate_index)"
  unfolding draw_span_def by (rule fold_plate_cursor [of st "\<lambda>t. t" "\<lambda>t. y"])

lemma quad_scan_cursor:
  "same_cursor st (quad_scan st p minx maxx maxy plate_index px py y)"
proof (induction st p minx maxx maxy plate_index px py y rule: quad_scan.induct)
  case (1 st p minx maxx maxy plate_index px py y)
  show ?case
  proof (cases "y \<le> maxy")
    case False
    then show ?thesis by (subst quad_scan.simps) (simp add: same_cursor_refl)
  next
    case True
    obtain tx0 tx1 where se: "span_ends p minx maxx y = (tx0, tx1)" by (cases "span_ends p minx maxx y")
    show ?thesis
    proof (cases "tx1 - tx0 > 20")
      case True
      with se \<open>y \<le> maxy\<close> show ?thesis
        by (subst quad_scan.simps) (simp add: same_cursor_refl)
    next
      case False
      have "same_cursor (draw_span st tx0 tx1 y px py plate_index)
          (quad_scan (draw_span st tx0 tx1 y px py plate_index) p minx maxx maxy plate_index px py (y + 1))"
        using "1.IH" [OF \<open>y \<le> maxy\<close> se [symmetric] False] .
      with draw_span_cursor [of st tx0 tx1 y px py plate_index]
      have "same_cursor st
          (quad_scan (draw_span st tx0 tx1 y px py plate_index) p minx maxx maxy plate_index px py (y + 1))"
        by (rule same_cursor_trans)
      with se False \<open>y \<le> maxy\<close> show ?thesis
        by (subst quad_scan.simps) simp
    qed
  qed
qed

lemma drawQuad_cursor: "same_cursor st (drawQuad st tl_c tr_c bl_c br_c plate_index px py)"
proof -
  obtain minx maxx
    where bx: "foldl bound_step (fst tl_c, fst tl_c) (map fst [tr_c, br_c, bl_c]) = (minx, maxx)"
    by (cases "foldl bound_step (fst tl_c, fst tl_c) (map fst [tr_c, br_c, bl_c])")
  obtain miny maxy
    where bxy: "foldl bound_step (snd tl_c, snd tl_c) (map snd [tr_c, br_c, bl_c]) = (miny, maxy)"
    by (cases "foldl bound_step (snd tl_c, snd tl_c) (map snd [tr_c, br_c, bl_c])")
  show ?thesis
    unfolding drawQuad_def Let_def bx bxy prod.case
    by (simp add: set_lensmap_from_plate_cursor draw_span_cursor quad_scan_cursor
        fold_plate_cursor [of st "\<lambda>t. fst tl_c" "\<lambda>t. t"] same_cursor_refl)
qed

lemma draw_texel_cursor: "same_cursor st (draw_texel L platesize0 plate_index py top_r bot_r st px)"
  using drawQuad_cursor by (simp add: draw_texel_def Let_def same_cursor_refl)

lemma draw_row_cursor: "same_cursor st (draw_row L platesize0 plate_index py top_r bot_r st)"
proof -
  have "same_cursor st (foldl (draw_texel L platesize0 plate_index py top_r bot_r) st xs)" for xs
  proof (induction xs arbitrary: st)
    case Nil
    show ?case by (simp add: same_cursor_refl)
  next
    case (Cons t xs)
    show ?case
      using Cons [of "draw_texel L platesize0 plate_index py top_r bot_r st t"]
        draw_texel_cursor [of st L platesize0 plate_index py top_r bot_r t]
      by (auto intro: same_cursor_trans)
  qed
  then show ?thesis by (simp add: draw_row_def)
qed

lemma store_point_cursor: "same_cursor st (store_point st row index pt)"
  by (simp add: same_cursor_def store_point_def split: option.splits)

lemma store_point_keeps [simp]:
  "globe (store_point st row index pt) = globe st"
  "lens (store_point st row index pt) = lens st"
  by (cases pt; auto simp: store_point_def)+

lemma uv_to_screen_store [simp]:
  "uv_to_screen L f (store_point st row index pt) plate_index u v = uv_to_screen L f st plate_index u v"
  unfolding uv_to_screen_def store_point_keeps by (rule refl)

lemma compute_points_stop:
  "\<not> px < platesize0 \<Longrightarrow> compute_points L f platesize0 plate_index v row px st = (1, st)"
  by (subst compute_points.simps) simp

lemma compute_points_step:
  "px < platesize0 \<Longrightarrow>
   compute_points L f platesize0 plate_index v row px st =
     (let l = (if px = 0
               then uv_to_screen L f st plate_index ((of_int px - 0.5) / of_int platesize0) v
               else (1, None));
          st1 = store_point st row 0 (snd l);
          r = uv_to_screen L f st plate_index ((of_int px + 0.5) / of_int platesize0) v
      in if fst l = 0 then compute_points L f platesize0 plate_index v row (px + 1) st1
         else if fst l = - 1 then (- 1, st1)
         else if fst r = 0 then compute_points L f platesize0 plate_index v row (px + 1) st1
         else if fst r = - 1 then (- 1, st1)
         else compute_points L f platesize0 plate_index v row (px + 1)
                (store_point st1 row (2 * (px + 1)) (snd r)))"
  by (subst compute_points.simps) (simp add: Let_def case_prod_beta)

lemma compute_points_cursor:
  "same_cursor st (snd (compute_points L f platesize0 plate_index v row px st))"
proof (induction "nat (platesize0 - px)" arbitrary: px st)
  case 0
  then show ?case by (simp add: compute_points_stop same_cursor_refl)
next
  case (Suc n)
  then have lt: "px < platesize0" by simp
  have ih: "same_cursor s (snd (compute_points L f platesize0 plate_index v row (px + 1) s))" for s
    using Suc.hyps(1) [of "px + 1" s] Suc.hyps(2) by simp
  have tr: "same_cursor st (snd (compute_points L f platesize0 plate_index v row (px + 1) s))"
    if "same_cursor st s" for s
    using that ih [of s] by (rule same_cursor_trans)
  have s1: "same_cursor st (store_point st row i pt)" for i pt
    by (rule store_point_cursor)
  have s2: "same_cursor st (store_point (store_point st row i pt) row i' pt')" for i pt i' pt'
    using store_point_cursor store_point_cursor by (rule same_cursor_trans)
  show ?case
    unfolding compute_points_step [OF lt] Let_def
    by (simp add: tr s1 s2)
qed

lemma lower_points_cursor:
  "same_cursor st (snd (snd (snd (lower_points L f platesize0 top_r bot_r st))))"
  using compute_points_cursor [of st L f platesize0 _ _ bot_r 0]
  by (simp add: lower_points_def Let_def case_prod_beta same_cursor_refl)

lemma forward_row_cursor:
  "same_cursor st (snd (snd (snd (forward_row L f platesize0 top_r bot_r st))))"
proof -
  obtain s1 t1 b1 st1 where lp: "lower_points L f platesize0 top_r bot_r st = (s1, t1, b1, st1)"
    by (cases "lower_points L f platesize0 top_r bot_r st") auto
  have c1: "same_cursor st st1" using lower_points_cursor [of st L f platesize0 top_r bot_r] lp by simp
  obtain s2 st2 where cp: "compute_points L f platesize0 (forward_plate_index (lens_builder st))
      ((of_int (forward_py (lens_builder st)) - 0.5) / of_int platesize0) t1 0 st1 = (s2, st2)"
    by (cases "compute_points L f platesize0 (forward_plate_index (lens_builder st))
      ((of_int (forward_py (lens_builder st)) - 0.5) / of_int platesize0) t1 0 st1") auto
  have c2: "same_cursor st1 st2"
    using compute_points_cursor [of st1 L f platesize0 "forward_plate_index (lens_builder st)"
        "(of_int (forward_py (lens_builder st)) - 0.5) / of_int platesize0" t1 0] cp by simp
  have c3: "same_cursor st2 (draw_row L platesize0 a b t1 b1 st2)" for a b
    by (rule draw_row_cursor)
  from c1 c2 have c12: "same_cursor st st2" by (rule same_cursor_trans)
  from c12 c3 have c123: "same_cursor st (draw_row L platesize0 a b t1 b1 st2)" for a b
    by (rule same_cursor_trans)
  show ?thesis
    unfolding forward_row_def Let_def lp cp prod.case
    by (simp add: c1 c12 c123)
qed

text \<open>
  The two loops of \<^verbatim>\<open>resume_lensmap_forward\<close>. The cursor (the plate and its row) is
  in the state; \<open>top_r\<close> and \<open>bot_r\<close> are the local pointers, which only live
  as long as one call. \<open>clock k\<close> is the answer of \<^verbatim>\<open>is_lens_builder_time_up\<close> at
  its \<open>k\<close>-th call since the function was entered.
\<close>

function forward_loop ::
  "lua_State \<Rightarrow> (vec3 \<Rightarrow> lua_value list) \<Rightarrow> (nat \<Rightarrow> bool) \<Rightarrow> nat \<Rightarrow> int \<Rightarrow> row_ptr \<Rightarrow> row_ptr
     \<Rightarrow> fisheye \<Rightarrow> bool \<times> fisheye" where
  "forward_loop L f clock k platesize0 top_r bot_r st =
     (if forward_plate_index (lens_builder st) < numplates (globe st) then
        (if forward_py (lens_builder st) \<ge> 0 then
           (if clock k then (True, st)
            else
              (case forward_row L f platesize0 top_r bot_r st of
                 (status, top1, bot1, st1) \<Rightarrow>
                   if status = - 1 then (False, st1)
                   else forward_loop L f clock (Suc k) platesize0 top1 bot1
                          (st1\<lparr>lens_builder := (lens_builder st1)
                               \<lparr>forward_py := forward_py (lens_builder st1) - 1\<rparr>\<rparr>)))
         else forward_loop L f clock k platesize0 top_r bot_r
                (st\<lparr>lens_builder := (lens_builder st)
                     \<lparr>forward_py := platesize0 - 1,
                      forward_plate_index := forward_plate_index (lens_builder st) + 1\<rparr>\<rparr>))
      else (False, st))"
  by pat_completeness auto
termination
proof -
  have keep: "same_cursor st st1"
    if "(status, top1, bot1, st1) = forward_row L f platesize0 top_r bot_r st"
    for status top1 bot1 st1 L f platesize0 top_r bot_r st
    using forward_row_cursor [of st L f platesize0 top_r bot_r] that [symmetric] by simp
  show ?thesis
    by (relation "measures
          [\<lambda>(L, f, clock, k, platesize0, top_r, bot_r, st).
             nat (numplates (globe st) - forward_plate_index (lens_builder st)),
           \<lambda>(L, f, clock, k, platesize0, top_r, bot_r, st).
             nat (forward_py (lens_builder st) + 1)]")
      (auto dest!: keep simp: same_cursor_def)
qed

declare forward_loop.simps [simp del]

definition resume_lensmap_forward ::
  "lua_State \<Rightarrow> (vec3 \<Rightarrow> lua_value list) \<Rightarrow> (nat \<Rightarrow> bool) \<Rightarrow> fisheye \<Rightarrow> bool \<times> fisheye" where
  "resume_lensmap_forward L f clock st =
     forward_loop L f clock 0 (platesize (globe st))
       (forward_top (lens_builder st)) (forward_bot (lens_builder st)) st"

section \<open>The lens scale\<close>

text \<open>
  The value \<^verbatim>\<open>*framesize\<close>: the screen dimension the pointer refers to, and nothing
  for the null pointer.
\<close>

definition deref_framesize :: "fisheye \<Rightarrow> int option" where
  "deref_framesize st =
     (case framesize st of
        FS_NULL \<Rightarrow> None
      | FS_WIDTH_PX \<Rightarrow> Some (width_px (lens st))
      | FS_HEIGHT_PX \<Rightarrow> Some (height_px (lens st)))"

text \<open>The last step of \<^verbatim>\<open>determine_lens_scale\<close>: a scale that is not positive is refused.\<close>

definition validate_scale :: "fisheye \<Rightarrow> int \<times> fisheye" where
  "validate_scale st = (if scale (lens st) \<le> 0 then (0, st) else (1, st))"

definition set_scale :: "fisheye \<Rightarrow> real \<Rightarrow> fisheye" where
  "set_scale st s = st\<lparr>lens := (lens st)\<lparr>scale := s\<rparr>\<rparr>"

text \<open>
  \<^verbatim>\<open>determine_lens_scale\<close> returns \<open>1\<close> or \<open>0\<close> and leaves the scale in the state.
  The locals \<^verbatim>\<open>x\<close> and \<^verbatim>\<open>y\<close> are not initialised in the C code and
  \<^verbatim>\<open>lua_lens_forward\<close> assigns them only when the script returned two numbers;
  \<open>x0\<close> and \<open>y0\<close> are whatever they hold before the call. The result is \<open>None\<close>
  where the C code leaves the reals: when it dereferences a null \<^verbatim>\<open>framesize\<close>, and
  when it divides by a screen dimension that is zero.
\<close>

definition determine_lens_scale ::
  "lua_State \<Rightarrow> real \<Rightarrow> real \<Rightarrow> fisheye \<Rightarrow> (int \<times> fisheye) option" where
  "determine_lens_scale L x0 y0 st0 =
     (let st = set_scale st0 (- 1)
      in if fit st = 0 \<and> hfit st = 0 \<and> vfit st = 0 then
           (if max_hfov st \<le> 0 \<or> max_vfov st \<le> 0 then Some (0, st)
            else
              (case deref_framesize st of
                 None \<Rightarrow> None
               | Some fs \<Rightarrow>
                   if width_px (lens st) = fs \<and> desired_fov st > max_hfov st then Some (0, st)
                   else if height_px (lens st) = fs \<and> desired_fov st > max_vfov st
                   then Some (0, st)
                   else
                     (case lens_forward (lua_refs st) of
                        None \<Rightarrow> Some (0, st)
                      | Some f \<Rightarrow>
                          if fs = width_px (lens st) then
                            (let ray = latlon_to_ray 0 (desired_fov st * 0.5);
                                 (status, xy) = lua_lens_forward L f ray;
                                 x = (case xy of None \<Rightarrow> x0 | Some (x, y) \<Rightarrow> x)
                             in if status \<noteq> 0 then
                                  (if fs = 0 then None
                                   else Some (validate_scale (set_scale st (x / (of_int fs * 0.5)))))
                                else Some (0, st))
                          else if fs = height_px (lens st) then
                            (let ray = latlon_to_ray (desired_fov st * 0.5) 0;
                                 (status, xy) = lua_lens_forward L f ray;
                                 y = (case xy of None \<Rightarrow> y0 | Some (x, y) \<Rightarrow> y)
                             in if status \<noteq> 0 then
                                  (if fs = 0 then None
                                   else Some (validate_scale (set_scale st (y / (of_int fs * 0.5)))))
                                else Some (0, st))
                          else Some (0, st))))
         else if hfit st \<noteq> 0 then
           (if width (lens st) \<le> 0 then Some (0, st)
            else if width_px (lens st) = 0 then None
            else Some (validate_scale
                   (set_scale st (width (lens st) / of_int (width_px (lens st))))))
         else if vfit st \<noteq> 0 then
           (if height (lens st) \<le> 0 then Some (0, st)
            else if height_px (lens st) = 0 then None
            else Some (validate_scale
                   (set_scale st (height (lens st) / of_int (height_px (lens st))))))
         else if fit st \<noteq> 0 then
           (if width (lens st) \<le> 0 \<and> height (lens st) > 0 then
              (if height_px (lens st) = 0 then None
               else Some (validate_scale
                      (set_scale st (height (lens st) / of_int (height_px (lens st))))))
            else if height (lens st) \<le> 0 \<and> width (lens st) > 0 then
              (if width_px (lens st) = 0 then None
               else Some (validate_scale
                      (set_scale st (width (lens st) / of_int (width_px (lens st))))))
            else if height (lens st) \<le> 0 \<and> width (lens st) \<le> 0 then Some (0, st)
            else if height_px (lens st) = 0 \<or> width_px (lens st) = 0 then None
            else if width (lens st) / height (lens st)
                      > of_int (width_px (lens st)) / of_int (height_px (lens st))
            then Some (validate_scale
                   (set_scale st (width (lens st) / of_int (width_px (lens st)))))
            else Some (validate_scale
                   (set_scale st (height (lens st) / of_int (height_px (lens st))))))
         else Some (validate_scale st))"

section \<open>Loading the scripts\<close>

text \<open>
  Reading a table. \<^verbatim>\<open>lua_rawgeti\<close> looks an integer key up; \<^verbatim>\<open>lua_rawlen\<close> is the
  length of the sequence at the keys \<open>1, 2, ...\<close> (the length of a string for a
  string).
\<close>

definition lua_rawgeti :: "lua_value \<Rightarrow> int \<Rightarrow> lua_value" where
  "lua_rawgeti t n =
     (case t of
        LTable kvs \<Rightarrow> (case map_of kvs (LNumber (of_int n)) of None \<Rightarrow> LNil | Some v \<Rightarrow> v)
      | _ \<Rightarrow> LNil)"

definition lua_rawlen :: "lua_value \<Rightarrow> int" where
  "lua_rawlen t =
     (case t of
        LTable kvs \<Rightarrow>
          int (length (takeWhile (\<lambda>n. lua_rawgeti t n \<noteq> LNil) [1..int (length kvs)]))
      | LString s \<Rightarrow> int (length s)
      | _ \<Rightarrow> 0)"

text \<open>
  Running a script file (\<^verbatim>\<open>luaL_loadfile\<close>, then \<^verbatim>\<open>lua_pcall\<close>) is a parameter of the
  loaders: from the global variables before the run to those after it, or \<open>None\<close> when
  the file cannot be loaded or its execution raises an error.
\<close>

type_synonym script = "(string \<Rightarrow> lua_value) \<Rightarrow> (string \<Rightarrow> lua_value) option"

text \<open>The reference to a function value: the function it calls.\<close>

definition ref_ray :: "lua_State \<Rightarrow> lua_value \<Rightarrow> (vec3 \<Rightarrow> lua_value list) option" where
  "ref_ray L v =
     (case v of
        LFunction n \<Rightarrow> Some (\<lambda>(x, y, z). closure L n [x, y, z])
      | _ \<Rightarrow> None)"

definition ref_xy :: "lua_State \<Rightarrow> lua_value \<Rightarrow> (real \<Rightarrow> real \<Rightarrow> lua_value list) option" where
  "ref_xy L v =
     (case v of
        LFunction n \<Rightarrow> Some (\<lambda>x y. closure L n [x, y])
      | _ \<Rightarrow> None)"

subsection \<open>The globe\<close>

definition lua_globe_clear :: "fisheye \<Rightarrow> fisheye" where
  "lua_globe_clear st =
     st\<lparr>globals := (globals st)(''plates'' := LNil, ''globe_plate'' := LNil),
        globe := (globe st)\<lparr>numplates := 0\<rparr>\<rparr>"

text \<open>
  Reading the three elements of a vector into \<open>old\<close>, one after the other: whether all
  three were numbers, and the vector with the elements stored so far.
\<close>

definition read_vec3 :: "lua_State \<Rightarrow> lua_value \<Rightarrow> vec3 \<Rightarrow> bool \<times> vec3" where
  "read_vec3 L t old =
     (case old of
        (a0, a1, a2) \<Rightarrow>
          if \<not> lua_isnumber L (lua_rawgeti t 1) then (False, (a0, a1, a2))
          else if \<not> lua_isnumber L (lua_rawgeti t 2)
          then (False, (lua_tonumber L (lua_rawgeti t 1), a1, a2))
          else if \<not> lua_isnumber L (lua_rawgeti t 3)
          then (False, (lua_tonumber L (lua_rawgeti t 1), lua_tonumber L (lua_rawgeti t 2), a2))
          else (True, (lua_tonumber L (lua_rawgeti t 1), lua_tonumber L (lua_rawgeti t 2),
                       lua_tonumber L (lua_rawgeti t 3))))"

text \<open>
  The body of the loop over the entries of \<^verbatim>\<open>plates\<close>, for the entry \<open>entry\<close> stored as
  plate \<open>i\<close>: \<open>0\<close> when the load is given up, \<open>1\<close> otherwise, and the globe as it is
  then. The result is \<open>None\<close> when the entry is not a table: the C code indexes it with
  \<^verbatim>\<open>lua_rawgeti\<close> all the same, which the Lua library leaves undefined. The index \<open>i\<close>
  is not compared with \<^verbatim>\<open>MAX_PLATES\<close>: from \<open>i = 6\<close> on the assignments go past the
  end of the array \<^verbatim>\<open>globe.plates\<close>.
\<close>

definition load_plate :: "lua_State \<Rightarrow> lua_value \<Rightarrow> int \<Rightarrow> globe \<Rightarrow> (int \<times> globe) option" where
  "load_plate L entry i g =
     (if \<not> lua_istable entry then None
      else
        (let fw = lua_rawgeti entry 1
         in if \<not> lua_istable fw \<or> lua_rawlen fw \<noteq> 3 then Some (0, g)
            else
              (case read_vec3 L fw (forward (plates g i)) of
                 (ok, fwd) \<Rightarrow>
                   (let g1 = g\<lparr>plates := (plates g)(i := (plates g i)\<lparr>forward := fwd\<rparr>)\<rparr>
                    in if \<not> ok then Some (0, g1)
                       else
                         (let upt = lua_rawgeti entry 2
                          in if \<not> lua_istable upt \<or> lua_rawlen upt \<noteq> 3 then Some (0, g1)
                             else
                               (case read_vec3 L upt (up (plates g1 i)) of
                                  (ok, upv) \<Rightarrow>
                                    (let g2 = g1\<lparr>plates := (plates g1)(i :=
                                                (plates g1 i)\<lparr>up := upv\<rparr>)\<rparr>
                                     in if \<not> ok then Some (0, g2)
                                        else
                                          (let r = CrossProduct upv fwd;
                                               upc = CrossProduct fwd r;
                                               fv = lua_tonumber L (lua_rawgeti entry 3) * pi / 180;
                                               g3 = g2\<lparr>plates := (plates g2)(i :=
                                                      (plates g2 i)\<lparr>right := r, up := upc,
                                                         fov := fv\<rparr>)\<rparr>
                                           in if fv \<le> 0 then Some (0, g3)
                                              else Some (1, g3\<lparr>plates := (plates g3)(i :=
                                                     (plates g3 i)\<lparr>dist :=
                                                        0.5 / tan (fv / 2)\<rparr>)\<rparr>)))))))))"

text \<open>
  The loop over the entries of \<^verbatim>\<open>plates\<close> in the order of \<^verbatim>\<open>lua_next\<close>: the return
  code, the count \<open>i\<close> of entries stored, and the globe.
\<close>

fun load_plates ::
  "lua_State \<Rightarrow> (lua_value \<times> lua_value) list \<Rightarrow> int \<Rightarrow> globe \<Rightarrow> (int \<times> int \<times> globe) option" where
  "load_plates L [] i g = Some (1, i, g)"
| "load_plates L ((k, entry) # rest) i g =
     (case load_plate L entry i g of
        None \<Rightarrow> None
      | Some (ok, g') \<Rightarrow> if ok = 0 then Some (0, i, g') else load_plates L rest (i + 1) g')"

definition lua_globe_load :: "lua_State \<Rightarrow> script \<Rightarrow> fisheye \<Rightarrow> (int \<times> fisheye) option" where
  "lua_globe_load L run st0 =
     (let st = lua_globe_clear st0
      in case run (globals st) of
           None \<Rightarrow> Some (0, st)
         | Some gl \<Rightarrow>
             (let st1 = st\<lparr>globals := gl,
                         lua_refs := (lua_refs st)\<lparr>globe_plate := ref_ray L (gl ''globe_plate'')\<rparr>\<rparr>;
                  pl = gl ''plates''
              in if \<not> lua_istable pl \<or> lua_rawlen pl < 1 then Some (0, st1)
                 else
                   (case pl of
                      LTable kvs \<Rightarrow>
                        (case load_plates L kvs 0 (globe st1) of
                           None \<Rightarrow> None
                         | Some (ok, i, g) \<Rightarrow>
                             if ok = 0 then Some (0, st1\<lparr>globe := g\<rparr>)
                             else Some (1, st1\<lparr>globe := g\<lparr>numplates := i\<rparr>\<rparr>))
                    | _ \<Rightarrow> Some (0, st1))))"

subsection \<open>The lens\<close>

definition lua_lens_clear :: "fisheye \<Rightarrow> fisheye" where
  "lua_lens_clear st =
     st\<lparr>globals := (globals st)
          (''map'' := LNil, ''max_hfov'' := LNil, ''max_vfov'' := LNil, ''lens_width'' := LNil,
           ''lens_height'' := LNil, ''lens_inverse'' := LNil, ''lens_forward'' := LNil,
           ''onload'' := LNil, ''numplates'' := LNumber (of_int (numplates (globe st))))\<rparr>"

definition number_or_zero :: "lua_State \<Rightarrow> lua_value \<Rightarrow> real" where
  "number_or_zero L v = (if lua_isnumber L v then lua_tonumber L v else 0)"

definition lua_lens_load :: "lua_State \<Rightarrow> script \<Rightarrow> fisheye \<Rightarrow> int \<times> fisheye" where
  "lua_lens_load L run st0 =
     (let st = lua_lens_clear st0
      in case run (globals st) of
           None \<Rightarrow> (0, st)
         | Some gl \<Rightarrow>
             (let st1 = st\<lparr>globals := gl, lens := (lens st)\<lparr>map_type := MAP_NONE\<rparr>,
                         lua_refs := (lua_refs st)\<lparr>lens_forward := None, lens_inverse := None\<rparr>\<rparr>;
                  st2 = (if \<not> lua_isfunction (gl ''lens_inverse'') then st1
                         else st1\<lparr>lua_refs := (lua_refs st1)
                                  \<lparr>lens_inverse := ref_xy L (gl ''lens_inverse'')\<rparr>,
                                lens := (lens st1)\<lparr>map_type := MAP_INVERSE\<rparr>\<rparr>);
                  st3 = (if \<not> lua_isfunction (gl ''lens_forward'') then st2
                         else st2\<lparr>lua_refs := (lua_refs st2)
                                  \<lparr>lens_forward := ref_ray L (gl ''lens_forward'')\<rparr>,
                                lens := (if map_type (lens st2) = MAP_NONE
                                         then (lens st2)\<lparr>map_type := MAP_FORWARD\<rparr>
                                         else lens st2)\<rparr>);
                  funcname = lua_tostring L (gl ''map'');
                  bad_map = (lua_isstring (gl ''map'') \<and> strcmp funcname ''lens_inverse'' \<noteq> 0
                             \<and> strcmp funcname ''lens_forward'' \<noteq> 0);
                  st4 = (if lua_isstring (gl ''map'') then
                           (if strcmp funcname ''lens_inverse'' = 0
                            then st3\<lparr>lens := (lens st3)\<lparr>map_type := MAP_INVERSE\<rparr>\<rparr>
                            else if strcmp funcname ''lens_forward'' = 0
                            then st3\<lparr>lens := (lens st3)\<lparr>map_type := MAP_FORWARD\<rparr>\<rparr>
                            else st3)
                         else st3)
              in if bad_map then (0, st4)
                 else (1, st4\<lparr>max_hfov := number_or_zero L (gl ''max_hfov'') * (pi / 180),
                             max_vfov := number_or_zero L (gl ''max_vfov'') * (pi / 180),
                             lens := (lens st4)\<lparr>width := number_or_zero L (gl ''lens_width''),
                                                height := number_or_zero L (gl ''lens_height'')\<rparr>\<rparr>)))"

section \<open>Plate selection: the specification and sample data\<close>

text \<open>
  What the spec asks of the plate chosen for a ray: the dot product of the ray with the
  plate's forward vector is the largest among the live plates, and no plate with a
  lower index reaches it.
\<close>

definition plate_dp :: "globe \<Rightarrow> vec3 \<Rightarrow> int \<Rightarrow> real" where
  "plate_dp g ray j = DotProduct ray (forward (plates g j))"

definition first_argmax :: "globe \<Rightarrow> vec3 \<Rightarrow> int \<Rightarrow> bool" where
  "first_argmax g ray r \<longleftrightarrow>
     r \<in> {0..<numplates g} \<and>
     (\<forall>j\<in>{0..<numplates g}. plate_dp g ray j \<le> plate_dp g ray r) \<and>
     (\<forall>j\<in>{0..<r}. plate_dp g ray j < plate_dp g ray r)"

text \<open>Sample data: a runtime in which no string reads as a number, and no script.\<close>

definition sample_lua :: lua_State where
  "sample_lua = \<lparr>str2number = (\<lambda>s. None), number2str = (\<lambda>r. []),
     number2integer = (\<lambda>r. \<lfloor>r\<rfloor>), closure = (\<lambda>n args. [])\<rparr>"

definition no_refs :: lua_refs where
  "no_refs = \<lparr>lens_forward = None, lens_inverse = None, globe_plate = None\<rparr>"

text \<open>
  A globe of two plates whose forward vectors are not unit vectors (the loader accepts
  them as they are), and a unit ray pointing away from both.
\<close>

definition far_globe :: globe where
  "far_globe =
     \<lparr>plates = (\<lambda>i. if i = 0
          then \<lparr>forward = (0, 0, 5), right = (5, 0, 0), up = (0, 25, 0),
                fov = pi / 2, dist = 1 / 2, display = 0\<rparr>
          else \<lparr>forward = (4, 0, 0), right = (0, 0, -4), up = (0, 16, 0),
                fov = pi / 2, dist = 1 / 2, display = 0\<rparr>),
      numplates = 2, platesize = 4\<rparr>"

definition far_ray :: vec3 where
  "far_ray = (- 3 / 5, 0, - 4 / 5)"


text \<open>
  A globe of one plate looking forward with a field of view of 90 degrees, rendered at
  3 by 3 texels, a viewport of 3 by 3 pixels with an empty lens-map, and the default
  grid of the overlay.
\<close>

definition front_plate :: plate where
  "front_plate = \<lparr>forward = (0, 0, 1), right = (1, 0, 0), up = (0, 1, 0),
     fov = pi / 2, dist = 1 / 2, display = 0\<rparr>"

definition front_globe :: globe where
  "front_globe = \<lparr>plates = (\<lambda>i. front_plate), numplates = 1, platesize = 3\<rparr>"

definition demo_lens :: lens where
  "demo_lens = \<lparr>map_type = MAP_FORWARD, width = 0, height = 0, scale = 2 / 3,
     width_px = 3, height_px = 3, pixels = (\<lambda>i. None), pixel_tints = (\<lambda>i. 255)\<rparr>"

definition demo_state :: fisheye where
  "demo_state = \<lparr>globals = (\<lambda>n. LNil), lua_refs = no_refs, globe = front_globe,
     lens = demo_lens, rubix = \<lparr>numcells = 10, cell_size = 4, pad_size = 1\<rparr>,
     lens_builder = \<lparr>working = False, inverse_ly = 2, forward_top = ROW_A,
       forward_bot = ROW_B, forward_plate_index = 0, forward_py = 2, rows = (\<lambda>p i. 0)\<rparr>,
     desired_fov = pi, fit = 0, hfit = 0, vfit = 0, framesize = FS_WIDTH_PX,
     max_hfov = pi, max_vfov = pi\<rparr>"

section \<open>Plate frames: the specification\<close>

text \<open>
  The invariants the spec's data model gives for a plate: an orthonormal right-handed
  basis, a field of view in \<open>(0, \<pi>)\<close>, and the camera distance that belongs to it.
\<close>

definition plate_frame_ok :: "plate \<Rightarrow> bool" where
  "plate_frame_ok p \<longleftrightarrow>
     DotProduct (forward p) (forward p) = 1 \<and>
     DotProduct (right p) (right p) = 1 \<and>
     DotProduct (up p) (up p) = 1 \<and>
     DotProduct (forward p) (right p) = 0 \<and>
     DotProduct (forward p) (up p) = 0 \<and>
     DotProduct (right p) (up p) = 0 \<and>
     right p = CrossProduct (up p) (forward p) \<and>
     0 < fov p \<and> fov p < pi \<and>
     dist p = 0.5 / tan (fov p / 2)"

section \<open>Script errors during a build: the specification\<close>

text \<open>
  The lens coordinates the inverse build hands to the script for the screen pixel
  \<open>(lx, ly)\<close>; what the spec calls a malformed answer of \<^verbatim>\<open>lens_inverse\<close> (anything
  but a single nil or three numbers) and of \<^verbatim>\<open>lens_forward\<close> (anything but a single
  nil or two numbers); the pixels of the viewport; and that the lens-map entry and the
  tint of a pixel are in \<open>st'\<close> what they were in \<open>st\<close>.
\<close>

definition lens_x :: "fisheye \<Rightarrow> int \<Rightarrow> real" where
  "lens_x st lx = of_int (lx - width_px (lens st) sdiv 2) * scale (lens st)"

definition lens_y :: "fisheye \<Rightarrow> int \<Rightarrow> real" where
  "lens_y st ly = of_int (- (ly - height_px (lens st) sdiv 2)) * scale (lens st)"

definition malformed_inverse :: "lua_State \<Rightarrow> lua_value list \<Rightarrow> bool" where
  "malformed_inverse L rets \<longleftrightarrow>
     rets \<noteq> [LNil] \<and> \<not> (length rets = 3 \<and> list_all (lua_isnumber L) rets)"

definition in_view :: "fisheye \<Rightarrow> int \<Rightarrow> int \<Rightarrow> bool" where
  "in_view st lx ly \<longleftrightarrow>
     0 \<le> lx \<and> lx < width_px (lens st) \<and> 0 \<le> ly \<and> ly < height_px (lens st)"

definition unwritten :: "fisheye \<Rightarrow> fisheye \<Rightarrow> int \<Rightarrow> int \<Rightarrow> bool" where
  "unwritten st st' lx ly \<longleftrightarrow>
     pixels (lens st') (LENSPIXEL (lens st) lx ly) = pixels (lens st) (LENSPIXEL (lens st) lx ly) \<and>
     pixel_tints (lens st') (LENSPIXELTINT (lens st) lx ly)
       = pixel_tints (lens st) (LENSPIXELTINT (lens st) lx ly)"

definition same_view :: "fisheye \<Rightarrow> fisheye \<Rightarrow> bool" where
  "same_view st st' \<longleftrightarrow>
     width_px (lens st') = width_px (lens st) \<and> height_px (lens st') = height_px (lens st) \<and>
     scale (lens st') = scale (lens st) \<and> lens_builder st' = lens_builder st"

text \<open>
  The state after the pixel \<open>lx\<close> of the current row was handled with an answer that
  was not malformed, and the state with the cursor of the inverse build moved on by
  one row.
\<close>

definition inverse_pixel ::
  "lua_State \<Rightarrow> (real \<Rightarrow> real \<Rightarrow> lua_value list) \<Rightarrow> real \<Rightarrow> int \<Rightarrow> fisheye \<Rightarrow> fisheye" where
  "inverse_pixel L f y lx st =
     (case snd (lua_lens_inverse L f (lens_x st lx) y) of
        None \<Rightarrow> st
      | Some (r0, r1, r2) \<Rightarrow> set_lensmap_from_ray L st lx (inverse_ly (lens_builder st)) r0 r1 r2)"

definition next_row :: "fisheye \<Rightarrow> fisheye" where
  "next_row st = st\<lparr>lens_builder := (lens_builder st)
     \<lparr>inverse_ly := inverse_ly (lens_builder st) - 1\<rparr>\<rparr>"

text \<open>
  The ray of the border between the texels \<open>c\<close> and \<open>c + 1\<close> of the plate under the
  cursor of the forward build, at height \<open>v\<close>.
\<close>

definition malformed_forward :: "lua_State \<Rightarrow> lua_value list \<Rightarrow> bool" where
  "malformed_forward L rets \<longleftrightarrow>
     rets \<noteq> [LNil] \<and> \<not> (length rets = 2 \<and> list_all (lua_isnumber L) rets)"

definition border_ray :: "fisheye \<Rightarrow> int \<Rightarrow> int \<Rightarrow> real \<Rightarrow> vec3" where
  "border_ray st platesize0 c v =
     plate_uv_to_ray (globe st) (forward_plate_index (lens_builder st))
       ((of_int c + 0.5) / of_int platesize0) v"

text \<open>
  The border point left of the first texel is the one with \<open>c = -1\<close>. The loop that
  computes the border points of a row at height \<open>v\<close> asks the script for the left
  point, for the point \<open>0\<close> unless the answer for the left point was nil, and for
  every point from \<open>1\<close> on; \<open>stops_row\<close> says that one of these answers is malformed.
\<close>

definition stops_row ::
  "lua_State \<Rightarrow> (vec3 \<Rightarrow> lua_value list) \<Rightarrow> fisheye \<Rightarrow> int \<Rightarrow> real \<Rightarrow> bool" where
  "stops_row L f st platesize0 v \<longleftrightarrow>
     0 < platesize0 \<and>
     (malformed_forward L (f (border_ray st platesize0 (- 1) v)) \<or>
      (f (border_ray st platesize0 (- 1) v) \<noteq> [LNil] \<and>
       malformed_forward L (f (border_ray st platesize0 0 v))) \<or>
      (\<exists>c. 1 \<le> c \<and> c < platesize0 \<and> malformed_forward L (f (border_ray st platesize0 c v))))"

section \<open>The lens scale: the specification and sample data\<close>

text \<open>
  The scale the spec gives for an explicit field of view: the probe ray is
  \<open>latlon_to_ray 0 (fov/2)\<close> for \<^verbatim>\<open>hfov\<close> (\<^verbatim>\<open>framesize\<close> points to the width) and
  \<open>latlon_to_ray (fov/2) 0\<close> for \<^verbatim>\<open>vfov\<close> (it points to the height), and the scale
  is the absolute value of the coordinate \<^verbatim>\<open>lens_forward\<close> returns on that axis,
  divided by half the screen dimension.
\<close>

definition spec_fov_scale :: "lua_State \<Rightarrow> fisheye \<Rightarrow> real option" where
  "spec_fov_scale L st =
     (case lens_forward (lua_refs st) of
        None \<Rightarrow> None
      | Some f \<Rightarrow>
          (case framesize st of
             FS_NULL \<Rightarrow> None
           | FS_WIDTH_PX \<Rightarrow>
               (case snd (lua_lens_forward L f (latlon_to_ray 0 (desired_fov st / 2))) of
                  None \<Rightarrow> None
                | Some (x, y) \<Rightarrow> Some (\<bar>x\<bar> / (of_int (width_px (lens st)) / 2)))
           | FS_HEIGHT_PX \<Rightarrow>
               (case snd (lua_lens_forward L f (latlon_to_ray (desired_fov st / 2) 0)) of
                  None \<Rightarrow> None
                | Some (x, y) \<Rightarrow> Some (\<bar>y\<bar> / (of_int (height_px (lens st)) / 2)))))"

text \<open>
  A lens that stretches the vertical axis, and the state after the command
  \<^verbatim>\<open>vfov 180\<close> (resp. \<^verbatim>\<open>hfov 180\<close>) on a square viewport of 3 by 3 pixels.
\<close>

definition stretch_lens :: "vec3 \<Rightarrow> lua_value list" where
  "stretch_lens = (\<lambda>(x, y, z). [LNumber x, LNumber (2 * y)])"

definition square_vfov_state :: fisheye where
  "square_vfov_state =
     demo_state\<lparr>framesize := FS_HEIGHT_PX,
       lua_refs := no_refs\<lparr>lens_forward := Some stretch_lens\<rparr>\<rparr>"

definition square_hfov_state :: fisheye where
  "square_hfov_state = square_vfov_state\<lparr>framesize := FS_WIDTH_PX\<rparr>"

section \<open>Loading: the specification and sample scripts\<close>

text \<open>
  The direction the global \<^verbatim>\<open>map\<close> names, in the spec's words: it is a string equal to
  \<^verbatim>\<open>"lens_inverse"\<close> or to \<^verbatim>\<open>"lens_forward"\<close>.
\<close>

definition named_map :: "lua_State \<Rightarrow> lua_value \<Rightarrow> map_type_t option" where
  "named_map L v =
     (if lua_isstring v \<and> lua_tostring L v = ''lens_inverse'' then Some MAP_INVERSE
      else if lua_isstring v \<and> lua_tostring L v = ''lens_forward'' then Some MAP_FORWARD
      else None)"

text \<open>
  The same with the names compared as C strings: the text of \<^verbatim>\<open>map\<close> up to its first
  NUL character is \<^verbatim>\<open>"lens_inverse"\<close> or \<^verbatim>\<open>"lens_forward"\<close>.
\<close>

definition preferred_map :: "lua_State \<Rightarrow> lua_value \<Rightarrow> map_type_t option" where
  "preferred_map L v =
     (if lua_isstring v \<and> c_str (lua_tostring L v) = ''lens_inverse'' then Some MAP_INVERSE
      else if lua_isstring v \<and> c_str (lua_tostring L v) = ''lens_forward'' then Some MAP_FORWARD
      else None)"

text \<open>
  A lens script that defines \<^verbatim>\<open>lens_inverse\<close> only, and one that defines both maps and
  prefers the forward one.
\<close>

definition inverse_only_lens :: script where
  "inverse_only_lens = (\<lambda>gl. Some (gl(''lens_inverse'' := LFunction 0)))"

definition forward_preferred_lens :: script where
  "forward_preferred_lens =
     (\<lambda>gl. Some (gl(''lens_inverse'' := LFunction 0, ''lens_forward'' := LFunction 1,
                      ''map'' := LString ''lens_forward'')))"

text \<open>
  A lens script that defines \<^verbatim>\<open>lens_inverse\<close> only and sets \<^verbatim>\<open>map\<close> to the Lua string
  \<^verbatim>\<open>"lens_forward\0x"\<close>, which holds a NUL character after the name.
\<close>

definition nul_name_lens :: script where
  "nul_name_lens =
     (\<lambda>gl. Some (gl(''lens_inverse'' := LFunction 0,
                      ''map'' := LString (''lens_forward'' @ [CHR 0x00, CHR ''x'']))))"

text \<open>
  A globe script whose \<^verbatim>\<open>plates\<close> holds seven well-formed entries
  \<^verbatim>\<open>{{0,0,1},{0,1,0},90}\<close>.
\<close>

definition lua_vec :: "real \<Rightarrow> real \<Rightarrow> real \<Rightarrow> lua_value" where
  "lua_vec a b c = LTable [(LNumber 1, LNumber a), (LNumber 2, LNumber b), (LNumber 3, LNumber c)]"

definition front_entry :: lua_value where
  "front_entry = LTable [(LNumber 1, lua_vec 0 0 1), (LNumber 2, lua_vec 0 1 0), (LNumber 3, LNumber 90)]"

definition seven_plates :: script where
  "seven_plates =
     (\<lambda>gl. Some (gl(''plates'' := LTable (map (\<lambda>n. (LNumber (of_int n), front_entry)) [1..7]))))"

section \<open>Slicing the forward build: sample data\<close>

text \<open>
  A rectilinear lens: \<^verbatim>\<open>lens_forward\<close> answers \<open>x/z, y/z\<close> for a ray in front of the
  camera and nil for any other.
\<close>

definition rectilinear :: "vec3 \<Rightarrow> lua_value list" where
  "rectilinear = (\<lambda>(x, y, z). if z \<le> 0 then [LNil] else [LNumber (x / z), LNumber (y / z)])"

text \<open>
  The view of \<open>demo_state\<close>, as far as the forward build reads it: the single plate
  looks forward, and the viewport has 3 by 3 pixels at the scale \<open>2/3\<close>.
\<close>

definition front_view :: "fisheye \<Rightarrow> bool" where
  "front_view st \<longleftrightarrow>
     forward (plates (globe st) 0) = (0, 0, 1) \<and> right (plates (globe st) 0) = (1, 0, 0) \<and>
     up (plates (globe st) 0) = (0, 1, 0) \<and> dist (plates (globe st) 0) = 1 / 2 \<and>
     numplates (globe st) = 1 \<and> globe_plate (lua_refs st) = None \<and>
     scale (lens st) = 2 / 3 \<and> width_px (lens st) = 3 \<and> height_px (lens st) = 3"

text \<open>
  A scanline buffer after its four border points were stored: under \<open>front_view\<close> they
  lie at the columns \<open>-1\<close>, \<open>0\<close>, \<open>1\<close>, \<open>2\<close> of one screen line \<open>y\<close>.
\<close>

definition store_row :: "fisheye \<Rightarrow> row_ptr \<Rightarrow> int \<Rightarrow> fisheye" where
  "store_row st row y =
     store_point (store_point (store_point (store_point st
       row 0 (Some (- 1, y))) row 2 (Some (0, y))) row 4 (Some (1, y))) row 6 (Some (2, y))"

definition row_is :: "fisheye \<Rightarrow> row_ptr \<Rightarrow> int \<Rightarrow> bool" where
  "row_is st r y \<longleftrightarrow>
     map (rows (lens_builder st) r) [0, 1, 2, 3, 4, 5, 6, 7] = [- 1, y, 0, y, 1, y, 2, y]"

text \<open>
  Drawing changes the lens-map and the display flags of the plates only: the builder's
  progress, the script's functions, the geometry of the plates and the dimensions and scale of
  the lens stay as they are.
\<close>

definition same_setup :: "fisheye \<Rightarrow> fisheye \<Rightarrow> bool" where
  "same_setup st st' \<longleftrightarrow>
     lens_builder st' = lens_builder st \<and> lua_refs st' = lua_refs st \<and>
     numplates (globe st') = numplates (globe st) \<and>
     platesize (globe st') = platesize (globe st) \<and>
     (\<forall>i. forward (plates (globe st') i) = forward (plates (globe st) i) \<and>
          right (plates (globe st') i) = right (plates (globe st) i) \<and>
          up (plates (globe st') i) = up (plates (globe st) i) \<and>
          dist (plates (globe st') i) = dist (plates (globe st) i)) \<and>
     scale (lens st') = scale (lens st) \<and> width_px (lens st') = width_px (lens st) \<and>
     height_px (lens st') = height_px (lens st)"

text \<open>The two steps of the cursor: to the row above, and to the next plate.\<close>

definition row_done :: "fisheye \<Rightarrow> fisheye" where
  "row_done st =
     st\<lparr>lens_builder := (lens_builder st)\<lparr>forward_py := forward_py (lens_builder st) - 1\<rparr>\<rparr>"

definition plate_done :: "int \<Rightarrow> fisheye \<Rightarrow> fisheye" where
  "plate_done platesize0 st =
     st\<lparr>lens_builder := (lens_builder st)
          \<lparr>forward_py := platesize0 - 1,
           forward_plate_index := forward_plate_index (lens_builder st) + 1\<rparr>\<rparr>"

text \<open>
  The states of the build on \<open>demo_state\<close> after the rows \<open>2\<close>, \<open>1\<close> and \<open>0\<close> of
  the plate. For row \<open>0\<close> there are two: in an uninterrupted call the local pointers
  were swapped twice when the row is reached, so its upper points go to the first buffer and
  its lower points are read from the second; in a call that starts at row \<open>0\<close> the pointers
  are read afresh from the builder's state and swapped once.
\<close>

definition after_row2 :: fisheye where
  "after_row2 = row_done (draw_row sample_lua 3 0 2 ROW_A ROW_B
     (store_row (store_row demo_state ROW_B 2) ROW_A 1))"

definition after_row1 :: fisheye where
  "after_row1 = row_done (draw_row sample_lua 3 0 1 ROW_B ROW_A (store_row after_row2 ROW_B 0))"

definition after_row0 :: fisheye where
  "after_row0 = row_done (draw_row sample_lua 3 0 0 ROW_A ROW_B
     (store_row after_row1 ROW_A (- 1)))"

definition after_row0_resumed :: fisheye where
  "after_row0_resumed = row_done (draw_row sample_lua 3 0 0 ROW_B ROW_A
     (store_row after_row1 ROW_B (- 1)))"

text \<open>
  The build of the lens-map of \<open>demo_state\<close> in one call whose clock never runs out, and
  in two calls: the clock of the first runs out at the head of the third row, the second
  call resumes from the state the first one left and is not interrupted.
\<close>

definition one_shot :: "bool \<times> fisheye" where
  "one_shot = resume_lensmap_forward sample_lua rectilinear (\<lambda>k. False) demo_state"

definition first_slice :: "bool \<times> fisheye" where
  "first_slice = resume_lensmap_forward sample_lua rectilinear (\<lambda>k. 2 \<le> k) demo_state"

definition second_slice :: "bool \<times> fisheye" where
  "second_slice = resume_lensmap_forward sample_lua rectilinear (\<lambda>k. False) (snd first_slice)"

section \<open>The frames of a build\<close>

text \<open>
  The frames that follow the one in which a build was started: each calls
  \<^verbatim>\<open>resume_lensmap\<close> if \<^verbatim>\<open>lens_builder.working\<close> is set, and \<^verbatim>\<open>resume_lensmap\<close> stores
  there what the builder returned. \<open>resume\<close> is one of the two builders, the list holds
  the clock of each frame, and the pair is the value the last call returned with the state
  it left.
\<close>

fun resume_frames ::
  "((nat \<Rightarrow> bool) \<Rightarrow> fisheye \<Rightarrow> bool \<times> fisheye) \<Rightarrow> (nat \<Rightarrow> bool) list \<Rightarrow> bool \<times> fisheye
     \<Rightarrow> bool \<times> fisheye" where
  "resume_frames resume [] r = r"
| "resume_frames resume (clock # clocks) (w, st) =
     (if w then resume_frames resume clocks (resume clock st) else (w, st))"

section \<open>A nil from the forward map: sample data\<close>

text \<open>
  A rectilinear lens that shows the lower part of the view only: \<^verbatim>\<open>lens_forward\<close>
  answers nil for a ray behind the camera and for a ray with \<open>y/z > 1/2\<close>.
\<close>

definition upper_blind :: "vec3 \<Rightarrow> lua_value list" where
  "upper_blind =
     (\<lambda>(x, y, z). if z \<le> 0 \<or> z < 2 * y then [LNil] else [LNumber (x / z), LNumber (y / z)])"

text \<open>
  The states of the build on \<open>demo_state\<close> with this lens after the rows \<open>1\<close> and
  \<open>0\<close> of the plate (after row \<open>2\<close> it is \<open>after_row2\<close>): no border point is stored
  for them, and their quads are drawn from what the two buffers hold.
\<close>

definition blind_row1 :: fisheye where
  "blind_row1 = row_done (draw_row sample_lua 3 0 1 ROW_B ROW_A after_row2)"

definition blind_row0 :: fisheye where
  "blind_row0 = row_done (draw_row sample_lua 3 0 0 ROW_A ROW_B blind_row1)"

definition blind_build :: "bool \<times> fisheye" where
  "blind_build = resume_lensmap_forward sample_lua upper_blind (\<lambda>k. False) demo_state"

section \<open>Properties of plate selection\<close>

lemma plate_scan_step:
  "i < numplates g \<Longrightarrow>
   plate_scan g ray i m p =
     (if plate_dp g ray i > m then plate_scan g ray (i + 1) (plate_dp g ray i) i
      else plate_scan g ray (i + 1) m p)"
  by (subst plate_scan.simps) (simp add: plate_dp_def Let_def)

lemma plate_scan_stop: "\<not> i < numplates g \<Longrightarrow> plate_scan g ray i m p = p"
  by (subst plate_scan.simps) simp

lemma plate_scan_range:
  "0 \<le> i \<Longrightarrow> 0 \<le> p \<Longrightarrow> p < max 1 (numplates g) \<Longrightarrow>
   0 \<le> plate_scan g ray i m p \<and> plate_scan g ray i m p < max 1 (numplates g)"
proof (induction g ray i m p rule: plate_scan.induct)
  case (1 g ray i max_dp plate_index)
  show ?case
  proof (cases "i < numplates g")
    case False
    then show ?thesis using "1.prems" by (simp add: plate_scan_stop)
  next
    case True
    then show ?thesis
      using "1.IH" "1.prems"
      by (subst (1 2) plate_scan.simps) (auto simp: Let_def)
  qed
qed

lemma plate_scan_none:
  "\<forall>j. i \<le> j \<and> j < numplates g \<longrightarrow> plate_dp g ray j \<le> m \<Longrightarrow> plate_scan g ray i m p = p"
proof (induction g ray i m p rule: plate_scan.induct)
  case (1 g ray i max_dp plate_index)
  show ?case
  proof (cases "i < numplates g")
    case False
    then show ?thesis by (simp add: plate_scan_stop)
  next
    case True
    have le: "plate_dp g ray i \<le> max_dp" using "1.prems" True by simp
    have "plate_scan g ray (i + 1) max_dp plate_index = plate_index"
      using "1.IH"(2)[OF True refl] le "1.prems" by (simp add: plate_dp_def)
    then show ?thesis using True le by (simp add: plate_scan_step)
  qed
qed

lemma plate_scan_some:
  "\<exists>j. i \<le> j \<and> j < numplates g \<and> m < plate_dp g ray j \<Longrightarrow>
   i \<le> plate_scan g ray i m p \<and> plate_scan g ray i m p < numplates g \<and>
   m < plate_dp g ray (plate_scan g ray i m p) \<and>
   (\<forall>j. i \<le> j \<and> j < numplates g \<longrightarrow> plate_dp g ray j \<le> plate_dp g ray (plate_scan g ray i m p)) \<and>
   (\<forall>j. i \<le> j \<and> j < plate_scan g ray i m p \<longrightarrow> plate_dp g ray j < plate_dp g ray (plate_scan g ray i m p))"
proof (induction g ray i m p rule: plate_scan.induct)
  case (1 g ray i max_dp plate_index)
  from "1.prems" have lt: "i < numplates g" by auto
  have a: "\<And>j. i \<le> j \<Longrightarrow> j = i \<or> i + 1 \<le> j" by arith
  show ?case
  proof (cases "max_dp < plate_dp g ray i")
    case True
    define r where "r = plate_scan g ray (i + 1) (plate_dp g ray i) i"
    have eq: "plate_scan g ray i max_dp plate_index = r"
      using lt True by (simp add: plate_scan_step r_def)
    show ?thesis
    proof (cases "\<exists>j. i + 1 \<le> j \<and> j < numplates g \<and> plate_dp g ray i < plate_dp g ray j")
      case ex: True
      have ih: "i + 1 \<le> r \<and> r < numplates g \<and> plate_dp g ray i < plate_dp g ray r \<and>
          (\<forall>j. i + 1 \<le> j \<and> j < numplates g \<longrightarrow> plate_dp g ray j \<le> plate_dp g ray r) \<and>
          (\<forall>j. i + 1 \<le> j \<and> j < r \<longrightarrow> plate_dp g ray j < plate_dp g ray r)"
        using "1.IH"(1)[OF lt refl True[unfolded plate_dp_def]] ex
        unfolding r_def plate_dp_def by blast
      show ?thesis unfolding eq using ih True by (auto dest: a)
    next
      case nex: False
      have "r = i" unfolding r_def using nex by (intro plate_scan_none) (auto simp: not_less)
      moreover have "plate_dp g ray j \<le> plate_dp g ray i" if "i \<le> j" "j < numplates g" for j
      proof (cases "j = i")
        case True
        then show ?thesis by simp
      next
        case False
        with that have "i + 1 \<le> j" by simp
        with nex that show ?thesis by (auto simp: not_less)
      qed
      ultimately show ?thesis unfolding eq using True lt by auto
    qed
  next
    case False
    have eq: "plate_scan g ray i max_dp plate_index = plate_scan g ray (i + 1) max_dp plate_index"
      using lt False by (simp add: plate_scan_step)
    have ex: "\<exists>j. i + 1 \<le> j \<and> j < numplates g \<and> max_dp < plate_dp g ray j"
    proof -
      from "1.prems" obtain j where j: "i \<le> j" "j < numplates g" "max_dp < plate_dp g ray j"
        by blast
      with False have "j \<noteq> i" by auto
      with j have "i + 1 \<le> j" by simp
      with j show ?thesis by blast
    qed
    have ih: "i + 1 \<le> plate_scan g ray (i + 1) max_dp plate_index \<and>
        plate_scan g ray (i + 1) max_dp plate_index < numplates g \<and>
        max_dp < plate_dp g ray (plate_scan g ray (i + 1) max_dp plate_index) \<and>
        (\<forall>j. i + 1 \<le> j \<and> j < numplates g \<longrightarrow>
           plate_dp g ray j \<le> plate_dp g ray (plate_scan g ray (i + 1) max_dp plate_index)) \<and>
        (\<forall>j. i + 1 \<le> j \<and> j < plate_scan g ray (i + 1) max_dp plate_index \<longrightarrow>
           plate_dp g ray j < plate_dp g ray (plate_scan g ray (i + 1) max_dp plate_index))"
      using "1.IH"(2)[OF lt refl False[unfolded plate_dp_def]] ex
      unfolding plate_dp_def by blast
    show ?thesis unfolding eq using ih False by (auto dest: a)
  qed
qed

lemma far_globe_scan: "plate_scan far_globe far_ray 0 (-2) 0 = 0"
  by (rule plate_scan_none) (simp add: far_globe_def far_ray_def plate_dp_def)

text \<open>
  C9. With between one and six plates and no scripted \<^verbatim>\<open>globe_plate\<close>, the index
  returned by \<^verbatim>\<open>ray_to_plate_index\<close> lies in \<open>[0, numplates)\<close> for every ray, the
  zero ray and rays that are not unit vectors included; it is never \<open>-1\<close>.
\<close>

theorem ray_to_plate_index_in_range:
  assumes "1 \<le> numplates g" and "numplates g \<le> 6" and "globe_plate refs = None"
  shows "0 \<le> ray_to_plate_index L refs g ray \<and> ray_to_plate_index L refs g ray < numplates g"
proof -
  have "0 \<le> plate_scan g ray 0 (-2) 0 \<and> plate_scan g ray 0 (-2) 0 < max 1 (numplates g)"
    by (rule plate_scan_range) simp_all
  with assms show ?thesis by (simp add: ray_to_plate_index_def)
qed

theorem ray_to_plate_index_in_range_witness:
  "1 \<le> numplates far_globe \<and> numplates far_globe \<le> 6 \<and> globe_plate no_refs = None \<and>
   0 \<le> ray_to_plate_index sample_lua no_refs far_globe (0, 0, 0) \<and>
   ray_to_plate_index sample_lua no_refs far_globe (0, 0, 0) < numplates far_globe"
proof -
  have h: "1 \<le> numplates far_globe" "numplates far_globe \<le> 6" "globe_plate no_refs = None"
    by (simp_all add: far_globe_def no_refs_def)
  from ray_to_plate_index_in_range [OF h, of sample_lua "(0, 0, 0)"] h show ?thesis by simp
qed

text \<open>
  C4, where the code departs from it. The scan starts with the bound \<open>-2\<close> and the
  index \<open>0\<close>, and the loader stores the forward vectors as the script gives them,
  without normalising. On \<open>far_globe\<close> both dot products with the unit ray
  \<open>far_ray\<close> are at most \<open>-2\<close>: the scan never takes a plate and returns plate
  \<open>0\<close>, although plate \<open>1\<close> is a live plate with the larger dot product.
\<close>

theorem ray_to_plate_index_misses_maximum:
  "globe_plate no_refs = None \<and>
   ray_to_plate_index sample_lua no_refs far_globe far_ray = 0 \<and>
   1 < numplates far_globe \<and>
   plate_dp far_globe far_ray 0 < plate_dp far_globe far_ray 1"
proof -
  have "ray_to_plate_index sample_lua no_refs far_globe far_ray = 0"
    by (simp add: ray_to_plate_index_def no_refs_def far_globe_scan)
  moreover have "plate_dp far_globe far_ray 0 < plate_dp far_globe far_ray 1"
    by (simp add: plate_dp_def far_globe_def far_ray_def)
  ultimately show ?thesis by (simp add: no_refs_def far_globe_def)
qed

text \<open>
  What the scan does return. Without a scripted \<^verbatim>\<open>globe_plate\<close>, the plate returned is the
  lowest index at which the dot product with the forward vector is largest, provided
  some live plate has a dot product above the starting bound \<open>-2\<close> of the scan (so
  for unit rays against unit forward vectors); when none has, the scan keeps its
  initial index \<open>0\<close>. With a scripted \<^verbatim>\<open>globe_plate\<close>, the plate is the integer read
  off the value the script returned, and \<open>-1\<close> when that value is not a number.
\<close>

theorem ray_to_plate_index_selects:
  "(globe_plate refs = None \<longrightarrow> (\<exists>j\<in>{0..<numplates g}. - 2 < plate_dp g ray j) \<longrightarrow>
      first_argmax g ray (ray_to_plate_index L refs g ray)) \<and>
   (globe_plate refs = None \<longrightarrow> \<not> (\<exists>j\<in>{0..<numplates g}. - 2 < plate_dp g ray j) \<longrightarrow>
      ray_to_plate_index L refs g ray = 0) \<and>
   (globe_plate refs = Some f \<longrightarrow>
      ray_to_plate_index L refs g ray =
        (if lua_isnumber L (stack_top (f ray)) then lua_tointeger L (stack_top (f ray)) else - 1))"
proof (intro conjI impI)
  assume none: "globe_plate refs = None"
    and ex: "\<exists>j\<in>{0..<numplates g}. - 2 < plate_dp g ray j"
  then have "\<exists>j. 0 \<le> j \<and> j < numplates g \<and> - 2 < plate_dp g ray j" by auto
  from plate_scan_some [OF this, of 0]
  have "first_argmax g ray (plate_scan g ray 0 (- 2) 0)"
    by (simp add: first_argmax_def)
  with none show "first_argmax g ray (ray_to_plate_index L refs g ray)"
    by (simp add: ray_to_plate_index_def)
next
  assume none: "globe_plate refs = None"
    and nex: "\<not> (\<exists>j\<in>{0..<numplates g}. - 2 < plate_dp g ray j)"
  then have "\<forall>j. 0 \<le> j \<and> j < numplates g \<longrightarrow> plate_dp g ray j \<le> - 2"
    by (auto simp: not_less)
  from plate_scan_none [OF this, of 0] none
  show "ray_to_plate_index L refs g ray = 0"
    by (simp add: ray_to_plate_index_def)
next
  assume "globe_plate refs = Some f"
  then show "ray_to_plate_index L refs g ray =
      (if lua_isnumber L (stack_top (f ray)) then lua_tointeger L (stack_top (f ray)) else - 1)"
    by (simp add: ray_to_plate_index_def lua_globe_plate_def Let_def)
qed

theorem ray_to_plate_index_selects_witness:
  "first_argmax far_globe (0, 0, 1) (ray_to_plate_index sample_lua no_refs far_globe (0, 0, 1)) \<and>
   ray_to_plate_index sample_lua no_refs far_globe far_ray = 0 \<and>
   ray_to_plate_index sample_lua (no_refs\<lparr>globe_plate := Some (\<lambda>r. [LNumber 1])\<rparr>)
     far_globe far_ray = 1 \<and>
   ray_to_plate_index sample_lua (no_refs\<lparr>globe_plate := Some (\<lambda>r. [LBoolean True])\<rparr>)
     far_globe far_ray = - 1"
proof -
  have none: "globe_plate no_refs = None" by (simp add: no_refs_def)
  have ex: "\<exists>j\<in>{0..<numplates far_globe}. - 2 < plate_dp far_globe (0, 0, 1) j"
    by (rule bexI [of _ 0]) (simp_all add: far_globe_def plate_dp_def)
  have nex: "\<not> (\<exists>j\<in>{0..<numplates far_globe}. - 2 < plate_dp far_globe far_ray j)"
    by (auto simp: far_globe_def plate_dp_def far_ray_def)
  note a = ray_to_plate_index_selects [of no_refs far_globe "(0, 0, 1)" sample_lua]
  note b = ray_to_plate_index_selects [of no_refs far_globe far_ray sample_lua]
  note c = ray_to_plate_index_selects
    [of "no_refs\<lparr>globe_plate := Some (\<lambda>r. [LNumber 1])\<rparr>" far_globe far_ray
        sample_lua "\<lambda>r. [LNumber 1]"]
  note d = ray_to_plate_index_selects
    [of "no_refs\<lparr>globe_plate := Some (\<lambda>r. [LBoolean True])\<rparr>" far_globe far_ray
        sample_lua "\<lambda>r. [LBoolean True]"]
  from a none ex have 1: "first_argmax far_globe (0, 0, 1)
      (ray_to_plate_index sample_lua no_refs far_globe (0, 0, 1))" by blast
  from b none nex have 2: "ray_to_plate_index sample_lua no_refs far_globe far_ray = 0" by blast
  from c have 3: "ray_to_plate_index sample_lua
      (no_refs\<lparr>globe_plate := Some (\<lambda>r. [LNumber 1])\<rparr>) far_globe far_ray = 1"
    by (simp add: lua_isnumber_def lua_tointeger_def stack_top_def sample_lua_def)
  from d have 4: "ray_to_plate_index sample_lua
      (no_refs\<lparr>globe_plate := Some (\<lambda>r. [LBoolean True])\<rparr>) far_globe far_ray = - 1"
    by (simp add: lua_isnumber_def stack_top_def)
  from 1 2 3 4 show ?thesis by blast
qed

section \<open>Properties of the lens-map writes\<close>

text \<open>
  C10. \<^verbatim>\<open>set_lensmap_from_plate\<close> writes only for a screen pixel inside the viewport
  and a texel inside the plate: with any of the four coordinates out of range the call
  leaves the whole state as it was, so \<^verbatim>\<open>lens.pixels\<close>, \<^verbatim>\<open>lens.pixel_tints\<close> and the
  display flag of every plate are unchanged. With all four in range the pixel is set
  to the texel and the plate is marked as displayed.
\<close>

theorem set_lensmap_from_plate_guarded:
  "(\<not> (0 \<le> lx \<and> lx < width_px (lens st) \<and> 0 \<le> ly \<and> ly < height_px (lens st) \<and>
       0 \<le> px \<and> px < platesize (globe st) \<and> 0 \<le> py \<and> py < platesize (globe st)) \<longrightarrow>
      set_lensmap_from_plate st lx ly px py plate_index = st) \<and>
   (0 \<le> lx \<and> lx < width_px (lens st) \<and> 0 \<le> ly \<and> ly < height_px (lens st) \<and>
    0 \<le> px \<and> px < platesize (globe st) \<and> 0 \<le> py \<and> py < platesize (globe st) \<longrightarrow>
      pixels (lens (set_lensmap_from_plate st lx ly px py plate_index)) (LENSPIXEL (lens st) lx ly)
        = Some (GLOBEPIXEL (globe st) plate_index px py) \<and>
      display (plates (globe (set_lensmap_from_plate st lx ly px py plate_index)) plate_index) = 1)"
  by (auto simp: set_lensmap_from_plate_def set_lensmap_grid_def Let_def
        GLOBEPIXEL_def LENSPIXEL_def LENSPIXELTINT_def)

theorem set_lensmap_from_plate_guarded_witness:
  "set_lensmap_from_plate demo_state 3 1 0 0 0 = demo_state \<and>
   set_lensmap_from_plate demo_state 1 1 0 (- 1) 0 = demo_state \<and>
   pixels (lens (set_lensmap_from_plate demo_state 1 2 2 0 0)) 7 = Some 2 \<and>
   display (plates (globe (set_lensmap_from_plate demo_state 1 2 2 0 0)) 0) = 1"
  using set_lensmap_from_plate_guarded [of 3 demo_state 1 0 0 0]
    set_lensmap_from_plate_guarded [of 1 demo_state 1 0 "- 1" 0]
    set_lensmap_from_plate_guarded [of 1 demo_state 2 2 0 0]
  by (simp add: demo_state_def demo_lens_def front_globe_def LENSPIXEL_def GLOBEPIXEL_def)

section \<open>Properties of the latitude/longitude helpers\<close>

lemma latlon_unit: "VectorLength (latlon_to_ray lat lon) = 1"
proof -
  have "(sin lon * cos lat) * (sin lon * cos lat) + sin lat * sin lat
        + (cos lon * cos lat) * (cos lon * cos lat)
      = cos lat * cos lat * (sin lon * sin lon + cos lon * cos lon) + sin lat * sin lat"
    by algebra
  also have "\<dots> = 1"
    unfolding sin_cos_squared_add3 by (simp add: add.commute sin_cos_squared_add3)
  finally show ?thesis by (simp add: VectorLength_def latlon_to_ray_def Let_def)
qed

lemma atan2_sin_cos:
  assumes "- pi < a" "a \<le> pi" "0 < c"
  shows "atan2 (sin a * c) (cos a * c) = a"
proof -
  have q: "sin a * c / (cos a * c) = tan a" using assms by (simp add: tan_def)
  consider "- pi / 2 < a \<and> a < pi / 2" | "pi / 2 < a" | "a < - pi / 2" | "a = pi / 2" | "a = - pi / 2"
    by argo
  then show ?thesis
  proof cases
    case 1
    then have "0 < cos a" by (simp add: cos_gt_zero_pi)
    then have "0 < cos a * c" using assms by simp
    then show ?thesis using 1 by (simp add: atan2_def q arctan_tan)
  next
    case 2
    have "cos (a - pi) > 0" using 2 assms by (intro cos_gt_zero_pi) auto
    then have cn: "cos a < 0" by simp
    have "sin (pi - a) \<ge> 0" using 2 assms by (intro sin_ge_zero) auto
    then have sn: "sin a \<ge> 0" by simp
    have "arctan (tan (a - pi)) = a - pi" using 2 assms by (intro arctan_tan) auto
    then have "arctan (tan a) = a - pi" by (simp add: tan_periodic_pi[of "a - pi", simplified])
    moreover have "cos a * c < 0" using cn assms by (simp add: mult_neg_pos)
    moreover have "sin a * c \<ge> 0" using sn assms by simp
    ultimately show ?thesis by (simp add: atan2_def q)
  next
    case 3
    have "cos (a + pi) > 0" using 3 assms by (intro cos_gt_zero_pi) auto
    then have cn: "cos a < 0" by simp
    have "sin (a + pi) > 0" using 3 assms by (intro sin_gt_zero) auto
    then have sn: "sin a < 0" by simp
    have "arctan (tan (a + pi)) = a + pi" using 3 assms by (intro arctan_tan) auto
    then have "arctan (tan a) = a + pi" by (simp add: tan_periodic_pi)
    moreover have "cos a * c < 0" using cn assms by (simp add: mult_neg_pos)
    moreover have "sin a * c < 0" using sn assms by (simp add: mult_neg_pos)
    ultimately show ?thesis by (simp add: atan2_def q)
  next
    case 4
    show ?thesis unfolding 4 using \<open>0 < c\<close> by (simp add: atan2_def)
  next
    case 5
    show ?thesis unfolding 5 using \<open>0 < c\<close> by (simp add: atan2_def)
  qed
qed

lemma latlon_roundtrip:
  assumes "- pi / 2 < lat" "lat < pi / 2" "- pi < lon" "lon \<le> pi"
  shows "ray_to_latlon (latlon_to_ray lat lon) = (lat, lon)"
proof -
  have c: "0 < cos lat" using assms by (simp add: cos_gt_zero_pi)
  have "(sin lon * cos lat) * (sin lon * cos lat) + (cos lon * cos lat) * (cos lon * cos lat)
      = cos lat * cos lat * (sin lon * sin lon + cos lon * cos lon)"
    by algebra
  also have "\<dots> = cos lat * cos lat * 1"
    using sin_cos_squared_add [of lon] by (simp only: power2_eq_square)
  finally have "(sin lon * cos lat) * (sin lon * cos lat) + (cos lon * cos lat) * (cos lon * cos lat)
      = (cos lat)\<^sup>2"
    by (simp add: power2_eq_square)
  then have s: "sqrt ((sin lon * cos lat) * (sin lon * cos lat) + (cos lon * cos lat) * (cos lon * cos lat))
      = cos lat" using c by simp
  have "arctan (tan lat) = lat" using assms by (intro arctan_tan) auto
  then have "atan2 (sin lat) (cos lat) = lat"
    using c by (simp add: atan2_def tan_def)
  moreover have "atan2 (sin lon * cos lat) (cos lon * cos lat) = lon"
    using assms c by (intro atan2_sin_cos) auto
  ultimately show ?thesis
    by (simp add: latlon_to_ray_def Let_def s)
qed

text \<open>
  C8. \<^verbatim>\<open>latlon_to_ray\<close> returns a unit vector for every latitude and longitude, and
  \<^verbatim>\<open>ray_to_latlon\<close> gives the latitude and longitude back when the latitude is in
  \<open>(-\<pi>/2, \<pi>/2)\<close> and the longitude in \<open>(-\<pi>, \<pi>]\<close>.
\<close>

theorem latlon_to_ray_unit_and_inverse:
  "VectorLength (latlon_to_ray lat lon) = 1 \<and>
   (- pi / 2 < lat \<and> lat < pi / 2 \<and> - pi < lon \<and> lon \<le> pi \<longrightarrow>
      ray_to_latlon (latlon_to_ray lat lon) = (lat, lon))"
  using latlon_unit [of lat lon] latlon_roundtrip [of lat lon] by blast

theorem latlon_to_ray_unit_and_inverse_witness:
  "VectorLength (latlon_to_ray 0 pi) = 1 \<and> ray_to_latlon (latlon_to_ray 0 pi) = (0, pi)"
  using latlon_to_ray_unit_and_inverse [of 0 pi] by simp

section \<open>Properties of the plate coordinates\<close>

lemma DotProduct_commute: "DotProduct a b = DotProduct b a"
  by (cases a, cases b) simp

lemma DotProduct_VectorMA:
  "DotProduct w (VectorMA a s b) = DotProduct w a + s * DotProduct w b"
  by (cases w, cases a, cases b) (simp add: algebra_simps)

lemma DotProduct_zero: "DotProduct w (0, 0, 0) = 0"
  by (cases w) simp

lemma DotProduct_VectorMA_left:
  "DotProduct (VectorMA a s b) w = DotProduct a w + s * DotProduct b w"
  by (simp add: DotProduct_commute [of _ w] DotProduct_VectorMA)

lemma DotProduct_zero_left: "DotProduct (0, 0, 0) w = 0"
  by (cases w) simp

lemma DotProduct_VectorNormalize:
  "DotProduct w (VectorNormalize v) =
     (if VectorLength v = 0 then DotProduct w v else DotProduct w v / VectorLength v)"
  by (cases w, cases v) (simp add: VectorNormalize_def Let_def algebra_simps add_divide_distrib)

lemma plate_uv_roundtrip:
  assumes ok: "plate_frame_ok (plates g i)"
  shows "ray_to_plate_uv g i (plate_uv_to_ray g i u v) =
      (u, v, 0 \<le> u \<and> u \<le> 1 \<and> 0 \<le> v \<and> v \<le> 1)"
proof -
  define p where "p = plates g i"
  define d where "d = dist p"
  define ray0 where "ray0 =
      VectorMA (VectorMA (VectorMA (0, 0, 0) d (forward p)) (u - 0.5) (right p)) (- (v - 0.5)) (up p)"
  define l where "l = VectorLength ray0"
  have base: "DotProduct (forward p) (forward p) = 1" "DotProduct (right p) (right p) = 1"
      "DotProduct (up p) (up p) = 1" "DotProduct (forward p) (right p) = 0"
      "DotProduct (forward p) (up p) = 0" "DotProduct (right p) (up p) = 0"
    using ok unfolding plate_frame_ok_def p_def by blast+
  have frame: "DotProduct (forward p) (forward p) = 1" "DotProduct (right p) (right p) = 1"
      "DotProduct (up p) (up p) = 1" "DotProduct (forward p) (right p) = 0"
      "DotProduct (forward p) (up p) = 0" "DotProduct (right p) (up p) = 0"
      "DotProduct (right p) (forward p) = 0" "DotProduct (up p) (forward p) = 0"
      "DotProduct (up p) (right p) = 0"
    using base by (simp_all add: DotProduct_commute)
  have "0 < fov p" "fov p < pi"
    using ok unfolding plate_frame_ok_def p_def by blast+
  then have fovr: "0 < fov p / 2" "fov p / 2 < pi / 2"
    by simp_all
  then have t: "0 < tan (fov p / 2)" by (rule tan_gt_zero)
  have sn: "sin (fov p / 2) \<noteq> 0" using sin_gt_zero [of "fov p / 2"] fovr by simp
  have d_eq: "d = 0.5 / tan (fov p / 2)"
    using ok unfolding plate_frame_ok_def p_def d_def by blast
  with t have dpos: "0 < d" by simp
  have x0: "DotProduct (right p) ray0 = u - 0.5"
    and y0: "DotProduct (up p) ray0 = - (v - 0.5)"
    and z0: "DotProduct (forward p) ray0 = d"
    unfolding ray0_def by (simp_all add: DotProduct_VectorMA DotProduct_zero frame)
  have "DotProduct ray0 ray0 = d * d + (u - 0.5) * (u - 0.5) + (v - 0.5) * (v - 0.5)"
    unfolding ray0_def
    by (simp add: DotProduct_VectorMA DotProduct_VectorMA_left DotProduct_zero
        DotProduct_zero_left frame) algebra
  moreover have "0 < d * d" using dpos by simp
  moreover have "0 \<le> (u - 0.5) * (u - 0.5)" "0 \<le> (v - 0.5) * (v - 0.5)" by simp_all
  ultimately have "0 < DotProduct ray0 ray0" by linarith
  then have lpos: "0 < l" unfolding l_def VectorLength_def by simp
  have ray: "plate_uv_to_ray g i u v = VectorNormalize ray0"
    unfolding plate_uv_to_ray_def ray0_def d_def p_def by (simp add: Let_def)
  have x: "DotProduct (right p) (VectorNormalize ray0) = (u - 0.5) / l"
    and y: "DotProduct (up p) (VectorNormalize ray0) = - (v - 0.5) / l"
    and z: "DotProduct (forward p) (VectorNormalize ray0) = d / l"
    using lpos unfolding l_def [symmetric] DotProduct_VectorNormalize
    by (simp_all add: l_def [symmetric] x0 y0 z0)
  have zn: "d / l \<noteq> 0" using dpos lpos by simp
  have u': "(u - 0.5) / l / (d / l) * d + 0.5 = u" using dpos lpos by (simp add: field_simps)
  have v': "- (- (v - 0.5) / l) / (d / l) * d + 0.5 = v" using dpos lpos by (simp add: field_simps)
  show ?thesis
    unfolding ray ray_to_plate_uv_def p_def [symmetric] Let_def x y z d_eq [symmetric]
    using zn sn u' v' by simp
qed

text \<open>
  C3. For a plate with an orthonormal right-handed basis, a field of view in
  \<open>(0, \<pi>)\<close> and the camera distance \<open>0.5 / tan (fov / 2)\<close> the loader stores for
  it, and for \<open>(u, v)\<close> in the unit square, \<^verbatim>\<open>ray_to_plate_uv\<close> applied to the ray of
  \<^verbatim>\<open>plate_uv_to_ray\<close> returns \<open>(u, v)\<close> and reports the point as inside.
\<close>

theorem plate_uv_ray_inverse:
  assumes "plate_frame_ok (plates g i)" and "0 \<le> u" and "u \<le> 1" and "0 \<le> v" and "v \<le> 1"
  shows "ray_to_plate_uv g i (plate_uv_to_ray g i u v) = (u, v, True)"
  using plate_uv_roundtrip [OF assms(1), of u v] assms(2-) by simp

theorem plate_uv_ray_inverse_witness:
  "plate_frame_ok (plates front_globe 0) \<and>
   ray_to_plate_uv front_globe 0 (plate_uv_to_ray front_globe 0 (1 / 4) (3 / 4))
     = (1 / 4, 3 / 4, True)"
proof -
  have ok: "plate_frame_ok (plates front_globe 0)"
    by (simp add: plate_frame_ok_def front_globe_def front_plate_def tan_45)
  from plate_uv_ray_inverse [OF ok, of "1 / 4" "3 / 4"] ok show ?thesis by simp
qed

section \<open>Properties of the inverse build\<close>

lemma lua_lens_inverse_status:
  "fst (lua_lens_inverse L f x y) =
     (if malformed_inverse L (f x y) then - 1 else if f x y = [LNil] then 0 else 1)"
proof (cases "f x y")
  case Nil
  then show ?thesis by (simp add: lua_lens_inverse_def malformed_inverse_def)
next
  case (Cons a as)
  show ?thesis
  proof (cases as)
    case Nil
    with Cons show ?thesis
      by (auto simp: lua_lens_inverse_def malformed_inverse_def lua_isnil_def)
  next
    case (Cons b bs)
    note c2 = this
    show ?thesis
    proof (cases bs)
      case Nil
      with c2 \<open>f x y = a # as\<close> show ?thesis
        by (simp add: lua_lens_inverse_def malformed_inverse_def)
    next
      case (Cons c cs)
      with c2 \<open>f x y = a # as\<close> show ?thesis
        by (cases cs) (auto simp: lua_lens_inverse_def malformed_inverse_def)
    qed
  qed
qed

lemma pixel_index_inj:
  fixes w :: int
  assumes "0 \<le> a" "a < w" "0 \<le> c" "c < w" "a + b * w = c + d * w"
  shows "a = c \<and> b = d"
proof -
  have "(a + b * w) mod w = a" using assms(1,2) by simp
  moreover have "(c + d * w) mod w = c" using assms(3,4) by simp
  ultimately have ac: "a = c" unfolding assms(5) by simp
  with assms have "b * w = d * w" by simp
  moreover have "w \<noteq> 0" using assms by auto
  ultimately show ?thesis using ac by simp
qed

lemma set_lensmap_from_ray_view: "same_view st (set_lensmap_from_ray L st lx ly a b c)"
  by (simp add: same_view_def set_lensmap_from_ray_def set_lensmap_from_plate_uv_def
      set_lensmap_from_plate_def set_lensmap_grid_def Let_def split: prod.splits)

lemma set_lensmap_from_ray_frame:
  assumes "in_view st lx' ly'" "(lx', ly') \<noteq> (lx, ly)"
  shows "unwritten st (set_lensmap_from_ray L st lx ly a b c) lx' ly'"
proof -
  have ne: "LENSPIXEL (lens st) lx' ly' \<noteq> LENSPIXEL (lens st) lx ly"
    if "0 \<le> lx" "lx < width_px (lens st)"
    using pixel_index_inj [of lx' "width_px (lens st)" lx ly' ly] assms that
    by (auto simp: LENSPIXEL_def in_view_def)
  show ?thesis
    using ne
    by (auto simp: unwritten_def set_lensmap_from_ray_def set_lensmap_from_plate_uv_def
      set_lensmap_from_plate_def set_lensmap_grid_def Let_def LENSPIXELTINT_def LENSPIXEL_def
      split: prod.splits)
qed


lemma inverse_row_stop: "\<not> lx < width_px (lens st) \<Longrightarrow> inverse_row L f y lx st = (1, st)"
  by (subst inverse_row.simps) simp

lemma inverse_row_step:
  "lx < width_px (lens st) \<Longrightarrow>
   inverse_row L f y lx st =
     (if malformed_inverse L (f (lens_x st lx) y) then (- 1, st)
      else if f (lens_x st lx) y = [LNil] then inverse_row L f y (lx + 1) st
      else inverse_row L f y (lx + 1) (inverse_pixel L f y lx st))"
  using lua_lens_inverse_status [of L f "lens_x st lx" y]
  by (subst inverse_row.simps)
    (auto simp: Let_def lens_x_def inverse_pixel_def split: prod.splits option.splits)

lemma inverse_pixel_view: "same_view st (inverse_pixel L f y lx st)"
  using set_lensmap_from_ray_view
  by (auto simp: inverse_pixel_def same_view_def split: option.splits)

lemma inverse_pixel_frame:
  "in_view st lx' ly' \<Longrightarrow> (lx', ly') \<noteq> (lx, inverse_ly (lens_builder st)) \<Longrightarrow>
   unwritten st (inverse_pixel L f y lx st) lx' ly'"
  using set_lensmap_from_ray_frame
  by (auto simp: inverse_pixel_def unwritten_def split: option.splits)

lemma same_view_simps:
  "same_view st st' \<Longrightarrow> width_px (lens st') = width_px (lens st)"
  "same_view st st' \<Longrightarrow> height_px (lens st') = height_px (lens st)"
  "same_view st st' \<Longrightarrow> lens_builder st' = lens_builder st"
  "same_view st st' \<Longrightarrow> lens_x st' = lens_x st"
  "same_view st st' \<Longrightarrow> lens_y st' = lens_y st"
  "same_view st st' \<Longrightarrow> in_view st' = in_view st"
  by (auto simp: same_view_def lens_x_def lens_y_def in_view_def fun_eq_iff)

lemma same_view_refl: "same_view st st"
  by (simp add: same_view_def)

lemma same_view_trans: "same_view a b \<Longrightarrow> same_view b c \<Longrightarrow> same_view a c"
  by (simp add: same_view_def)

lemma unwritten_refl: "unwritten st st lx ly"
  by (simp add: unwritten_def)

lemma unwritten_trans:
  "same_view a b \<Longrightarrow> unwritten a b lx ly \<Longrightarrow> unwritten b c lx ly \<Longrightarrow> unwritten a c lx ly"
  by (simp add: unwritten_def same_view_def LENSPIXEL_def LENSPIXELTINT_def)

lemma inverse_row_view: "same_view st (snd (inverse_row L f y lx st))"
proof (induction "nat (width_px (lens st) - lx)" arbitrary: lx st)
  case 0
  then show ?case by (simp add: inverse_row_stop same_view_refl)
next
  case (Suc n)
  then have lt: "lx < width_px (lens st)" by simp
  have a: "same_view st (snd (inverse_row L f y (lx + 1) st))"
    using Suc.hyps(1) [of st "lx + 1"] Suc.hyps(2) by simp
  have v: "same_view st (inverse_pixel L f y lx st)" by (rule inverse_pixel_view)
  have "same_view (inverse_pixel L f y lx st)
      (snd (inverse_row L f y (lx + 1) (inverse_pixel L f y lx st)))"
    using Suc.hyps(1) [of "inverse_pixel L f y lx st" "lx + 1"] Suc.hyps(2)
    by (simp add: same_view_simps [OF v])
  with v have b: "same_view st (snd (inverse_row L f y (lx + 1) (inverse_pixel L f y lx st)))"
    by (rule same_view_trans)
  show ?case using a b by (simp add: inverse_row_step [OF lt] same_view_refl)
qed

lemma inverse_row_frame:
  "in_view st lx' ly' \<Longrightarrow> ly' \<noteq> inverse_ly (lens_builder st) \<or> lx' < lx \<Longrightarrow>
   unwritten st (snd (inverse_row L f y lx st)) lx' ly'"
proof (induction "nat (width_px (lens st) - lx)" arbitrary: lx st)
  case 0
  then show ?case by (simp add: inverse_row_stop unwritten_refl)
next
  case (Suc n)
  then have lt: "lx < width_px (lens st)" by simp
  have a: "unwritten st (snd (inverse_row L f y (lx + 1) st)) lx' ly'"
    using Suc.hyps(1) [of st "lx + 1"] Suc.hyps(2) Suc.prems by auto
  let ?st1 = "inverse_pixel L f y lx st"
  have v: "same_view st ?st1" by (rule inverse_pixel_view)
  have "unwritten st ?st1 lx' ly'"
    using Suc.prems by (intro inverse_pixel_frame) auto
  moreover have "unwritten ?st1 (snd (inverse_row L f y (lx + 1) ?st1)) lx' ly'"
    using Suc.hyps(1) [of ?st1 "lx + 1"] Suc.hyps(2) Suc.prems
    by (auto simp: same_view_simps [OF v])
  ultimately have b: "unwritten st (snd (inverse_row L f y (lx + 1) ?st1)) lx' ly'"
    using v by (blast intro: unwritten_trans)
  show ?case using a b by (simp add: inverse_row_step [OF lt] unwritten_refl)
qed

lemma inverse_row_abort:
  "lx \<le> c \<Longrightarrow> c < width_px (lens st) \<Longrightarrow> malformed_inverse L (f (lens_x st c) y) \<Longrightarrow>
   fst (inverse_row L f y lx st) = - 1 \<and>
   (\<forall>lx'. c \<le> lx' \<and> in_view st lx' (inverse_ly (lens_builder st)) \<longrightarrow>
      unwritten st (snd (inverse_row L f y lx st)) lx' (inverse_ly (lens_builder st)))"
proof (induction "nat (width_px (lens st) - lx)" arbitrary: lx st)
  case 0
  then show ?case by simp
next
  case (Suc n)
  then have lt: "lx < width_px (lens st)" by simp
  let ?ly = "inverse_ly (lens_builder st)"
  let ?st1 = "inverse_pixel L f y lx st"
  have v: "same_view st ?st1" by (rule inverse_pixel_view)
  show ?case
  proof (cases "malformed_inverse L (f (lens_x st lx) y)")
    case True
    then show ?thesis by (simp add: inverse_row_step [OF lt] unwritten_refl)
  next
    case False
    with Suc.prems have ne: "c \<noteq> lx" by auto
    with Suc.prems have le: "lx + 1 \<le> c" by simp
    have a: "fst (inverse_row L f y (lx + 1) st) = - 1 \<and>
        (\<forall>lx'. c \<le> lx' \<and> in_view st lx' ?ly \<longrightarrow>
           unwritten st (snd (inverse_row L f y (lx + 1) st)) lx' ?ly)"
      using Suc.hyps(1) [of st "lx + 1"] Suc.hyps(2) Suc.prems le by simp
    have b1: "fst (inverse_row L f y (lx + 1) ?st1) = - 1 \<and>
        (\<forall>lx'. c \<le> lx' \<and> in_view st lx' ?ly \<longrightarrow>
           unwritten ?st1 (snd (inverse_row L f y (lx + 1) ?st1)) lx' ?ly)"
      using Suc.hyps(1) [of ?st1 "lx + 1"] Suc.hyps(2) Suc.prems le
      by (simp add: same_view_simps [OF v])
    have b2: "unwritten st ?st1 lx' ?ly" if "c \<le> lx'" "in_view st lx' ?ly" for lx'
      using that le by (intro inverse_pixel_frame) auto
    have b: "fst (inverse_row L f y (lx + 1) ?st1) = - 1 \<and>
        (\<forall>lx'. c \<le> lx' \<and> in_view st lx' ?ly \<longrightarrow>
           unwritten st (snd (inverse_row L f y (lx + 1) ?st1)) lx' ?ly)"
      using b1 b2 v by (blast intro: unwritten_trans)
    show ?thesis using a b False by (simp add: inverse_row_step [OF lt])
  qed
qed

lemma inverse_row_nil:
  "lx \<le> c \<Longrightarrow> c < width_px (lens st) \<Longrightarrow> f (lens_x st c) y = [LNil] \<Longrightarrow>
   in_view st c (inverse_ly (lens_builder st)) \<Longrightarrow>
   unwritten st (snd (inverse_row L f y lx st)) c (inverse_ly (lens_builder st))"
proof (induction "nat (width_px (lens st) - lx)" arbitrary: lx st)
  case 0
  then show ?case by simp
next
  case (Suc n)
  then have lt: "lx < width_px (lens st)" by simp
  let ?ly = "inverse_ly (lens_builder st)"
  let ?st1 = "inverse_pixel L f y lx st"
  have v: "same_view st ?st1" by (rule inverse_pixel_view)
  show ?case
  proof (cases "c = lx")
    case True
    have nm: "\<not> malformed_inverse L (f (lens_x st lx) y)"
      using Suc.prems True by (simp add: malformed_inverse_def)
    have "unwritten st (snd (inverse_row L f y (lx + 1) st)) c ?ly"
      using Suc.prems True by (intro inverse_row_frame) auto
    then show ?thesis using nm Suc.prems True by (simp add: inverse_row_step [OF lt])
  next
    case False
    with Suc.prems have le: "lx + 1 \<le> c" by simp
    have a: "unwritten st (snd (inverse_row L f y (lx + 1) st)) c ?ly"
      using Suc.hyps(1) [of st "lx + 1"] Suc.hyps(2) Suc.prems le by simp
    have "unwritten ?st1 (snd (inverse_row L f y (lx + 1) ?st1)) c ?ly"
      using Suc.hyps(1) [of ?st1 "lx + 1"] Suc.hyps(2) Suc.prems le
      by (simp add: same_view_simps [OF v])
    moreover have "unwritten st ?st1 c ?ly"
      using Suc.prems False by (intro inverse_pixel_frame) auto
    ultimately have b: "unwritten st (snd (inverse_row L f y (lx + 1) ?st1)) c ?ly"
      using v by (blast intro: unwritten_trans)
    show ?thesis using a b by (simp add: inverse_row_step [OF lt] unwritten_refl)
  qed
qed

lemma inverse_row_done:
  "\<forall>c. lx \<le> c \<and> c < width_px (lens st) \<longrightarrow> \<not> malformed_inverse L (f (lens_x st c) y) \<Longrightarrow>
   fst (inverse_row L f y lx st) = 1"
proof (induction "nat (width_px (lens st) - lx)" arbitrary: lx st)
  case 0
  then show ?case by (simp add: inverse_row_stop)
next
  case (Suc n)
  then have lt: "lx < width_px (lens st)" by simp
  let ?st1 = "inverse_pixel L f y lx st"
  have v: "same_view st ?st1" by (rule inverse_pixel_view)
  have nm: "\<not> malformed_inverse L (f (lens_x st lx) y)" using Suc.prems lt by simp
  have a: "fst (inverse_row L f y (lx + 1) st) = 1"
    using Suc.hyps(1) [of st "lx + 1"] Suc.hyps(2) Suc.prems by simp
  have b: "fst (inverse_row L f y (lx + 1) ?st1) = 1"
    using Suc.hyps(1) [of ?st1 "lx + 1"] Suc.hyps(2) Suc.prems
    by (simp add: same_view_simps [OF v])
  show ?case using a b nm by (simp add: inverse_row_step [OF lt])
qed


lemma inverse_rows_stop:
  "inverse_ly (lens_builder st) < 0 \<Longrightarrow> inverse_rows L f clock k st = (False, st)"
  by (subst inverse_rows.simps) simp

lemma inverse_rows_step:
  "0 \<le> inverse_ly (lens_builder st) \<Longrightarrow>
   inverse_rows L f clock k st =
     (if clock k then (True, st)
      else if fst (inverse_row L f (lens_y st (inverse_ly (lens_builder st))) 0 st) = - 1
      then (False, snd (inverse_row L f (lens_y st (inverse_ly (lens_builder st))) 0 st))
      else inverse_rows L f clock (Suc k)
             (next_row (snd (inverse_row L f (lens_y st (inverse_ly (lens_builder st))) 0 st))))"
  by (subst inverse_rows.simps)
    (auto simp: Let_def lens_y_def next_row_def split: prod.splits)

lemma next_row_simps:
  "lens (next_row st) = lens st"
  "inverse_ly (lens_builder (next_row st)) = inverse_ly (lens_builder st) - 1"
  "lens_x (next_row st) = lens_x st"
  "lens_y (next_row st) = lens_y st"
  "in_view (next_row st) = in_view st"
  "unwritten a (next_row st) = unwritten a st"
  "unwritten (next_row st) b = unwritten st b"
  by (auto simp: next_row_def lens_x_def lens_y_def in_view_def unwritten_def fun_eq_iff)

lemma row_simps:
  "width_px (lens (snd (inverse_row L f y lx st))) = width_px (lens st)"
  "height_px (lens (snd (inverse_row L f y lx st))) = height_px (lens st)"
  "lens_builder (snd (inverse_row L f y lx st)) = lens_builder st"
  "lens_x (snd (inverse_row L f y lx st)) = lens_x st"
  "lens_y (snd (inverse_row L f y lx st)) = lens_y st"
  "in_view (snd (inverse_row L f y lx st)) = in_view st"
  using same_view_simps [OF inverse_row_view [of st L f y lx]] by simp_all

lemma unwritten_trans':
  "width_px (lens b) = width_px (lens a) \<Longrightarrow>
   unwritten a b lx ly \<Longrightarrow> unwritten b c lx ly \<Longrightarrow> unwritten a c lx ly"
  by (simp add: unwritten_def LENSPIXEL_def LENSPIXELTINT_def)

lemma inverse_rows_abort:
  assumes "0 \<le> lx0" "lx0 < width_px (lens st)" "0 \<le> r0" "r0 \<le> inverse_ly (lens_builder st)"
    and "malformed_inverse L (f (lens_x st lx0) (lens_y st r0))"
  shows "r0 \<le> inverse_ly (lens_builder (snd (inverse_rows L f clock k st))) \<and>
     (\<forall>lx' ly'. in_view st lx' ly' \<and> (ly' < r0 \<or> ly' = r0 \<and> lx0 \<le> lx') \<longrightarrow>
        unwritten st (snd (inverse_rows L f clock k st)) lx' ly') \<and>
     ((\<forall>j. \<not> clock j) \<longrightarrow> \<not> fst (inverse_rows L f clock k st))"
  using assms
proof (induction "nat (inverse_ly (lens_builder st) - r0)" arbitrary: st k)
  case 0
  then have cur: "inverse_ly (lens_builder st) = r0" by simp
  let ?r = "inverse_row L f (lens_y st r0) 0 st"
  have ab: "fst ?r = - 1 \<and>
      (\<forall>lx'. lx0 \<le> lx' \<and> in_view st lx' r0 \<longrightarrow> unwritten st (snd ?r) lx' r0)"
    using inverse_row_abort [of 0 lx0 st L f "lens_y st r0"] 0 cur by simp
  have fr: "unwritten st (snd ?r) lx' ly'" if "in_view st lx' ly'" "ly' < r0" for lx' ly'
    using that cur by (intro inverse_row_frame) auto
  have ge: "0 \<le> inverse_ly (lens_builder st)" using 0 by simp
  show ?case
    using ab fr cur
    by (auto simp: inverse_rows_step [OF ge] unwritten_refl row_simps)
next
  case (Suc n)
  then have gt: "r0 < inverse_ly (lens_builder st)" by simp
  with Suc.prems have ge: "0 \<le> inverse_ly (lens_builder st)" by simp
  let ?ly = "inverse_ly (lens_builder st)"
  let ?r = "inverse_row L f (lens_y st ?ly) 0 st"
  let ?st2 = "next_row (snd ?r)"
  have fr: "unwritten st (snd ?r) lx' ly'" if "in_view st lx' ly'" "ly' \<le> r0" for lx' ly'
    using that gt by (intro inverse_row_frame) auto
  have ih: "r0 \<le> inverse_ly (lens_builder (snd (inverse_rows L f clock (Suc k) ?st2))) \<and>
     (\<forall>lx' ly'. in_view st lx' ly' \<and> (ly' < r0 \<or> ly' = r0 \<and> lx0 \<le> lx') \<longrightarrow>
        unwritten (snd ?r) (snd (inverse_rows L f clock (Suc k) ?st2)) lx' ly') \<and>
     ((\<forall>j. \<not> clock j) \<longrightarrow> \<not> fst (inverse_rows L f clock (Suc k) ?st2))"
    using Suc.hyps(1) [of ?st2 "Suc k"] Suc.hyps(2) Suc.prems gt
    by (simp add: next_row_simps row_simps)
  have tr: "unwritten st (snd (inverse_rows L f clock (Suc k) ?st2)) lx' ly'"
    if "in_view st lx' ly'" "ly' < r0 \<or> ly' = r0 \<and> lx0 \<le> lx'" for lx' ly'
  proof -
    have "unwritten st (snd ?r) lx' ly'" using that by (intro fr) auto
    moreover have "unwritten (snd ?r) (snd (inverse_rows L f clock (Suc k) ?st2)) lx' ly'"
      using ih that by blast
    ultimately show ?thesis by (rule unwritten_trans' [rotated]) (simp add: row_simps)
  qed
  show ?case
    using ih tr fr gt
    by (auto simp: inverse_rows_step [OF ge] unwritten_refl row_simps)
qed

lemma inverse_rows_nil:
  assumes "in_view st lx0 r0" and "f (lens_x st lx0) (lens_y st r0) = [LNil]"
  shows "unwritten st (snd (inverse_rows L f clock k st)) lx0 r0"
  using assms
proof (induction "nat (inverse_ly (lens_builder st) + 1)" arbitrary: st k)
  case 0
  then show ?case by (simp add: inverse_rows_stop unwritten_refl)
next
  case (Suc n)
  then have ge: "0 \<le> inverse_ly (lens_builder st)" by simp
  let ?ly = "inverse_ly (lens_builder st)"
  let ?r = "inverse_row L f (lens_y st ?ly) 0 st"
  let ?st2 = "next_row (snd ?r)"
  have a: "unwritten st (snd ?r) lx0 r0"
  proof (cases "r0 = ?ly")
    case True
    then show ?thesis
      using inverse_row_nil [of 0 lx0 st f "lens_y st ?ly" L] Suc.prems
      by (simp add: in_view_def)
  next
    case False
    then show ?thesis using Suc.prems by (intro inverse_row_frame) auto
  qed
  have "unwritten (snd ?r) (snd (inverse_rows L f clock (Suc k) ?st2)) lx0 r0"
    using Suc.hyps(1) [of ?st2 "Suc k"] Suc.hyps(2) Suc.prems
    by (simp add: next_row_simps row_simps)
  with a have b: "unwritten st (snd (inverse_rows L f clock (Suc k) ?st2)) lx0 r0"
    by (rule unwritten_trans' [rotated]) (simp add: row_simps)
  show ?case
    using a b by (auto simp: inverse_rows_step [OF ge] unwritten_refl)
qed

lemma inverse_rows_complete:
  assumes "\<forall>x y. \<not> malformed_inverse L (f x y)" and "\<forall>j. \<not> clock j"
    and "- 1 \<le> inverse_ly (lens_builder st)"
  shows "\<not> fst (inverse_rows L f clock k st) \<and>
     inverse_ly (lens_builder (snd (inverse_rows L f clock k st))) = - 1"
  using assms
proof (induction "nat (inverse_ly (lens_builder st) + 1)" arbitrary: st k)
  case 0
  then have "inverse_ly (lens_builder st) = - 1" by simp
  then show ?case by (simp add: inverse_rows_stop)
next
  case (Suc n)
  then have ge: "0 \<le> inverse_ly (lens_builder st)" by simp
  let ?ly = "inverse_ly (lens_builder st)"
  let ?r = "inverse_row L f (lens_y st ?ly) 0 st"
  let ?st2 = "next_row (snd ?r)"
  have d: "fst ?r = 1" using Suc.prems by (intro inverse_row_done) simp
  have "\<not> fst (inverse_rows L f clock (Suc k) ?st2) \<and>
     inverse_ly (lens_builder (snd (inverse_rows L f clock (Suc k) ?st2))) = - 1"
    using Suc.hyps(1) [of ?st2 "Suc k"] Suc.hyps(2) Suc.prems ge
    by (simp add: next_row_simps row_simps)
  then show ?case using d Suc.prems by (simp add: inverse_rows_step [OF ge])
qed

section \<open>Properties of the forward build\<close>

lemma lua_lens_forward_status:
  "fst (lua_lens_forward L f ray) =
     (if malformed_forward L (f ray) then - 1 else if f ray = [LNil] then 0 else 1)"
proof (cases "f ray")
  case Nil
  then show ?thesis by (simp add: lua_lens_forward_def malformed_forward_def)
next
  case (Cons a as)
  show ?thesis
  proof (cases as)
    case Nil
    with Cons show ?thesis
      by (auto simp: lua_lens_forward_def malformed_forward_def lua_isnil_def)
  next
    case (Cons b bs)
    with \<open>f ray = a # as\<close> show ?thesis
      by (cases bs) (auto simp: lua_lens_forward_def malformed_forward_def)
  qed
qed

lemma uv_to_screen_status:
  "fst (uv_to_screen L f st plate_index u v) =
     fst (lua_lens_forward L f (plate_uv_to_ray (globe st) plate_index u v))"
  by (auto simp: uv_to_screen_def Let_def split: prod.splits option.splits)

lemma compute_points_keeps:
  "lens (snd (compute_points L f platesize0 plate_index v row px st)) = lens st \<and>
   globe (snd (compute_points L f platesize0 plate_index v row px st)) = globe st"
proof (induction "nat (platesize0 - px)" arbitrary: px st)
  case 0
  then show ?case by (simp add: compute_points_stop)
next
  case (Suc n)
  then have lt: "px < platesize0" by simp
  have ih: "lens (snd (compute_points L f platesize0 plate_index v row q s)) = lens s \<and>
      globe (snd (compute_points L f platesize0 plate_index v row q s)) = globe s"
    if "q = px + 1" for s q
    using Suc.hyps(1) [of q s] Suc.hyps(2) that by simp
  show ?case
    unfolding compute_points_step [OF lt] Let_def
    by (simp add: ih)
qed

lemma compute_points_abort:
  assumes "px \<le> c" "c < platesize0" "1 \<le> c"
    and "malformed_forward L (f (plate_uv_to_ray (globe st) plate_index
           ((of_int c + 0.5) / of_int platesize0) v))"
  shows "fst (compute_points L f platesize0 plate_index v row px st) = - 1"
  using assms
proof (induction "nat (platesize0 - px)" arbitrary: px st)
  case 0
  then show ?case by simp
next
  case (Suc n)
  then have lt: "px < platesize0" by simp
  show ?case
  proof (cases "px = c")
    case True
    then have "px \<noteq> 0" using Suc.prems by simp
    moreover have "fst (uv_to_screen L f st plate_index ((of_int px + 0.5) / of_int platesize0) v) = - 1"
      using Suc.prems True by (simp add: uv_to_screen_status lua_lens_forward_status)
    ultimately show ?thesis
      unfolding compute_points_step [OF lt] Let_def by simp
  next
    case False
    with Suc.prems have le: "px + 1 \<le> c" by simp
    have ih: "fst (compute_points L f platesize0 plate_index v row q s) = - 1"
      if "globe s = globe st" "q = px + 1" for s q
      using Suc.hyps(1) [of q s] Suc.hyps(2) Suc.prems le that by simp
    show ?thesis
      unfolding compute_points_step [OF lt] Let_def
      by (simp add: ih)
  qed
qed

lemma lower_points_keeps:
  "lens (snd (snd (snd (lower_points L f platesize0 top_r bot_r st)))) = lens st \<and>
   globe (snd (snd (snd (lower_points L f platesize0 top_r bot_r st)))) = globe st \<and>
   forward_plate_index (lens_builder (snd (snd (snd (lower_points L f platesize0 top_r bot_r st)))))
     = forward_plate_index (lens_builder st)"
  using compute_points_keeps [of L f platesize0 _ _ bot_r 0 st]
    compute_points_cursor [of st L f platesize0 _ _ bot_r 0]
  by (simp add: lower_points_def Let_def case_prod_beta same_cursor_def)

lemma compute_points_stops:
  assumes "0 < platesize0"
    and "malformed_forward L (f (plate_uv_to_ray (globe st) plate_index
           ((of_int (- 1) + 0.5) / of_int platesize0) v)) \<or>
         (f (plate_uv_to_ray (globe st) plate_index ((of_int (- 1) + 0.5) / of_int platesize0) v)
            \<noteq> [LNil] \<and>
          malformed_forward L (f (plate_uv_to_ray (globe st) plate_index
           ((of_int 0 + 0.5) / of_int platesize0) v))) \<or>
         (\<exists>c. 1 \<le> c \<and> c < platesize0 \<and>
            malformed_forward L (f (plate_uv_to_ray (globe st) plate_index
              ((of_int c + 0.5) / of_int platesize0) v)))"
  shows "fst (compute_points L f platesize0 plate_index v row 0 st) = - 1"
proof -
  let ?left = "plate_uv_to_ray (globe st) plate_index ((of_int (- 1) + 0.5) / of_int platesize0) v"
  let ?first = "plate_uv_to_ray (globe st) plate_index ((of_int 0 + 0.5) / of_int platesize0) v"
  have l: "fst (uv_to_screen L f st plate_index ((of_int 0 - 0.5) / of_int platesize0) v)
      = (if malformed_forward L (f ?left) then - 1 else if f ?left = [LNil] then 0 else 1)"
    by (simp add: uv_to_screen_status lua_lens_forward_status)
  have r: "fst (uv_to_screen L f st plate_index ((of_int 0 + 0.5) / of_int platesize0) v)
      = (if malformed_forward L (f ?first) then - 1 else if f ?first = [LNil] then 0 else 1)"
    by (simp add: uv_to_screen_status lua_lens_forward_status)
  consider (a) "malformed_forward L (f ?left)"
    | (b) "\<not> malformed_forward L (f ?left)" "f ?left \<noteq> [LNil]" "malformed_forward L (f ?first)"
    | (c) c where "1 \<le> c" "c < platesize0"
        "malformed_forward L (f (plate_uv_to_ray (globe st) plate_index
              ((of_int c + 0.5) / of_int platesize0) v))"
    using assms(2) by blast
  then show ?thesis
  proof cases
    case a
    then show ?thesis
      unfolding compute_points_step [OF assms(1)] Let_def using l by simp
  next
    case b
    then show ?thesis
      unfolding compute_points_step [OF assms(1)] Let_def using l r by simp
  next
    case c
    then show ?thesis by (intro compute_points_abort [of 0 c]) simp_all
  qed
qed

lemma forward_row_stops:
  assumes "stops_row L f st platesize0
             ((of_int (forward_py (lens_builder st)) - 0.5) / of_int platesize0) \<or>
           forward_py (lens_builder st) = platesize0 - 1 \<and>
           stops_row L f st platesize0
             ((of_int (forward_py (lens_builder st)) + 0.5) / of_int platesize0)"
  shows "fst (forward_row L f platesize0 top_r bot_r st) = - 1 \<and>
     lens (snd (snd (snd (forward_row L f platesize0 top_r bot_r st)))) = lens st \<and>
     globe (snd (snd (snd (forward_row L f platesize0 top_r bot_r st)))) = globe st"
proof -
  let ?pi = "forward_plate_index (lens_builder st)"
  let ?up = "(of_int (forward_py (lens_builder st)) - 0.5) / of_int platesize0"
  let ?low = "(of_int (forward_py (lens_builder st)) + 0.5) / of_int platesize0"
  obtain s1 t1 b1 st1 where lp: "lower_points L f platesize0 top_r bot_r st = (s1, t1, b1, st1)"
    by (cases "lower_points L f platesize0 top_r bot_r st") auto
  have k1: "lens st1 = lens st" "globe st1 = globe st"
    using lower_points_keeps [of L f platesize0 top_r bot_r st] lp by simp_all
  obtain s2 st2 where cp: "compute_points L f platesize0 ?pi ?up t1 0 st1 = (s2, st2)"
    by (cases "compute_points L f platesize0 ?pi ?up t1 0 st1") auto
  have k2: "lens st2 = lens st" "globe st2 = globe st"
    using compute_points_keeps [of L f platesize0 ?pi ?up t1 0 st1] cp k1 by simp_all
  have "s1 = - 1 \<or> s2 = - 1"
  proof (cases "stops_row L f st platesize0 ?up")
    case True
    then have "fst (compute_points L f platesize0 ?pi ?up t1 0 st1) = - 1"
      by (intro compute_points_stops) (auto simp: stops_row_def border_ray_def k1)
    with cp show ?thesis by simp
  next
    case False
    with assms have last: "forward_py (lens_builder st) = platesize0 - 1"
      and low: "stops_row L f st platesize0 ?low" by blast+
    from low have "fst (compute_points L f platesize0 ?pi ?low bot_r 0 st) = - 1"
      by (intro compute_points_stops) (auto simp: stops_row_def border_ray_def)
    with lp last show ?thesis
      by (auto simp: lower_points_def Let_def case_prod_beta)
  qed
  then show ?thesis
    unfolding forward_row_def Let_def lp cp prod.case
    by (auto simp: k1 k2)
qed

lemma forward_loop_stops:
  assumes "forward_plate_index (lens_builder st) < numplates (globe st)"
    and "0 \<le> forward_py (lens_builder st)" and "\<not> clock k"
    and "stops_row L f st platesize0
             ((of_int (forward_py (lens_builder st)) - 0.5) / of_int platesize0) \<or>
           forward_py (lens_builder st) = platesize0 - 1 \<and>
           stops_row L f st platesize0
             ((of_int (forward_py (lens_builder st)) + 0.5) / of_int platesize0)"
  shows "\<not> fst (forward_loop L f clock k platesize0 top_r bot_r st) \<and>
     lens (snd (forward_loop L f clock k platesize0 top_r bot_r st)) = lens st \<and>
     globe (snd (forward_loop L f clock k platesize0 top_r bot_r st)) = globe st"
proof -
  note ab = forward_row_stops [of L f st platesize0 top_r bot_r, OF assms(4)]
  obtain s1 t1 b1 st1 where fr: "forward_row L f platesize0 top_r bot_r st = (s1, t1, b1, st1)"
    by (cases "forward_row L f platesize0 top_r bot_r st") auto
  with ab have "s1 = - 1" "lens st1 = lens st" "globe st1 = globe st" by simp_all
  then show ?thesis
    using assms(1-3) fr by (subst (1 2 3) forward_loop.simps) simp
qed

text \<open>
  A malformed answer of \<^verbatim>\<open>lens_inverse\<close> (anything but a single nil or three numbers)
  stops the inverse build. If the answer is malformed at a pixel \<open>(lx0, r0)\<close> that the
  cursor has not passed, then however the clock slices the work, a call of
  \<^verbatim>\<open>resume_lensmap_inverse\<close> never moves the cursor past row \<open>r0\<close>, leaves the
  lens-map entry and tint of that pixel and of every pixel after it in scanning order
  as they were, and returns \<open>working = false\<close> when the clock lets it run. A single
  nil at a pixel leaves the entry of that pixel as it was (null in a cleared map), and
  does not stop the build: with no malformed answer anywhere and no time limit the
  call returns \<open>working = false\<close> with all rows done.
\<close>

theorem inverse_script_error_stops_build:
  "(0 \<le> lx0 \<and> lx0 < width_px (lens st) \<and> 0 \<le> r0 \<and> r0 \<le> inverse_ly (lens_builder st) \<and>
    malformed_inverse L (f (lens_x st lx0) (lens_y st r0)) \<longrightarrow>
      r0 \<le> inverse_ly (lens_builder (snd (resume_lensmap_inverse L f clock st))) \<and>
      (\<forall>lx' ly'. in_view st lx' ly' \<and> (ly' < r0 \<or> ly' = r0 \<and> lx0 \<le> lx') \<longrightarrow>
         unwritten st (snd (resume_lensmap_inverse L f clock st)) lx' ly') \<and>
      ((\<forall>j. \<not> clock j) \<longrightarrow> \<not> fst (resume_lensmap_inverse L f clock st))) \<and>
   (in_view st lx0 r0 \<and> f (lens_x st lx0) (lens_y st r0) = [LNil] \<longrightarrow>
      unwritten st (snd (resume_lensmap_inverse L f clock st)) lx0 r0) \<and>
   ((\<forall>x y. \<not> malformed_inverse L (f x y)) \<and> (\<forall>j. \<not> clock j) \<and>
    - 1 \<le> inverse_ly (lens_builder st) \<longrightarrow>
      \<not> fst (resume_lensmap_inverse L f clock st) \<and>
      inverse_ly (lens_builder (snd (resume_lensmap_inverse L f clock st))) = - 1)"
  unfolding resume_lensmap_inverse_def
  using inverse_rows_abort [of lx0 st r0 L f clock 0] inverse_rows_nil [of st lx0 r0 f L clock 0]
    inverse_rows_complete [of L f clock st 0]
  by blast

theorem inverse_script_error_stops_build_witness:
  "1 \<le> inverse_ly (lens_builder (snd (resume_lensmap_inverse sample_lua
       (\<lambda>x y. [LBoolean True]) (\<lambda>k. False) demo_state))) \<and>
   unwritten demo_state (snd (resume_lensmap_inverse sample_lua
       (\<lambda>x y. [LBoolean True]) (\<lambda>k. False) demo_state)) 2 1 \<and>
   \<not> fst (resume_lensmap_inverse sample_lua (\<lambda>x y. [LBoolean True]) (\<lambda>k. False) demo_state) \<and>
   unwritten demo_state (snd (resume_lensmap_inverse sample_lua
       (\<lambda>x y. [LNil]) (\<lambda>k. False) demo_state)) 1 1 \<and>
   inverse_ly (lens_builder (snd (resume_lensmap_inverse sample_lua
       (\<lambda>x y. [LNil]) (\<lambda>k. False) demo_state))) = - 1"
proof -
  have v: "in_view demo_state 2 1" "in_view demo_state 1 1"
    by (simp_all add: in_view_def demo_state_def demo_lens_def)
  have d: "width_px (lens demo_state) = 3" "inverse_ly (lens_builder demo_state) = 2"
    by (simp_all add: demo_state_def demo_lens_def)
  have m: "malformed_inverse sample_lua [LBoolean True]" "\<not> malformed_inverse sample_lua [LNil]"
    by (simp_all add: malformed_inverse_def)
  note a = inverse_script_error_stops_build [of 1 demo_state 1 sample_lua
      "\<lambda>x y. [LBoolean True]" "\<lambda>k. False"]
  note b = inverse_script_error_stops_build [of 1 demo_state 1 sample_lua "\<lambda>x y. [LNil]"
      "\<lambda>k. False"]
  from a v d m have
    "1 \<le> inverse_ly (lens_builder (snd (resume_lensmap_inverse sample_lua
       (\<lambda>x y. [LBoolean True]) (\<lambda>k. False) demo_state)))"
    "unwritten demo_state (snd (resume_lensmap_inverse sample_lua
       (\<lambda>x y. [LBoolean True]) (\<lambda>k. False) demo_state)) 2 1"
    "\<not> fst (resume_lensmap_inverse sample_lua (\<lambda>x y. [LBoolean True]) (\<lambda>k. False) demo_state)"
    by simp_all
  moreover from b v d m have
    "unwritten demo_state (snd (resume_lensmap_inverse sample_lua
       (\<lambda>x y. [LNil]) (\<lambda>k. False) demo_state)) 1 1"
    "inverse_ly (lens_builder (snd (resume_lensmap_inverse sample_lua
       (\<lambda>x y. [LNil]) (\<lambda>k. False) demo_state))) = - 1"
    by simp_all
  ultimately show ?thesis by blast
qed

text \<open>
  A malformed answer of \<^verbatim>\<open>lens_forward\<close> (anything but a single nil or two numbers)
  stops the forward build, wherever in a row the script is asked: at the upper border
  points of the row under the cursor, and at its lower border points when it is the first
  row of a plate, the left point and the point \<open>0\<close> included. The loop returns
  \<open>working = false\<close> from that row, and the lens-map and the display flags are those it
  found at the head of the row. The statement is about any iteration of the loop: \<open>k\<close>
  calls of the clock have gone by, and \<open>top_r\<close> and \<open>bot_r\<close> are the local pointers
  at that moment.
\<close>

theorem forward_script_error_stops_build:
  assumes "forward_plate_index (lens_builder st) < numplates (globe st)"
    and "0 \<le> forward_py (lens_builder st)" and "\<not> clock k"
    and "stops_row L f st platesize0
             ((of_int (forward_py (lens_builder st)) - 0.5) / of_int platesize0) \<or>
           forward_py (lens_builder st) = platesize0 - 1 \<and>
           stops_row L f st platesize0
             ((of_int (forward_py (lens_builder st)) + 0.5) / of_int platesize0)"
  shows "\<not> fst (forward_loop L f clock k platesize0 top_r bot_r st) \<and>
     lens (snd (forward_loop L f clock k platesize0 top_r bot_r st)) = lens st \<and>
     globe (snd (forward_loop L f clock k platesize0 top_r bot_r st)) = globe st"
  using assms by (rule forward_loop_stops)

theorem forward_script_error_stops_build_witness:
  "\<not> fst (resume_lensmap_forward sample_lua (\<lambda>r. []) (\<lambda>k. False) demo_state) \<and>
   lens (snd (resume_lensmap_forward sample_lua (\<lambda>r. []) (\<lambda>k. False) demo_state))
     = lens demo_state"
proof -
  have d: "forward_plate_index (lens_builder demo_state) = 0" "numplates (globe demo_state) = 1"
      "forward_py (lens_builder demo_state) = 2" "platesize (globe demo_state) = 3"
      "forward_top (lens_builder demo_state) = ROW_A" "forward_bot (lens_builder demo_state) = ROW_B"
    by (simp_all add: demo_state_def demo_lens_def front_globe_def)
  have m: "stops_row sample_lua (\<lambda>r. []) demo_state 3 v" for v
    by (simp add: stops_row_def malformed_forward_def)
  show ?thesis
    using forward_script_error_stops_build [of demo_state "\<lambda>k. False" 0 sample_lua "\<lambda>r. []" 3
        ROW_A ROW_B] m
    by (simp add: resume_lensmap_forward_def d)
qed

section \<open>Properties of the lens scale\<close>

lemma lua_lens_forward_cases:
  "(\<exists>x y. lua_lens_forward L f ray = (1, Some (x, y))) \<or>
   lua_lens_forward L f ray = (0, None) \<or>
   (lua_lens_forward L f ray = (- 1, None) \<and> malformed_forward L (f ray))"
proof (cases "f ray")
  case Nil
  then show ?thesis by (simp add: lua_lens_forward_def malformed_forward_def)
next
  case (Cons a as)
  show ?thesis
  proof (cases as)
    case Nil
    with Cons show ?thesis
      by (auto simp: lua_lens_forward_def malformed_forward_def lua_isnil_def)
  next
    case (Cons b bs)
    with \<open>f ray = a # as\<close> show ?thesis
      by (cases bs) (auto simp: lua_lens_forward_def malformed_forward_def Let_def)
  qed
qed

lemma set_scale_simps:
  "fit (set_scale st s) = fit st" "hfit (set_scale st s) = hfit st"
  "vfit (set_scale st s) = vfit st" "max_hfov (set_scale st s) = max_hfov st"
  "max_vfov (set_scale st s) = max_vfov st" "desired_fov (set_scale st s) = desired_fov st"
  "framesize (set_scale st s) = framesize st" "lua_refs (set_scale st s) = lua_refs st"
  "width_px (lens (set_scale st s)) = width_px (lens st)"
  "height_px (lens (set_scale st s)) = height_px (lens st)"
  "scale (lens (set_scale st s)) = s"
  "set_scale (set_scale st s) s' = set_scale st s'"
  by (simp_all add: set_scale_def)

lemma square_vfov_fields:
  "fit square_vfov_state = 0" "hfit square_vfov_state = 0" "vfit square_vfov_state = 0"
  "max_hfov square_vfov_state = pi" "max_vfov square_vfov_state = pi"
  "desired_fov square_vfov_state = pi"
  "framesize square_vfov_state = FS_HEIGHT_PX"
  "width_px (lens square_vfov_state) = 3" "height_px (lens square_vfov_state) = 3"
  "lens_forward (lua_refs square_vfov_state) = Some stretch_lens"
  by (simp_all add: square_vfov_state_def demo_state_def demo_lens_def no_refs_def)

lemma stretch_probe_h:
  "lua_lens_forward sample_lua stretch_lens (latlon_to_ray 0 (pi / 2)) = (1, Some (1, 0))"
  by (simp add: lua_lens_forward_def stretch_lens_def latlon_to_ray_def Let_def
      lua_isnumber_def lua_tonumber_def)

lemma stretch_probe_v:
  "lua_lens_forward sample_lua stretch_lens (latlon_to_ray (pi / 2) 0) = (1, Some (0, 2))"
  by (simp add: lua_lens_forward_def stretch_lens_def latlon_to_ray_def Let_def
      lua_isnumber_def lua_tonumber_def)

text \<open>
  C1, where the code departs from it. \<^verbatim>\<open>determine_lens_scale\<close> finds out which
  dimension \<^verbatim>\<open>framesize\<close> points to by comparing the value \<^verbatim>\<open>*framesize\<close> with
  \<^verbatim>\<open>lens.width_px\<close> first. On a square viewport the comparison succeeds for a
  vertical field of view as well: with \<^verbatim>\<open>vfov 180\<close> on a 3 by 3 viewport the code
  probes the horizontal ray and takes the scale \<open>2/3\<close> from the \<open>x\<close> coordinate,
  while the vertical probe the claim names gives \<open>4/3\<close>.
\<close>

theorem vfov_on_square_viewport_uses_horizontal_probe:
  "determine_lens_scale sample_lua x0 y0 square_vfov_state
     = Some (1, set_scale square_vfov_state (2 / 3)) \<and>
   spec_fov_scale sample_lua square_vfov_state = Some (4 / 3)"
proof -
  note f = set_scale_simps
  have a: "determine_lens_scale sample_lua x0 y0 square_vfov_state
     = Some (1, set_scale square_vfov_state (2 / 3))"
    by (simp add: determine_lens_scale_def Let_def f square_vfov_fields deref_framesize_def
        stretch_probe_h validate_scale_def not_le)
  have b: "spec_fov_scale sample_lua square_vfov_state = Some (4 / 3)"
    by (simp add: spec_fov_scale_def square_vfov_fields stretch_probe_v)
  from a b show ?thesis by simp
qed

text \<open>
  For a horizontal field of view, and for a vertical one on a viewport that is not
  square, the scale of a successful determination is the one the spec gives, when the
  script answers with two numbers or a nil. The code divides the signed coordinate; the
  final check that the scale is positive makes it the absolute value.
\<close>

theorem fov_scale_as_specified:
  assumes ok: "determine_lens_scale L x0 y0 st = Some (1, st')"
    and modes: "fit st = 0" "hfit st = 0" "vfit st = 0"
    and dims: "0 \<le> width_px (lens st)" "0 \<le> height_px (lens st)"
    and which: "framesize st = FS_WIDTH_PX \<or>
        framesize st = FS_HEIGHT_PX \<and> width_px (lens st) \<noteq> height_px (lens st)"
    and wf: "\<forall>f ray. lens_forward (lua_refs st) = Some f \<longrightarrow> \<not> malformed_forward L (f ray)"
  shows "spec_fov_scale L st = Some (scale (lens st'))"
proof -
  obtain f where f: "lens_forward (lua_refs st) = Some f"
    using ok modes which
    by (cases "lens_forward (lua_refs st)")
      (auto simp: determine_lens_scale_def Let_def set_scale_simps deref_framesize_def
        split: if_splits)
  have pos: "\<bar>a\<bar> / (of_int n / 2) = a / (of_int n * 0.5)"
    if "0 < a / (of_int n * 0.5)" "0 \<le> n" for a :: real and n :: int
  proof -
    from that have "n \<noteq> 0" by auto
    with that have "0 < (of_int n * 0.5 :: real)" by simp
    with that(1) have "0 < a" by (simp add: zero_less_divide_iff)
    then show ?thesis by simp
  qed
  from which show ?thesis
  proof
    assume w: "framesize st = FS_WIDTH_PX"
    let ?ray = "latlon_to_ray 0 (desired_fov st * 0.5)"
    from lua_lens_forward_cases [of L f ?ray] wf f
    consider x y where "lua_lens_forward L f ?ray = (1, Some (x, y))"
      | "lua_lens_forward L f ?ray = (0, None)" by blast
    then show ?thesis
    proof cases
      case 1
      with ok modes w f dims(1)
      have st': "st' = set_scale st (x / (of_int (width_px (lens st)) * 0.5))"
        and gt: "0 < x / (of_int (width_px (lens st)) * 0.5)"
        by (auto simp: determine_lens_scale_def Let_def set_scale_simps deref_framesize_def
            validate_scale_def split: if_splits)
      have "?ray = latlon_to_ray 0 (desired_fov st / 2)" by simp
      with 1 have "snd (lua_lens_forward L f (latlon_to_ray 0 (desired_fov st / 2))) = Some (x, y)"
        by simp
      then show ?thesis
        using pos [OF gt dims(1)] w f
        by (simp add: spec_fov_scale_def st' set_scale_simps)
    next
      case 2
      with ok modes w f show ?thesis
        by (auto simp: determine_lens_scale_def Let_def set_scale_simps deref_framesize_def
            split: if_splits)
    qed
  next
    assume h: "framesize st = FS_HEIGHT_PX \<and> width_px (lens st) \<noteq> height_px (lens st)"
    let ?ray = "latlon_to_ray (desired_fov st * 0.5) 0"
    from lua_lens_forward_cases [of L f ?ray] wf f
    consider x y where "lua_lens_forward L f ?ray = (1, Some (x, y))"
      | "lua_lens_forward L f ?ray = (0, None)" by blast
    then show ?thesis
    proof cases
      case 1
      with ok modes h f dims(2)
      have st': "st' = set_scale st (y / (of_int (height_px (lens st)) * 0.5))"
        and gt: "0 < y / (of_int (height_px (lens st)) * 0.5)"
        by (auto simp: determine_lens_scale_def Let_def set_scale_simps deref_framesize_def
            validate_scale_def split: if_splits)
      have "?ray = latlon_to_ray (desired_fov st / 2) 0" by simp
      with 1 have "snd (lua_lens_forward L f (latlon_to_ray (desired_fov st / 2) 0)) = Some (x, y)"
        by simp
      then show ?thesis
        using pos [OF gt dims(2)] h f
        by (simp add: spec_fov_scale_def st' set_scale_simps)
    next
      case 2
      with ok modes h f show ?thesis
        by (auto simp: determine_lens_scale_def Let_def set_scale_simps deref_framesize_def
            split: if_splits)
    qed
  qed
qed

theorem fov_scale_as_specified_witness:
  "determine_lens_scale sample_lua 0 0 square_hfov_state
     = Some (1, set_scale square_hfov_state (2 / 3)) \<and>
   spec_fov_scale sample_lua square_hfov_state = Some (2 / 3)"
proof -
  have fl: "fit square_hfov_state = 0" "hfit square_hfov_state = 0" "vfit square_hfov_state = 0"
    "max_hfov square_hfov_state = pi" "max_vfov square_hfov_state = pi"
    "desired_fov square_hfov_state = pi"
    "framesize square_hfov_state = FS_WIDTH_PX"
    "width_px (lens square_hfov_state) = 3" "height_px (lens square_hfov_state) = 3"
    "lens_forward (lua_refs square_hfov_state) = Some stretch_lens"
    by (simp_all add: square_hfov_state_def square_vfov_fields)
  have a: "determine_lens_scale sample_lua 0 0 square_hfov_state
     = Some (1, set_scale square_hfov_state (2 / 3))"
    by (simp add: determine_lens_scale_def Let_def set_scale_simps fl deref_framesize_def
        stretch_probe_h validate_scale_def not_le)
  have wf: "\<forall>f ray. lens_forward (lua_refs square_hfov_state) = Some f \<longrightarrow>
      \<not> malformed_forward sample_lua (f ray)"
    by (auto simp: fl stretch_lens_def malformed_forward_def lua_isnumber_def split: prod.splits)
  from fov_scale_as_specified [OF a fl(1-3) _ _ _ wf] fl a show ?thesis
    by (simp add: set_scale_simps)
qed

section \<open>Properties of the loaders\<close>

text \<open>
  C7, as the code has it. When the script has run, the load succeeds unless \<^verbatim>\<open>map\<close>
  is a string that names neither direction, and after a successful load the map type is
  the direction \<^verbatim>\<open>map\<close> names, if it is a string; otherwise it is inverse when only
  \<^verbatim>\<open>lens_inverse\<close> is a function, forward when only \<^verbatim>\<open>lens_forward\<close> is, none when
  neither is, and inverse when both are. The names are compared as C strings: \<^verbatim>\<open>map\<close>
  names a direction when its text up to the first NUL character is \<^verbatim>\<open>"lens_inverse"\<close>
  or \<^verbatim>\<open>"lens_forward"\<close>.
\<close>

theorem lens_load_map_type:
  assumes "run (globals (lua_lens_clear st)) = Some gl"
  shows "fst (lua_lens_load L run st)
       = (if lua_isstring (gl ''map'') \<and> preferred_map L (gl ''map'') = None then 0 else 1) \<and>
     (fst (lua_lens_load L run st) = 1 \<longrightarrow>
      map_type (lens (snd (lua_lens_load L run st))) =
       (case preferred_map L (gl ''map'') of
          Some m \<Rightarrow> m
        | None \<Rightarrow>
            if lua_isfunction (gl ''lens_inverse'') \<and> \<not> lua_isfunction (gl ''lens_forward'')
            then MAP_INVERSE
            else if lua_isfunction (gl ''lens_forward'') \<and> \<not> lua_isfunction (gl ''lens_inverse'')
            then MAP_FORWARD
            else if \<not> lua_isfunction (gl ''lens_inverse'') \<and> \<not> lua_isfunction (gl ''lens_forward'')
            then MAP_NONE
            else MAP_INVERSE))"
proof -
  have s0: "strcmp a b = 0 \<longleftrightarrow> c_str a = c_str b" for a b
    by (simp add: strcmp_def)
  have s1: "c_str ''lens_inverse'' = ''lens_inverse''" "c_str ''lens_forward'' = ''lens_forward''"
    by (simp_all add: c_str_def)
  have ok: "fst (lua_lens_load L run st)
       = (if lua_isstring (gl ''map'') \<and> strcmp (lua_tostring L (gl ''map'')) ''lens_inverse'' \<noteq> 0
             \<and> strcmp (lua_tostring L (gl ''map'')) ''lens_forward'' \<noteq> 0 then 0 else 1)"
    using assms by (simp add: lua_lens_load_def Let_def)
  have mt: "map_type (lens (snd (lua_lens_load L run st))) =
       (if lua_isstring (gl ''map'') \<and> strcmp (lua_tostring L (gl ''map'')) ''lens_inverse'' = 0
        then MAP_INVERSE
        else if lua_isstring (gl ''map'') \<and> strcmp (lua_tostring L (gl ''map'')) ''lens_forward'' = 0
        then MAP_FORWARD
        else if lua_isfunction (gl ''lens_inverse'') then MAP_INVERSE
        else if lua_isfunction (gl ''lens_forward'') then MAP_FORWARD
        else MAP_NONE)"
    using assms by (simp add: lua_lens_load_def Let_def)
  show ?thesis
    unfolding ok mt preferred_map_def s0 s1 by simp
qed

theorem lens_load_map_type_witness:
  "fst (lua_lens_load sample_lua inverse_only_lens demo_state) = 1 \<and>
   map_type (lens (snd (lua_lens_load sample_lua inverse_only_lens demo_state))) = MAP_INVERSE \<and>
   fst (lua_lens_load sample_lua forward_preferred_lens demo_state) = 1 \<and>
   map_type (lens (snd (lua_lens_load sample_lua forward_preferred_lens demo_state))) = MAP_FORWARD"
proof -
  have "fst (lua_lens_load sample_lua inverse_only_lens demo_state) = 1 \<and>
    map_type (lens (snd (lua_lens_load sample_lua inverse_only_lens demo_state))) = MAP_INVERSE"
    using lens_load_map_type [of inverse_only_lens demo_state
        "(globals (lua_lens_clear demo_state))(''lens_inverse'' := LFunction 0)" sample_lua]
    by (simp add: inverse_only_lens_def preferred_map_def lua_isstring_def lua_isfunction_def
        lua_lens_clear_def)
  moreover
  have "fst (lua_lens_load sample_lua forward_preferred_lens demo_state) = 1 \<and>
    map_type (lens (snd (lua_lens_load sample_lua forward_preferred_lens demo_state))) = MAP_FORWARD"
    using lens_load_map_type [of forward_preferred_lens demo_state
        "(globals (lua_lens_clear demo_state))
          (''lens_inverse'' := LFunction 0, ''lens_forward'' := LFunction 1,
           ''map'' := LString ''lens_forward'')" sample_lua]
    by (simp add: forward_preferred_lens_def preferred_map_def lua_isstring_def lua_tostring_def
        c_str_def)
  ultimately show ?thesis by simp
qed

text \<open>
  The claim as the spec words it compares whole strings. The script \<open>nul_name_lens\<close>
  defines \<^verbatim>\<open>lens_inverse\<close> only, and its \<^verbatim>\<open>map\<close> is equal to neither name, so by
  the spec's words the map type is inverse; the load succeeds with the forward map.
\<close>

theorem lens_load_nul_name_counterexample:
  "fst (lua_lens_load sample_lua nul_name_lens demo_state) = 1 \<and>
   map_type (lens (snd (lua_lens_load sample_lua nul_name_lens demo_state))) = MAP_FORWARD \<and>
   named_map sample_lua (the (nul_name_lens (globals (lua_lens_clear demo_state))) ''map'') = None \<and>
   lua_isfunction (the (nul_name_lens (globals (lua_lens_clear demo_state))) ''lens_inverse'') \<and>
   \<not> lua_isfunction (the (nul_name_lens (globals (lua_lens_clear demo_state))) ''lens_forward'')"
  by (simp add: lua_lens_load_def Let_def nul_name_lens_def lua_isstring_def lua_tostring_def
      strcmp_def c_str_def named_map_def lua_isfunction_def lua_lens_clear_def)

lemma lua_vec_read:
  "lua_istable (lua_vec a b c)" "lua_rawlen (lua_vec a b c) = 3"
  "read_vec3 sample_lua (lua_vec a b c) old = (True, (a, b, c))"
  by (simp_all add: lua_vec_def lua_istable_def lua_rawlen_def lua_rawgeti_def read_vec3_def
      lua_isnumber_def lua_tonumber_def upto.simps split: prod.splits)

lemma front_entry_fields:
  "lua_istable front_entry"
  "lua_rawgeti front_entry 1 = lua_vec 0 0 1"
  "lua_rawgeti front_entry 2 = lua_vec 0 1 0"
  "lua_rawgeti front_entry 3 = LNumber 90"
  by (simp_all add: front_entry_def lua_istable_def lua_rawgeti_def)

lemma load_front_entry:
  "\<exists>g'. load_plate sample_lua front_entry i g = Some (1, g') \<and> numplates g' = numplates g"
proof -
  have "(0::real) < 90 * pi / 180" by simp
  then show ?thesis
    by (simp add: load_plate_def Let_def front_entry_fields lua_vec_read lua_tonumber_def not_le)
qed

lemma load_front_entries:
  "\<forall>e\<in>set kvs. snd e = front_entry \<Longrightarrow>
   \<exists>g'. load_plates sample_lua kvs i g = Some (1, i + int (length kvs), g')"
proof (induction kvs arbitrary: i g)
  case Nil
  then show ?case by simp
next
  case (Cons e kvs)
  obtain k where e: "e = (k, front_entry)" using Cons.prems by (cases e) auto
  obtain g1 where g1: "load_plate sample_lua front_entry i g = Some (1, g1)"
    using load_front_entry [of i g] by blast
  obtain g' where "load_plates sample_lua kvs (i + 1) g1 = Some (1, i + 1 + int (length kvs), g')"
    using Cons.IH [of "i + 1" g1] Cons.prems by auto
  then show ?case using e g1 by (simp add: add.commute add.left_commute)
qed

text \<open>
  C2, where the code departs from it. \<^verbatim>\<open>lua_globe_load\<close> never compares the number of
  entries of \<^verbatim>\<open>plates\<close> with \<^verbatim>\<open>MAX_PLATES\<close>: a script with seven well-formed plates
  is loaded with return code \<open>1\<close> and \<open>numplates = 7\<close>, the seventh plate being
  stored past the end of the array of six.
\<close>

theorem seven_plates_are_loaded:
  "map_option fst (lua_globe_load sample_lua seven_plates demo_state) = Some 1 \<and>
   map_option (\<lambda>r. numplates (globe (snd r))) (lua_globe_load sample_lua seven_plates demo_state)
     = Some 7 \<and>
   MAX_PLATES < 7"
proof -
  let ?kvs = "map (\<lambda>n. (LNumber (of_int n), front_entry)) [1..7]"
  have len: "length ?kvs = 7" by simp
  have tbl: "lua_istable (LTable ?kvs)" by (simp add: lua_istable_def)
  have "lua_rawgeti (LTable ?kvs) 1 \<noteq> LNil"
    by (simp add: lua_rawgeti_def upto.simps front_entry_def)
  then have rl: "\<not> lua_rawlen (LTable ?kvs) < 1"
    unfolding lua_rawlen_def lua_value.case len by (simp add: upto.simps)
  obtain g' where g': "load_plates sample_lua ?kvs 0
      (globe ((lua_globe_clear demo_state)
        \<lparr>globals := (globals (lua_globe_clear demo_state))(''plates'' := LTable ?kvs),
         lua_refs := (lua_refs (lua_globe_clear demo_state))
           \<lparr>globe_plate := ref_ray sample_lua LNil\<rparr>\<rparr>)) = Some (1, 7, g')"
  proof -
    have "\<forall>e\<in>set ?kvs. snd e = front_entry" by auto
    from load_front_entries [OF this, of 0] len show ?thesis
      using that by auto
  qed
  have gp: "globals (lua_globe_clear demo_state) ''globe_plate'' = LNil"
    by (simp add: lua_globe_clear_def)
  show ?thesis
    using tbl rl g' gp
    by (simp add: lua_globe_load_def seven_plates_def Let_def MAX_PLATES_def)
qed

theorem seven_plates_are_loaded_witness:
  "\<exists>st'. lua_globe_load sample_lua seven_plates demo_state = Some (1, st') \<and>
     numplates (globe st') = 7"
  using seven_plates_are_loaded
  by (cases "lua_globe_load sample_lua seven_plates demo_state") auto

section \<open>Slicing the forward build\<close>

lemma front_viewD:
  assumes "front_view st"
  shows "forward (plates (globe st) 0) = (0, 0, 1)" "right (plates (globe st) 0) = (1, 0, 0)"
    "up (plates (globe st) 0) = (0, 1, 0)" "dist (plates (globe st) 0) = 1 / 2"
    "numplates (globe st) = 1" "globe_plate (lua_refs st) = None"
    "scale (lens st) = 2 / 3" "width_px (lens st) = 3" "height_px (lens st) = 3"
  using assms unfolding front_view_def by blast+

lemma front_uv_to_screen:
  assumes "front_view st"
  shows "uv_to_screen sample_lua rectilinear st 0 u v
      = (1, Some (c_trunc (3 * u - 1 / 2), c_trunc (3 * v - 1 / 2)))"
proof -
  note g = front_viewD [OF assms]
  define l where "l = VectorLength (u - 1 / 2, 1 / 2 - v, 1 / 2)"
  have "0 < (u - 1 / 2) * (u - 1 / 2) + (1 / 2 - v) * (1 / 2 - v) + (1 / 2) * (1 / 2 :: real)"
    by (intro add_nonneg_pos add_nonneg_nonneg) simp_all
  then have lpos: "0 < l" by (simp add: l_def VectorLength_def)
  have ray: "plate_uv_to_ray (globe st) 0 u v
      = ((u - 1 / 2) * (1 / l), (1 / 2 - v) * (1 / l), (1 / 2) * (1 / l))"
    using lpos
    by (simp add: plate_uv_to_ray_def g Let_def VectorNormalize_def l_def [symmetric])
  have "lua_lens_forward sample_lua rectilinear (plate_uv_to_ray (globe st) 0 u v)
      = (1, Some (2 * u - 1, 1 - 2 * v))"
    using lpos unfolding ray
    by (simp add: lua_lens_forward_def rectilinear_def Let_def lua_isnumber_def lua_tonumber_def
        not_le field_simps)
  moreover have "(3::int) sdiv 2 = 1" by (simp add: signed_divide_int_def)
  moreover have "(2 * u - 1) / (2 / 3) + 1 = 3 * u - 1 / 2"
    "- (1 - 2 * v) / (2 / 3) + 1 = 3 * v - 1 / 2" by (simp_all add: field_simps)
  ultimately show ?thesis
    by (simp add: uv_to_screen_def g Let_def del: divide_divide_eq_right minus_diff_eq)
qed

lemma single_plate_index:
  assumes "numplates g = 1" and "globe_plate refs = None"
  shows "ray_to_plate_index L refs g ray = 0"
proof -
  have "plate_scan g ray 0 (- 2) 0 = 0"
    by (subst plate_scan.simps, subst plate_scan.simps, subst plate_scan.simps)
      (simp add: assms Let_def)
  then show ?thesis by (simp add: ray_to_plate_index_def assms)
qed

lemma c_trunc_numeral [simp]:
  "c_trunc 0 = 0" "c_trunc 1 = 1" "c_trunc (- 1) = - 1"
  "c_trunc (numeral n) = numeral n" "c_trunc (- numeral n) = - numeral n"
  using ceiling_of_int [of "- 1", where ?'a = real] by (simp_all add: c_trunc_def)

lemma store_point_None [simp]: "store_point st row index None = st"
  by (simp add: store_point_def)

lemma store_point_get [simp]:
  "lens (store_point st row index pt) = lens st"
  "globe (store_point st row index pt) = globe st"
  "rubix (store_point st row index pt) = rubix st"
  "lua_refs (store_point st row index pt) = lua_refs st"
  "forward_py (lens_builder (store_point st row index pt)) = forward_py (lens_builder st)"
  "forward_plate_index (lens_builder (store_point st row index pt))
     = forward_plate_index (lens_builder st)"
  "forward_top (lens_builder (store_point st row index pt)) = forward_top (lens_builder st)"
  "forward_bot (lens_builder (store_point st row index pt)) = forward_bot (lens_builder st)"
  by (cases pt; auto simp: store_point_def)+

lemma store_point_rows [simp]:
  "rows (lens_builder (store_point st row index (Some (a, b)))) r j =
     (if r = row \<and> j = index + 1 then b
      else if r = row \<and> j = index then a
      else rows (lens_builder st) r j)"
  by (simp add: store_point_def)

lemma plate_get [simp]:
  "lens_builder (set_lensmap_from_plate st lx ly px py plate_index) = lens_builder st"
  "rubix (set_lensmap_from_plate st lx ly px py plate_index) = rubix st"
  "lua_refs (set_lensmap_from_plate st lx ly px py plate_index) = lua_refs st"
  "width_px (lens (set_lensmap_from_plate st lx ly px py plate_index)) = width_px (lens st)"
  "height_px (lens (set_lensmap_from_plate st lx ly px py plate_index)) = height_px (lens st)"
  "scale (lens (set_lensmap_from_plate st lx ly px py plate_index)) = scale (lens st)"
  "platesize (globe (set_lensmap_from_plate st lx ly px py plate_index)) = platesize (globe st)"
  "numplates (globe (set_lensmap_from_plate st lx ly px py plate_index)) = numplates (globe st)"
  by (simp_all add: set_lensmap_from_plate_def set_lensmap_grid_def Let_def)

lemma plate_pixels [simp]:
  "pixels (lens (set_lensmap_from_plate st lx ly px py plate_index)) i =
     (if 0 \<le> lx \<and> lx < width_px (lens st) \<and> 0 \<le> ly \<and> ly < height_px (lens st) \<and>
         0 \<le> px \<and> px < platesize (globe st) \<and> 0 \<le> py \<and> py < platesize (globe st) \<and>
         i = lx + ly * width_px (lens st)
      then Some (plate_index * platesize (globe st) * platesize (globe st) + px
                 + py * platesize (globe st))
      else pixels (lens st) i)"
  by (auto simp: set_lensmap_from_plate_def set_lensmap_grid_def Let_def LENSPIXEL_def
      GLOBEPIXEL_def)

lemma front_view_store [simp]: "front_view (store_point st row index pt) = front_view st"
  by (cases pt) (auto simp: front_view_def store_point_def)

lemma front_view_plate [simp]:
  "front_view (set_lensmap_from_plate st lx ly px py 0) = front_view st"
  by (simp add: front_view_def set_lensmap_from_plate_def set_lensmap_grid_def Let_def)

lemma front_view_builder [simp]: "front_view (st\<lparr>lens_builder := b\<rparr>) = front_view st"
  by (simp add: front_view_def)

lemma front_view_demo: "front_view demo_state"
  by (simp add: front_view_def demo_state_def demo_lens_def front_globe_def front_plate_def
      no_refs_def)

lemma demo_fields:
  "forward_py (lens_builder demo_state) = 2" "forward_plate_index (lens_builder demo_state) = 0"
  "forward_top (lens_builder demo_state) = ROW_A" "forward_bot (lens_builder demo_state) = ROW_B"
  "numplates (globe demo_state) = 1" "platesize (globe demo_state) = 3"
  "width_px (lens demo_state) = 3" "height_px (lens demo_state) = 3"
  "pixels (lens demo_state) i = None" "rows (lens_builder demo_state) r j = 0"
  "globe_plate (lua_refs demo_state) = None"
  by (simp_all add: demo_state_def demo_lens_def front_globe_def no_refs_def)

lemma front_view_store_row [simp]: "front_view (store_row st row y) = front_view st"
  by (simp add: store_row_def)

lemma front_compute_points:
  assumes "front_view st"
  shows "compute_points sample_lua rectilinear 3 0 v row 0 st
      = (1, store_row st row (c_trunc (3 * v - 1 / 2)))"
  using assms
  by (simp add: compute_points.simps front_uv_to_screen Let_def store_row_def)

lemma front_row_first:
  assumes "front_view st" "forward_py (lens_builder st) = 2"
    "forward_plate_index (lens_builder st) = 0"
  shows "forward_row sample_lua rectilinear 3 t b st
      = (1, t, b, draw_row sample_lua 3 0 2 t b (store_row (store_row st b 2) t 1))"
  unfolding forward_row_def lower_points_def Let_def assms(2,3)
  using assms(1) by (simp add: front_compute_points)

lemma front_row_next:
  assumes "front_view st" "forward_py (lens_builder st) = py" "py \<noteq> 2"
    "forward_plate_index (lens_builder st) = 0"
  shows "forward_row sample_lua rectilinear 3 t b st
      = (1, b, t, draw_row sample_lua 3 0 py b t (store_row st b (py - 1)))"
proof -
  have "c_trunc (3 * ((real_of_int py - 0.5) / 3) - 1 / 2) = py - 1"
  proof -
    have "3 * ((real_of_int py - 0.5) / 3) - 1 / 2 = of_int (py - 1)"
      by (simp add: field_simps)
    then show ?thesis unfolding c_trunc_def by (simp only: floor_of_int ceiling_of_int if_cancel)
  qed
  then show ?thesis
    unfolding forward_row_def lower_points_def Let_def assms(2,4)
    using assms(1,3) by (simp add: front_compute_points)
qed

lemma same_setup_refl: "same_setup st st"
  by (simp add: same_setup_def)

lemma same_setup_trans: "same_setup a b \<Longrightarrow> same_setup b c \<Longrightarrow> same_setup a c"
  by (simp add: same_setup_def)

lemma set_lensmap_from_plate_setup:
  "same_setup st (set_lensmap_from_plate st lx ly px py plate_index)"
  by (simp add: same_setup_def set_lensmap_from_plate_def set_lensmap_grid_def Let_def)

lemma foldl_setup:
  assumes "\<And>s x. same_setup s (f s x)"
  shows "same_setup st (foldl f st xs)"
proof (induction xs arbitrary: st)
  case Nil
  show ?case by (simp add: same_setup_refl)
next
  case (Cons x xs)
  show ?case
    using same_setup_trans [OF assms [of st x] Cons [of "f st x"]] by simp
qed

lemma draw_span_setup: "same_setup st (draw_span st x0 x1 y px py plate_index)"
  unfolding draw_span_def by (rule foldl_setup) (rule set_lensmap_from_plate_setup)

lemma quad_scan_setup:
  "same_setup st (quad_scan st p minx maxx maxy plate_index px py y)"
proof (induction st p minx maxx maxy plate_index px py y rule: quad_scan.induct)
  case (1 st p minx maxx maxy plate_index px py y)
  show ?case
  proof (cases "y \<le> maxy")
    case False
    then show ?thesis by (subst quad_scan.simps) (simp add: same_setup_refl)
  next
    case True
    obtain tx0 tx1 where se: "span_ends p minx maxx y = (tx0, tx1)"
      by (cases "span_ends p minx maxx y")
    show ?thesis
    proof (cases "tx1 - tx0 > 20")
      case True
      with se \<open>y \<le> maxy\<close> show ?thesis
        by (subst quad_scan.simps) (simp add: same_setup_refl)
    next
      case False
      have "same_setup (draw_span st tx0 tx1 y px py plate_index)
          (quad_scan (draw_span st tx0 tx1 y px py plate_index) p minx maxx maxy plate_index
             px py (y + 1))"
        using "1.IH" [OF \<open>y \<le> maxy\<close> se [symmetric] False] .
      with draw_span_setup [of st tx0 tx1 y px py plate_index]
      have "same_setup st
          (quad_scan (draw_span st tx0 tx1 y px py plate_index) p minx maxx maxy plate_index
             px py (y + 1))"
        by (rule same_setup_trans)
      with se False \<open>y \<le> maxy\<close> show ?thesis
        by (subst quad_scan.simps) simp
    qed
  qed
qed

lemma drawQuad_setup: "same_setup st (drawQuad st tl_c tr_c bl_c br_c plate_index px py)"
proof -
  obtain minx maxx
    where bx: "foldl bound_step (fst tl_c, fst tl_c) (map fst [tr_c, br_c, bl_c]) = (minx, maxx)"
    by (cases "foldl bound_step (fst tl_c, fst tl_c) (map fst [tr_c, br_c, bl_c])")
  obtain miny maxy
    where bxy: "foldl bound_step (snd tl_c, snd tl_c) (map snd [tr_c, br_c, bl_c]) = (miny, maxy)"
    by (cases "foldl bound_step (snd tl_c, snd tl_c) (map snd [tr_c, br_c, bl_c])")
  have col: "same_setup st
      (foldl (\<lambda>s ty. set_lensmap_from_plate s x ty px py plate_index) st ys)" for x ys
    by (rule foldl_setup) (rule set_lensmap_from_plate_setup)
  show ?thesis
    unfolding drawQuad_def Let_def bx bxy prod.case
    by (simp add: set_lensmap_from_plate_setup draw_span_setup quad_scan_setup col
        same_setup_refl)
qed

lemma draw_texel_setup:
  "same_setup st (draw_texel L platesize0 plate_index py top_r bot_r st px)"
  using drawQuad_setup by (simp add: draw_texel_def Let_def same_setup_refl)

lemma draw_row_setup: "same_setup st (draw_row L platesize0 plate_index py top_r bot_r st)"
  unfolding draw_row_def by (rule foldl_setup) (rule draw_texel_setup)

lemma front_view_setup: "same_setup st st' \<Longrightarrow> front_view st' = front_view st"
  by (simp add: same_setup_def front_view_def)

lemma draw_row_get [simp]:
  "lens_builder (draw_row L platesize0 plate_index py top_r bot_r st) = lens_builder st"
  "numplates (globe (draw_row L platesize0 plate_index py top_r bot_r st)) = numplates (globe st)"
  "platesize (globe (draw_row L platesize0 plate_index py top_r bot_r st)) = platesize (globe st)"
  "front_view (draw_row L platesize0 plate_index py top_r bot_r st) = front_view st"
  using draw_row_setup [of st L platesize0 plate_index py top_r bot_r]
  by (simp_all add: front_view_setup) (simp_all add: same_setup_def)

lemma forward_loop_done:
  "\<not> forward_plate_index (lens_builder st) < numplates (globe st) \<Longrightarrow>
   forward_loop L f clock k platesize0 top_r bot_r st = (False, st)"
  by (subst forward_loop.simps) simp

lemma forward_loop_plate:
  "forward_plate_index (lens_builder st) < numplates (globe st) \<Longrightarrow>
   forward_py (lens_builder st) < 0 \<Longrightarrow>
   forward_loop L f clock k platesize0 top_r bot_r st
     = forward_loop L f clock k platesize0 top_r bot_r (plate_done platesize0 st)"
  by (subst forward_loop.simps) (simp add: plate_done_def)

lemma forward_loop_yield:
  "forward_plate_index (lens_builder st) < numplates (globe st) \<Longrightarrow>
   0 \<le> forward_py (lens_builder st) \<Longrightarrow> clock k \<Longrightarrow>
   forward_loop L f clock k platesize0 top_r bot_r st = (True, st)"
  by (subst forward_loop.simps) simp

lemma forward_loop_row:
  "forward_plate_index (lens_builder st) < numplates (globe st) \<Longrightarrow>
   0 \<le> forward_py (lens_builder st) \<Longrightarrow> \<not> clock k \<Longrightarrow>
   forward_row L f platesize0 top_r bot_r st = (1, top1, bot1, st1) \<Longrightarrow>
   forward_loop L f clock k platesize0 top_r bot_r st
     = forward_loop L f clock (Suc k) platesize0 top1 bot1 (row_done st1)"
  by (subst forward_loop.simps) (simp add: row_done_def)

lemma row_done_get [simp]:
  "forward_py (lens_builder (row_done st)) = forward_py (lens_builder st) - 1"
  "forward_plate_index (lens_builder (row_done st)) = forward_plate_index (lens_builder st)"
  "forward_top (lens_builder (row_done st)) = forward_top (lens_builder st)"
  "forward_bot (lens_builder (row_done st)) = forward_bot (lens_builder st)"
  "rows (lens_builder (row_done st)) = rows (lens_builder st)"
  "globe (row_done st) = globe st" "lens (row_done st) = lens st"
  "front_view (row_done st) = front_view st"
  by (simp_all add: row_done_def)

lemma plate_done_get [simp]:
  "forward_py (lens_builder (plate_done n st)) = n - 1"
  "forward_plate_index (lens_builder (plate_done n st))
     = forward_plate_index (lens_builder st) + 1"
  "globe (plate_done n st) = globe st" "lens (plate_done n st) = lens st"
  by (simp_all add: plate_done_def)

lemma store_row_get [simp]:
  "lens (store_row st row y) = lens st"
  "globe (store_row st row y) = globe st"
  "lua_refs (store_row st row y) = lua_refs st"
  "forward_py (lens_builder (store_row st row y)) = forward_py (lens_builder st)"
  "forward_plate_index (lens_builder (store_row st row y))
     = forward_plate_index (lens_builder st)"
  "forward_top (lens_builder (store_row st row y)) = forward_top (lens_builder st)"
  "forward_bot (lens_builder (store_row st row y)) = forward_bot (lens_builder st)"
  by (simp_all add: store_row_def)

lemma after_rows_get:
  "front_view after_row2" "forward_py (lens_builder after_row2) = 1"
  "forward_plate_index (lens_builder after_row2) = 0" "numplates (globe after_row2) = 1"
  "front_view after_row1" "forward_py (lens_builder after_row1) = 0"
  "forward_plate_index (lens_builder after_row1) = 0" "numplates (globe after_row1) = 1"
  "forward_top (lens_builder after_row1) = ROW_A" "forward_bot (lens_builder after_row1) = ROW_B"
  "platesize (globe after_row1) = 3"
  "forward_py (lens_builder after_row0) = - 1"
  "forward_plate_index (lens_builder after_row0) = 0" "numplates (globe after_row0) = 1"
  "forward_py (lens_builder after_row0_resumed) = - 1"
  "forward_plate_index (lens_builder after_row0_resumed) = 0"
  "numplates (globe after_row0_resumed) = 1"
  by (simp_all add: after_row2_def after_row1_def after_row0_def after_row0_resumed_def
      front_view_demo demo_fields)

lemma rows_2_1:
  "\<not> clock 0 \<Longrightarrow> \<not> clock 1 \<Longrightarrow>
   forward_loop sample_lua rectilinear clock 0 3 ROW_A ROW_B demo_state
     = forward_loop sample_lua rectilinear clock 2 3 ROW_B ROW_A after_row1"
proof -
  assume c: "\<not> clock 0" "\<not> clock 1"
  have r2: "forward_row sample_lua rectilinear 3 ROW_A ROW_B demo_state
      = (1, ROW_A, ROW_B, draw_row sample_lua 3 0 2 ROW_A ROW_B
           (store_row (store_row demo_state ROW_B 2) ROW_A 1))"
    by (rule front_row_first) (simp_all add: front_view_demo demo_fields)
  have r1: "forward_row sample_lua rectilinear 3 ROW_A ROW_B after_row2
      = (1, ROW_B, ROW_A, draw_row sample_lua 3 0 1 ROW_B ROW_A (store_row after_row2 ROW_B (1 - 1)))"
    by (rule front_row_next) (simp_all add: after_rows_get)
  have "forward_loop sample_lua rectilinear clock 0 3 ROW_A ROW_B demo_state
      = forward_loop sample_lua rectilinear clock (Suc 0) 3 ROW_A ROW_B after_row2"
    unfolding after_row2_def
    by (rule forward_loop_row [OF _ _ _ r2]) (simp_all add: demo_fields c)
  also have "\<dots> = forward_loop sample_lua rectilinear clock (Suc (Suc 0)) 3 ROW_B ROW_A after_row1"
    unfolding after_row1_def
    using forward_loop_row [OF _ _ _ r1, of clock "Suc 0"] c by (simp add: after_rows_get)
  finally show ?thesis by (simp add: numeral_2_eq_2)
qed

lemma one_shot_run:
  "one_shot = (False, plate_done 3 after_row0)"
proof -
  have r0: "forward_row sample_lua rectilinear 3 ROW_B ROW_A after_row1
      = (1, ROW_A, ROW_B, draw_row sample_lua 3 0 0 ROW_A ROW_B (store_row after_row1 ROW_A (0 - 1)))"
    by (rule front_row_next) (simp_all add: after_rows_get)
  have "forward_loop sample_lua rectilinear (\<lambda>k. False) 2 3 ROW_B ROW_A after_row1
      = forward_loop sample_lua rectilinear (\<lambda>k. False) (Suc 2) 3 ROW_A ROW_B after_row0"
    unfolding after_row0_def
    using forward_loop_row [OF _ _ _ r0, of "\<lambda>k. False" 2] by (simp add: after_rows_get)
  also have "\<dots> = forward_loop sample_lua rectilinear (\<lambda>k. False) (Suc 2) 3 ROW_A ROW_B
      (plate_done 3 after_row0)"
    by (rule forward_loop_plate) (simp_all add: after_rows_get)
  also have "\<dots> = (False, plate_done 3 after_row0)"
    by (rule forward_loop_done) (simp add: after_rows_get)
  finally show ?thesis
    by (simp add: one_shot_def first_slice_def resume_lensmap_forward_def demo_fields rows_2_1)
qed

lemma first_slice_run:
  "first_slice = (True, after_row1)"
proof -
  have "forward_loop sample_lua rectilinear (\<lambda>k. 2 \<le> k) 2 3 ROW_B ROW_A after_row1
      = (True, after_row1)"
    by (rule forward_loop_yield) (simp_all add: after_rows_get)
  then show ?thesis
    by (simp add: one_shot_def first_slice_def resume_lensmap_forward_def demo_fields rows_2_1)
qed

lemma second_slice_run:
  "resume_lensmap_forward sample_lua rectilinear (\<lambda>k. False) after_row1
     = (False, plate_done 3 after_row0_resumed)"
proof -
  have r0: "forward_row sample_lua rectilinear 3 ROW_A ROW_B after_row1
      = (1, ROW_B, ROW_A, draw_row sample_lua 3 0 0 ROW_B ROW_A (store_row after_row1 ROW_B (0 - 1)))"
    by (rule front_row_next) (simp_all add: after_rows_get)
  have "forward_loop sample_lua rectilinear (\<lambda>k. False) 0 3 ROW_A ROW_B after_row1
      = forward_loop sample_lua rectilinear (\<lambda>k. False) (Suc 0) 3 ROW_B ROW_A after_row0_resumed"
    unfolding after_row0_resumed_def
    using forward_loop_row [OF _ _ _ r0, of "\<lambda>k. False" 0] by (simp add: after_rows_get)
  also have "\<dots> = forward_loop sample_lua rectilinear (\<lambda>k. False) (Suc 0) 3 ROW_B ROW_A
      (plate_done 3 after_row0_resumed)"
    by (rule forward_loop_plate) (simp_all add: after_rows_get)
  also have "\<dots> = (False, plate_done 3 after_row0_resumed)"
    by (rule forward_loop_done) (simp add: after_rows_get)
  finally show ?thesis
    by (simp add: resume_lensmap_forward_def after_rows_get)
qed

lemma row_isD:
  assumes "row_is st r y"
  shows "rows (lens_builder st) r 0 = - 1" "rows (lens_builder st) r 1 = y"
    "rows (lens_builder st) r 2 = 0" "rows (lens_builder st) r 3 = y"
    "rows (lens_builder st) r 4 = 1" "rows (lens_builder st) r 5 = y"
    "rows (lens_builder st) r 6 = 2" "rows (lens_builder st) r 7 = y"
  using assms by (simp_all add: row_is_def)

lemma row_is_simps [simp]:
  "row_is (store_row st r y) r y"
  "r' \<noteq> r \<Longrightarrow> row_is (store_row st r y) r' y' = row_is st r' y'"
  "row_is (row_done st) r y = row_is st r y"
  "row_is (draw_row L platesize0 plate_index py top_r bot_r st) r y = row_is st r y"
  by (simp_all add: row_is_def store_row_def)

lemmas quad_eval =
  draw_row_def draw_texel_def drawQuad_def quad_scan.simps span_ends_def
  draw_span_def Let_def List.map_filter_def row_point_def upto_rec1
  single_plate_index

lemma front_draw_row_2:
  assumes "front_view st" "platesize (globe st) = 3" "row_is st t 1" "row_is st b 2"
  shows "pixels (lens (draw_row sample_lua 3 0 2 t b st)) i =
     (if i = 3 \<or> i = 6 then Some 7
      else if i = 4 \<or> i = 5 \<or> i = 7 \<or> i = 8 then Some 8
      else pixels (lens st) i)"
  using front_viewD [OF assms(1)] assms(2) row_isD [OF assms(3)] row_isD [OF assms(4)]
  by (simp add: quad_eval)

lemma front_draw_row_1:
  assumes "front_view st" "platesize (globe st) = 3" "row_is st t 0" "row_is st b 1"
  shows "pixels (lens (draw_row sample_lua 3 0 1 t b st)) i =
     (if i = 0 \<or> i = 3 then Some 4
      else if i = 1 \<or> i = 2 \<or> i = 4 \<or> i = 5 then Some 5
      else pixels (lens st) i)"
  using front_viewD [OF assms(1)] assms(2) row_isD [OF assms(3)] row_isD [OF assms(4)]
  by (simp add: quad_eval)

lemma front_draw_row_0:
  assumes "front_view st" "platesize (globe st) = 3" "row_is st t (- 1)" "row_is st b 0"
  shows "pixels (lens (draw_row sample_lua 3 0 0 t b st)) i =
     (if i = 0 then Some 1
      else if i = 1 \<or> i = 2 then Some 2
      else pixels (lens st) i)"
  using front_viewD [OF assms(1)] assms(2) row_isD [OF assms(3)] row_isD [OF assms(4)]
  by (simp add: quad_eval)

lemma front_draw_row_0_stale:
  assumes "front_view st" "platesize (globe st) = 3" "row_is st t (- 1)" "row_is st b 1"
  shows "pixels (lens (draw_row sample_lua 3 0 0 t b st)) i =
     (if i = 0 \<or> i = 3 then Some 1
      else if i = 1 \<or> i = 2 \<or> i = 4 \<or> i = 5 then Some 2
      else pixels (lens st) i)"
  using front_viewD [OF assms(1)] assms(2) row_isD [OF assms(3)] row_isD [OF assms(4)]
  by (simp add: quad_eval)

lemma after_row2_pixels:
  "pixels (lens after_row2) i =
     (if i = 3 \<or> i = 6 then Some 7
      else if i = 4 \<or> i = 5 \<or> i = 7 \<or> i = 8 then Some 8
      else None)"
  unfolding after_row2_def row_done_get
  by (subst front_draw_row_2) (simp_all add: front_view_demo demo_fields)

lemma after_row1_pixels:
  "pixels (lens after_row1) i =
     (if i = 0 \<or> i = 3 then Some 4
      else if i = 1 \<or> i = 2 \<or> i = 4 \<or> i = 5 then Some 5
      else if i = 6 then Some 7
      else if i = 7 \<or> i = 8 then Some 8
      else None)"
proof -
  have r: "row_is after_row2 ROW_A 1"
    by (simp add: after_row2_def)
  show ?thesis
    unfolding after_row1_def row_done_get
    by (subst front_draw_row_1) (simp_all add: after_rows_get r after_row2_pixels, simp add: after_row2_def demo_fields)
qed

lemma after_row1_rows: "row_is after_row1 ROW_A 1" "row_is after_row1 ROW_B 0"
  by (simp_all add: after_row1_def after_row2_def)

lemma after_row0_pixels:
  "pixels (lens after_row0) i =
     (if i = 0 then Some 1
      else if i = 1 \<or> i = 2 then Some 2
      else pixels (lens after_row1) i)"
  unfolding after_row0_def row_done_get
  by (subst front_draw_row_0) (simp_all add: after_rows_get after_row1_rows)

lemma after_row0_resumed_pixels:
  "pixels (lens after_row0_resumed) i =
     (if i = 0 \<or> i = 3 then Some 1
      else if i = 1 \<or> i = 2 \<or> i = 4 \<or> i = 5 then Some 2
      else pixels (lens after_row1) i)"
  unfolding after_row0_resumed_def row_done_get
  by (subst front_draw_row_0_stale) (simp_all add: after_rows_get after_row1_rows)

text \<open>
  C5, where the code departs from it. \<^verbatim>\<open>resume_lensmap_forward\<close> copies the pointers
  \<^verbatim>\<open>top\<close> and \<^verbatim>\<open>bot\<close> out of the builder's state when it is entered and swaps the
  copies after every row; the state keeps the pointers it was given when the build
  started. A call that resumes after an even number of rows therefore reads the lower
  points of its first row from the buffer that holds the points two rows down. On
  \<open>demo_state\<close> (one plate of 3 by 3 texels, a viewport of 3 by 3 pixels, a rectilinear
  lens) the build in one call and the build in two calls, the first of which yields at
  the head of the third row, both finish, and they leave different lens-maps: the middle
  line of the screen shows the texels \<open>4, 5, 5\<close> after the one and \<open>1, 2, 2\<close> after
  the other.
\<close>

theorem forward_build_resumed_differs:
  "fst one_shot = False \<and>
   map (pixels (lens (snd one_shot))) [0, 1, 2, 3, 4, 5, 6, 7, 8]
     = [Some 1, Some 2, Some 2, Some 4, Some 5, Some 5, Some 7, Some 8, Some 8] \<and>
   fst first_slice = True \<and> fst second_slice = False \<and>
   map (pixels (lens (snd second_slice))) [0, 1, 2, 3, 4, 5, 6, 7, 8]
     = [Some 1, Some 2, Some 2, Some 1, Some 2, Some 2, Some 7, Some 8, Some 8]"
proof -
  have s2: "second_slice = (False, plate_done 3 after_row0_resumed)"
    by (simp add: second_slice_def first_slice_run second_slice_run)
  show ?thesis
    unfolding s2 one_shot_run first_slice_run
    by (simp add: after_row0_pixels after_row0_resumed_pixels after_row1_pixels)
qed

section \<open>Slicing the inverse build\<close>

lemma inverse_rows_unlimited:
  "inverse_rows L f (\<lambda>k. False) k st = inverse_rows L f (\<lambda>k. False) k' st"
proof (induction "nat (inverse_ly (lens_builder st) + 1)" arbitrary: k k' st)
  case 0
  then have "inverse_ly (lens_builder st) < 0" by simp
  then show ?case by (simp add: inverse_rows_stop)
next
  case (Suc n)
  then have ge: "0 \<le> inverse_ly (lens_builder st)" by simp
  let ?st1 = "next_row (snd (inverse_row L f (lens_y st (inverse_ly (lens_builder st))) 0 st))"
  have "n = nat (inverse_ly (lens_builder ?st1) + 1)"
    using Suc.hyps(2) by (simp add: next_row_simps row_simps)
  from Suc.hyps(1) [OF this, of "Suc k" "Suc k'"] show ?case
    by (simp add: inverse_rows_step [OF ge])
qed

lemma inverse_rows_resume:
  "(if fst (inverse_rows L f clock k st)
    then inverse_rows L f (\<lambda>k. False) 0 (snd (inverse_rows L f clock k st))
    else (False, snd (inverse_rows L f clock k st)))
   = inverse_rows L f (\<lambda>k. False) 0 st"
proof (induction "nat (inverse_ly (lens_builder st) + 1)" arbitrary: k st)
  case 0
  then have "inverse_ly (lens_builder st) < 0" by simp
  then show ?case by (simp add: inverse_rows_stop)
next
  case (Suc n)
  then have ge: "0 \<le> inverse_ly (lens_builder st)" by simp
  let ?st1 = "next_row (snd (inverse_row L f (lens_y st (inverse_ly (lens_builder st))) 0 st))"
  have "n = nat (inverse_ly (lens_builder ?st1) + 1)"
    using Suc.hyps(2) by (simp add: next_row_simps row_simps)
  note ih = Suc.hyps(1) [OF this, of "Suc k"]
  show ?case
  proof (cases "clock k")
    case True
    then show ?thesis by (simp add: inverse_rows_step [OF ge, of L f clock])
  next
    case False
    show ?thesis
    proof (cases "fst (inverse_row L f (lens_y st (inverse_ly (lens_builder st))) 0 st) = - 1")
      case True
      with False show ?thesis by (simp add: inverse_rows_step [OF ge])
    next
      case ok: False
      have "inverse_rows L f (\<lambda>k. False) 0 st = inverse_rows L f (\<lambda>k. False) (Suc 0) ?st1"
        using ok by (simp add: inverse_rows_step [OF ge])
      also have "\<dots> = inverse_rows L f (\<lambda>k. False) 0 ?st1"
        by (rule inverse_rows_unlimited)
      finally have r: "inverse_rows L f (\<lambda>k. False) 0 st = inverse_rows L f (\<lambda>k. False) 0 ?st1" .
      have l: "inverse_rows L f clock k st = inverse_rows L f clock (Suc k) ?st1"
        using ok False by (simp add: inverse_rows_step [OF ge])
      show ?thesis unfolding l r by (rule ih)
    qed
  qed
qed

text \<open>
  The inverse build resumes exactly. Whatever the clocks of the frames are, a build that is
  started with any clock and resumed frame after frame, the last frame having all the time
  it needs, returns what a single uninterrupted call returns and leaves the same state, the
  lens-map with its pixels and tints included; this also holds when the script stops the
  build.
\<close>

theorem inverse_build_resumes_exactly:
  "resume_frames (resume_lensmap_inverse L f) (clocks @ [\<lambda>k. False])
     (resume_lensmap_inverse L f clock st)
   = resume_lensmap_inverse L f (\<lambda>k. False) st"
proof (induction clocks arbitrary: clock st)
  case Nil
  show ?case
    using inverse_rows_resume [of L f clock 0 st]
    by (cases "inverse_rows L f clock 0 st") (auto simp: resume_lensmap_inverse_def)
next
  case (Cons c clocks)
  show ?case
  proof (cases "inverse_rows L f clock 0 st")
    case (Pair w st1)
    show ?thesis
    proof (cases w)
      case True
      have "resume_frames (resume_lensmap_inverse L f) ((c # clocks) @ [\<lambda>k. False])
          (resume_lensmap_inverse L f clock st)
        = resume_frames (resume_lensmap_inverse L f) (clocks @ [\<lambda>k. False])
            (resume_lensmap_inverse L f c st1)"
        using Pair True by (simp add: resume_lensmap_inverse_def)
      also have "\<dots> = resume_lensmap_inverse L f (\<lambda>k. False) st1"
        by (rule Cons.IH)
      also have "\<dots> = resume_lensmap_inverse L f (\<lambda>k. False) st"
        using inverse_rows_resume [of L f clock 0 st] Pair True
        by (simp add: resume_lensmap_inverse_def)
      finally show ?thesis .
    next
      case False
      have "resume_frames (resume_lensmap_inverse L f) ((c # clocks) @ [\<lambda>k. False])
          (resume_lensmap_inverse L f clock st) = (False, st1)"
        using Pair False by (simp add: resume_lensmap_inverse_def)
      also have "\<dots> = resume_lensmap_inverse L f (\<lambda>k. False) st"
        using inverse_rows_resume [of L f clock 0 st] Pair False
        by (simp add: resume_lensmap_inverse_def)
      finally show ?thesis .
    qed
  qed
qed

section \<open>A nil from the forward map\<close>

lemma front_plate_ray:
  assumes "front_view st"
  shows "\<exists>l>0. plate_uv_to_ray (globe st) 0 u v
      = ((u - 1 / 2) * (1 / l), (1 / 2 - v) * (1 / l), (1 / 2) * (1 / l))"
proof -
  note g = front_viewD [OF assms]
  define l where "l = VectorLength (u - 1 / 2, 1 / 2 - v, 1 / 2)"
  have "0 < (u - 1 / 2) * (u - 1 / 2) + (1 / 2 - v) * (1 / 2 - v) + (1 / 2) * (1 / 2 :: real)"
    by (intro add_nonneg_pos add_nonneg_nonneg) simp_all
  then have lpos: "0 < l" by (simp add: l_def VectorLength_def)
  have "plate_uv_to_ray (globe st) 0 u v
      = ((u - 1 / 2) * (1 / l), (1 / 2 - v) * (1 / l), (1 / 2) * (1 / l))"
    using lpos
    by (simp add: plate_uv_to_ray_def g Let_def VectorNormalize_def l_def [symmetric])
  with lpos show ?thesis by blast
qed

lemma blind_uv_to_screen:
  assumes "front_view st" and "v < 1 / 4"
  shows "uv_to_screen sample_lua upper_blind st 0 u v = (0, None)"
proof -
  obtain l where l: "0 < l" and ray: "plate_uv_to_ray (globe st) 0 u v
      = ((u - 1 / 2) * (1 / l), (1 / 2 - v) * (1 / l), (1 / 2) * (1 / l))"
    using front_plate_ray [OF assms(1)] by blast
  have "(1 / 2) * (1 / l) < 2 * ((1 / 2 - v) * (1 / l))"
    using l assms(2) by (simp add: field_simps)
  then have "lua_lens_forward sample_lua upper_blind (plate_uv_to_ray (globe st) 0 u v) = (0, None)"
    unfolding ray
    by (simp add: lua_lens_forward_def upper_blind_def Let_def lua_isnil_def)
  then show ?thesis by (simp add: uv_to_screen_def Let_def)
qed

lemma seen_uv_to_screen:
  assumes "front_view st" and "1 / 4 \<le> v"
  shows "uv_to_screen sample_lua upper_blind st 0 u v
      = (1, Some (c_trunc (3 * u - 1 / 2), c_trunc (3 * v - 1 / 2)))"
proof -
  note g = front_viewD [OF assms(1)]
  obtain l where l: "0 < l" and ray: "plate_uv_to_ray (globe st) 0 u v
      = ((u - 1 / 2) * (1 / l), (1 / 2 - v) * (1 / l), (1 / 2) * (1 / l))"
    using front_plate_ray [OF assms(1)] by blast
  have "\<not> (1 / 2) * (1 / l) < 2 * ((1 / 2 - v) * (1 / l))"
    using l assms(2) by (simp add: field_simps)
  moreover have "\<not> (1 / 2) * (1 / l) \<le> 0" using l by simp
  ultimately
  have "lua_lens_forward sample_lua upper_blind (plate_uv_to_ray (globe st) 0 u v)
      = (1, Some (2 * u - 1, 1 - 2 * v))"
    using l unfolding ray
    by (simp add: lua_lens_forward_def upper_blind_def Let_def lua_isnumber_def lua_tonumber_def
        field_simps)
  moreover have "(3::int) sdiv 2 = 1" by (simp add: signed_divide_int_def)
  moreover have "(2 * u - 1) / (2 / 3) + 1 = 3 * u - 1 / 2"
    "- (1 - 2 * v) / (2 / 3) + 1 = 3 * v - 1 / 2" by (simp_all add: field_simps)
  ultimately show ?thesis
    by (simp add: uv_to_screen_def g Let_def del: divide_divide_eq_right minus_diff_eq)
qed

lemma blind_compute_points:
  assumes "front_view st" and "v < 1 / 4"
  shows "compute_points sample_lua upper_blind 3 0 v row 0 st = (1, st)"
  using assms
  by (simp add: compute_points.simps blind_uv_to_screen Let_def)

lemma seen_compute_points:
  assumes "front_view st" and "1 / 4 \<le> v"
  shows "compute_points sample_lua upper_blind 3 0 v row 0 st
      = (1, store_row st row (c_trunc (3 * v - 1 / 2)))"
  using assms
  by (simp add: compute_points.simps seen_uv_to_screen Let_def store_row_def)

lemma blind_row_first:
  assumes "front_view st" "forward_py (lens_builder st) = 2"
    "forward_plate_index (lens_builder st) = 0"
  shows "forward_row sample_lua upper_blind 3 t b st
      = (1, t, b, draw_row sample_lua 3 0 2 t b (store_row (store_row st b 2) t 1))"
  unfolding forward_row_def lower_points_def Let_def assms(2,3)
  using assms(1) by (simp add: seen_compute_points)

lemma blind_row_next:
  assumes "front_view st" "forward_py (lens_builder st) = py" "py = 1 \<or> py = 0"
    "forward_plate_index (lens_builder st) = 0"
  shows "forward_row sample_lua upper_blind 3 t b st
      = (1, b, t, draw_row sample_lua 3 0 py b t st)"
proof -
  have "(real_of_int py - 0.5) / 3 < 1 / 4" using assms(3) by auto
  then show ?thesis
    unfolding forward_row_def lower_points_def Let_def assms(2,4)
    using assms(1,3) by (auto simp: blind_compute_points)
qed

lemma blind_rows_get:
  "front_view blind_row1" "forward_py (lens_builder blind_row1) = 0"
  "forward_plate_index (lens_builder blind_row1) = 0" "numplates (globe blind_row1) = 1"
  "platesize (globe blind_row1) = 3" "platesize (globe after_row2) = 3"
  "forward_py (lens_builder blind_row0) = - 1"
  "forward_plate_index (lens_builder blind_row0) = 0" "numplates (globe blind_row0) = 1"
  "row_is after_row2 ROW_A 1" "row_is after_row2 ROW_B 2"
  "row_is blind_row1 ROW_A 1" "row_is blind_row1 ROW_B 2"
  by (simp_all add: blind_row1_def blind_row0_def after_row2_def front_view_demo demo_fields)

lemma blind_build_run: "blind_build = (False, plate_done 3 blind_row0)"
proof -
  let ?c = "\<lambda>k::nat. False"
  have r2: "forward_row sample_lua upper_blind 3 ROW_A ROW_B demo_state
      = (1, ROW_A, ROW_B, draw_row sample_lua 3 0 2 ROW_A ROW_B
           (store_row (store_row demo_state ROW_B 2) ROW_A 1))"
    by (rule blind_row_first) (simp_all add: front_view_demo demo_fields)
  have r1: "forward_row sample_lua upper_blind 3 ROW_A ROW_B after_row2
      = (1, ROW_B, ROW_A, draw_row sample_lua 3 0 1 ROW_B ROW_A after_row2)"
    by (rule blind_row_next) (simp_all add: after_rows_get)
  have r0: "forward_row sample_lua upper_blind 3 ROW_B ROW_A blind_row1
      = (1, ROW_A, ROW_B, draw_row sample_lua 3 0 0 ROW_A ROW_B blind_row1)"
    by (rule blind_row_next) (simp_all add: blind_rows_get)
  have "forward_loop sample_lua upper_blind ?c 0 3 ROW_A ROW_B demo_state
      = forward_loop sample_lua upper_blind ?c (Suc 0) 3 ROW_A ROW_B after_row2"
    unfolding after_row2_def
    by (rule forward_loop_row [OF _ _ _ r2]) (simp_all add: demo_fields)
  also have "\<dots> = forward_loop sample_lua upper_blind ?c (Suc (Suc 0)) 3 ROW_B ROW_A blind_row1"
    unfolding blind_row1_def
    by (rule forward_loop_row [OF _ _ _ r1]) (simp_all add: after_rows_get)
  also have "\<dots> = forward_loop sample_lua upper_blind ?c (Suc (Suc (Suc 0))) 3 ROW_A ROW_B blind_row0"
    unfolding blind_row0_def
    by (rule forward_loop_row [OF _ _ _ r0]) (simp_all add: blind_rows_get)
  also have "\<dots> = forward_loop sample_lua upper_blind ?c (Suc (Suc (Suc 0))) 3 ROW_A ROW_B
      (plate_done 3 blind_row0)"
    by (rule forward_loop_plate) (simp_all add: blind_rows_get)
  also have "\<dots> = (False, plate_done 3 blind_row0)"
    by (rule forward_loop_done) (simp add: blind_rows_get)
  finally show ?thesis
    by (simp add: blind_build_def resume_lensmap_forward_def demo_fields)
qed

lemma stale_draw_row_1:
  assumes "front_view st" "platesize (globe st) = 3" "row_is st t 2" "row_is st b 1"
  shows "pixels (lens (draw_row sample_lua 3 0 1 t b st)) i =
     (if i = 3 \<or> i = 6 then Some 4
      else if i = 4 \<or> i = 5 \<or> i = 7 \<or> i = 8 then Some 5
      else pixels (lens st) i)"
  using front_viewD [OF assms(1)] assms(2) row_isD [OF assms(3)] row_isD [OF assms(4)]
  by (simp add: quad_eval)

lemma stale_draw_row_0:
  assumes "front_view st" "platesize (globe st) = 3" "row_is st t 1" "row_is st b 2"
  shows "pixels (lens (draw_row sample_lua 3 0 0 t b st)) i =
     (if i = 3 \<or> i = 6 then Some 1
      else if i = 4 \<or> i = 5 \<or> i = 7 \<or> i = 8 then Some 2
      else pixels (lens st) i)"
  using front_viewD [OF assms(1)] assms(2) row_isD [OF assms(3)] row_isD [OF assms(4)]
  by (simp add: quad_eval)

lemma blind_row1_pixels:
  "pixels (lens blind_row1) i =
     (if i = 3 \<or> i = 6 then Some 4
      else if i = 4 \<or> i = 5 \<or> i = 7 \<or> i = 8 then Some 5
      else None)"
  unfolding blind_row1_def row_done_get
  by (subst stale_draw_row_1) (simp_all add: after_rows_get blind_rows_get after_row2_pixels)

lemma blind_row0_pixels:
  "pixels (lens blind_row0) i =
     (if i = 3 \<or> i = 6 then Some 1
      else if i = 4 \<or> i = 5 \<or> i = 7 \<or> i = 8 then Some 2
      else None)"
  unfolding blind_row0_def row_done_get
  by (subst stale_draw_row_0) (simp_all add: blind_rows_get blind_row1_pixels)

text \<open>
  C6, where the code departs from it. A nil from \<^verbatim>\<open>lens_forward\<close> skips nothing: the
  loop that computes the border points goes on without storing the point, and the loop
  that draws the quads of the row runs all the same, on what the buffers hold from the
  rows before. With the lens \<open>upper_blind\<close> on \<open>demo_state\<close> the script answers nil
  for every upper border point of the texel rows \<open>1\<close> and \<open>0\<close> (they lie at the
  heights \<open>1/6\<close> and \<open>-1/6\<close>). The build finishes, and the texels \<open>1\<close> and \<open>2\<close>
  of row \<open>0\<close> are what the lens-map shows on the two lower lines of the screen, where
  the quads of row \<open>2\<close> were drawn; row \<open>2\<close> is the only one whose border points the
  lens placed.
\<close>

theorem nil_from_lens_forward_draws_stale_quads:
  "(\<forall>u. uv_to_screen sample_lua upper_blind demo_state 0 u (1 / 6) = (0, None)) \<and>
   (\<forall>u. uv_to_screen sample_lua upper_blind demo_state 0 u (- 1 / 6) = (0, None)) \<and>
   map (pixels (lens after_row2)) [0, 1, 2, 3, 4, 5, 6, 7, 8]
     = [None, None, None, Some 7, Some 8, Some 8, Some 7, Some 8, Some 8] \<and>
   fst blind_build = False \<and>
   map (pixels (lens (snd blind_build))) [0, 1, 2, 3, 4, 5, 6, 7, 8]
     = [None, None, None, Some 1, Some 2, Some 2, Some 1, Some 2, Some 2]"
proof -
  have "uv_to_screen sample_lua upper_blind demo_state 0 u (1 / 6) = (0, None)"
    "uv_to_screen sample_lua upper_blind demo_state 0 u (- 1 / 6) = (0, None)" for u
    by (rule blind_uv_to_screen, simp add: front_view_demo, simp)+
  then show ?thesis
    unfolding blind_build_run
    by (simp add: blind_row0_pixels after_row2_pixels)
qed

end
